theory Spec2Isabelle
  imports Complex_Main "HOL-Library.Sublist" "HOL-Library.AList"
begin

section \<open>Strings\<close>

text \<open>
  A JavaScript string is a sequence of UTF-16 code units: \<open>length\<close>, indexing, \<open>===\<close>,
  \<open>includes\<close>, \<open>startsWith\<close>, \<open>split\<close>, \<open>trim\<close> and a regular expression without the flag
  \<open>u\<close> count and compare code units. The string functions of the program are modelled
  on lists of code units, for any type \<open>'c\<close> of code units. What the engine takes from
  the Unicode tables, and the passage between code units and text as the file system
  and JSON hold it, are parameters:

  \<^item> \<open>js_unit n\<close> is the code unit with the number \<open>n\<close> (\<open>String.fromCharCode\<close>);
  \<^item> \<open>js_toLowerCase\<close> is \<open>String.prototype.toLowerCase\<close> (it may change the length);
  \<^item> \<open>js_canonicalize\<close> is what a regular expression with the flag \<open>i\<close> compares in
    place of the code units themselves (the upper case of a single code unit);
  \<^item> \<open>js_units\<close> gives the code units of a text, \<open>js_text\<close> the text of code units.
\<close>

record 'c jsText =
  js_unit :: "nat \<Rightarrow> 'c"
  js_toLowerCase :: "'c list \<Rightarrow> 'c list"
  js_canonicalize :: "'c \<Rightarrow> 'c"
  js_units :: "string \<Rightarrow> 'c list"
  js_text :: "'c list \<Rightarrow> string"

text \<open>
  Paths, names and JSON text are \<open>string\<close>s (lists of 8-bit characters, read as the
  UTF-8 encoding of the text); they are compared and concatenated only, except for the
  extension of a file name, which \<open>toLowerCase\<close> lower-cases by folding the ASCII
  letters.
\<close>

definition lowerChar :: "char \<Rightarrow> char" where
  "lowerChar c =
     (case map_of (zip ''ABCDEFGHIJKLMNOPQRSTUVWXYZ'' ''abcdefghijklmnopqrstuvwxyz'') c of
        Some d \<Rightarrow> d
      | None \<Rightarrow> c)"

definition toLowerCase :: "string \<Rightarrow> string" where
  "toLowerCase s = map lowerChar s"

text \<open>\<open>t.includes(q)\<close>: \<open>q\<close> occurs in \<open>t\<close> as a contiguous run of code units.\<close>

definition strIncludes :: "'c list \<Rightarrow> 'c list \<Rightarrow> bool" where
  "strIncludes t q = sublist q t"

text \<open>\<open>word.startsWith(p)\<close>.\<close>

definition startsWith :: "'c list \<Rightarrow> 'c list \<Rightarrow> bool" where
  "startsWith word p = prefix p word"

text \<open>
  The code units that \<open>\s\<close> matches and \<open>trim\<close> strips: the white space and the line
  terminators of ECMAScript (tab, line feed, vertical tab, form feed, carriage return,
  space, U+00A0, U+1680, U+2000 to U+200A, U+2028, U+2029, U+202F, U+205F, U+3000,
  U+FEFF).
\<close>

definition whiteSpaceCodes :: "nat list" where
  "whiteSpaceCodes =
     [9, 10, 11, 12, 13, 32, 160, 5760,
      8192, 8193, 8194, 8195, 8196, 8197, 8198, 8199, 8200, 8201, 8202,
      8232, 8233, 8239, 8287, 12288, 65279]"

definition isWhiteSpace :: "'c jsText \<Rightarrow> 'c \<Rightarrow> bool" where
  "isWhiteSpace S c = (c \<in> set (map (js_unit S) whiteSpaceCodes))"

text \<open>
  \<open>t.split(/[\s\-_.]/)\<close>: the pieces between separator code units, empty pieces
  included; a string without separators is a single piece. The separators are white
  space, \<open>-\<close> (45), \<open>_\<close> (95) and \<open>.\<close> (46).
\<close>

definition isWordSeparator :: "'c jsText \<Rightarrow> 'c \<Rightarrow> bool" where
  "isWordSeparator S c =
     (isWhiteSpace S c \<or> c = js_unit S 45 \<or> c = js_unit S 95 \<or> c = js_unit S 46)"

fun splitOn :: "('c \<Rightarrow> bool) \<Rightarrow> 'c list \<Rightarrow> 'c list list" where
  "splitOn p [] = [[]]"
| "splitOn p (c # cs) =
     (if p c then [] # splitOn p cs
      else (case splitOn p cs of
              [] \<Rightarrow> [[c]]
            | w # ws \<Rightarrow> (c # w) # ws))"

section \<open>Numbers\<close>

text \<open>
  A JavaScript number is an IEEE double, and every arithmetic operation rounds. The
  arithmetic of the engine is a parameter: \<open>d_num x\<close> is the double that a literal or an
  integer of value \<open>x\<close> denotes (\<open>d_num (9 / 10)\<close> is the literal \<open>0.9\<close>, and a length
  \<open>n\<close> is \<open>d_num (of_nat n)\<close>), and \<open>d_add\<close>, \<open>d_sub\<close>, \<open>d_mul\<close>, \<open>d_div\<close> are \<open>+\<close>, \<open>-\<close>,
  \<open>*\<close>, \<open>/\<close> on doubles. The doubles that occur in the fuzzy score are finite, and the
  finite doubles are linearly ordered: \<open>Math.min\<close> and the comparisons are those of the
  order of the type \<open>'n\<close>.
\<close>

record 'n doubles =
  d_num :: "rat \<Rightarrow> 'n"
  d_add :: "'n \<Rightarrow> 'n \<Rightarrow> 'n"
  d_sub :: "'n \<Rightarrow> 'n \<Rightarrow> 'n"
  d_mul :: "'n \<Rightarrow> 'n \<Rightarrow> 'n"
  d_div :: "'n \<Rightarrow> 'n \<Rightarrow> 'n"

section \<open>Fuzzy score (file-operations.ts)\<close>

text \<open>
  \<open>levenshteinDistance\<close> fills the table \<open>dp\<close> row by row. \<open>levRow\<close> computes the cells
  \<open>dp[i][1..n]\<close> of one row from the row above (\<open>diag # up # ...\<close> are \<open>dp[i-1][j-1]\<close>,
  \<open>dp[i-1][j]\<close>) and the cell to the left (\<open>dp[i][j-1]\<close>). The cells are integers far
  below \<open>2^53\<close>, on which the arithmetic of doubles is exact.
\<close>

fun levRow :: "'c \<Rightarrow> 'c list \<Rightarrow> nat list \<Rightarrow> nat \<Rightarrow> nat list" where
  "levRow c (d # ds) (diag # up # rest) left =
     (let v = (if c = d then diag else min (up + 1) (min (left + 1) (diag + 1)))
      in v # levRow c ds (up # rest) v)"
| "levRow c ds prev left = []"

fun levRows :: "'c list \<Rightarrow> 'c list \<Rightarrow> nat list \<Rightarrow> nat \<Rightarrow> nat list" where
  "levRows [] str2 prev i = prev"
| "levRows (c # cs) str2 prev i = levRows cs str2 (Suc i # levRow c str2 prev (Suc i)) (Suc i)"

definition levenshteinDistance :: "'c list \<Rightarrow> 'c list \<Rightarrow> nat" where
  "levenshteinDistance str1 str2 = last (levRows str1 str2 [0 ..< Suc (length str2)] 0)"

text \<open>
  The sequence-bonus loop walks the target once and advances \<open>queryIndex\<close> on every
  code unit equal to the next one of the query; \<open>sequenceMatches\<close> counts the advances.
  Each advance runs \<open>sequenceBonus += 0.1\<close>, starting from 0.
\<close>

fun sequenceMatches :: "'c list \<Rightarrow> 'c list \<Rightarrow> nat" where
  "sequenceMatches [] q = 0"
| "sequenceMatches (x # t) [] = 0"
| "sequenceMatches (x # t) (y # q) =
     (if x = y then Suc (sequenceMatches t q) else sequenceMatches t (y # q))"

definition sequenceBonus :: "'n doubles \<Rightarrow> 'c list \<Rightarrow> 'c list \<Rightarrow> 'n" where
  "sequenceBonus N q t =
     ((\<lambda>bonus. d_add N bonus (d_num N (1 / 10))) ^^ sequenceMatches t q) (d_num N 0)"

text \<open>
  The boundary bonus: \<open>boundaryBonus += 0.2\<close>, once, if a word of the target starts with
  the first three code units of the query.
\<close>

definition boundaryBonus :: "'c jsText \<Rightarrow> 'n doubles \<Rightarrow> 'c list \<Rightarrow> 'c list \<Rightarrow> 'n" where
  "boundaryBonus S N q t =
     (if list_ex (\<lambda>word. startsWith word (take (min 3 (length q)) q))
           (splitOn (isWordSeparator S) t)
      then d_add N (d_num N 0) (d_num N (2 / 10)) else d_num N 0)"

text \<open>\<open>calculateFuzzyScore(query, target, caseSensitive)\<close>.\<close>

definition calculateFuzzyScore ::
  "'c jsText \<Rightarrow> ('n :: linorder) doubles \<Rightarrow> 'c list \<Rightarrow> 'c list \<Rightarrow> bool \<Rightarrow> 'n" where
  "calculateFuzzyScore S N query target caseSensitive =
     (let q = (if caseSensitive then query else js_toLowerCase S query);
          t = (if caseSensitive then target else js_toLowerCase S target)
      in if q = t then d_num N 1
         else if strIncludes t q
         then let ratio = d_div N (d_num N (of_nat (length q))) (d_num N (of_nat (length t)))
              in d_mul N (d_num N (9 / 10)) ratio
         else let maxLen = max (length q) (length t)
              in if maxLen = 0 then d_num N 1
                 else let distance = levenshteinDistance q t;
                          similarity = d_sub N (d_num N 1)
                                         (d_div N (d_num N (of_nat distance))
                                                  (d_num N (of_nat maxLen)))
                      in min (d_num N 1)
                           (d_add N (d_add N similarity (sequenceBonus N q t))
                                    (boundaryBonus S N q t)))"

section \<open>Adaptive cache (classes/cache)\<close>

text \<open>
  \<open>Buffer.byteLength(s, 'utf8')\<close>: strings are UTF-8 byte sequences in this model, so the
  byte length is the length.
\<close>

definition byteLength :: "string \<Rightarrow> nat" where
  "byteLength s = length s"

record adaptiveFileConfig =
  MAX_FILE_SIZE :: rat
  CACHE_SIZE :: int
  CACHE_TTL :: int
  CHUNK_SIZE :: int
  FUZZY_SEARCH_THRESHOLD :: rat
  MAX_SEARCH_DEPTH :: int
  MEMORY_PRESSURE_THRESHOLD :: rat

text \<open>
  The readings the cache takes from the host: \<open>os.freemem()\<close>, \<open>os.totalmem()\<close> and
  \<open>Date.now()\<close> (milliseconds).
\<close>

record sysProbe =
  freemem :: nat
  totalmem :: nat
  now :: int

definition memoryPressure :: "sysProbe \<Rightarrow> rat" where
  "memoryPressure probe = 1 - of_nat (freemem probe) / of_nat (totalmem probe)"

definition getAdaptiveConfig :: "sysProbe \<Rightarrow> adaptiveFileConfig" where
  "getAdaptiveConfig probe =
     (let totalMemory = of_nat (totalmem probe) :: rat;
          freeMemory = of_nat (freemem probe) :: rat;
          pressure = memoryPressure probe
      in \<lparr> MAX_FILE_SIZE =
             min (totalMemory * (1 / 10))
               (min (100 * 1024 * 1024) (max (10 * 1024 * 1024) (freeMemory * (5 / 100)))),
           CACHE_SIZE = min (max 10 (int (freemem probe div (1024 * 1024)))) 200,
           CACHE_TTL =
             (if pressure > 7 / 10 then 2 * 60 * 1000
              else if pressure > 5 / 10 then 5 * 60 * 1000
              else 10 * 60 * 1000),
           CHUNK_SIZE =
             (if freemem probe > 2 * 1024 * 1024 * 1024 then 128 * 1024
              else if freemem probe > 512 * 1024 * 1024 then 64 * 1024
              else 32 * 1024),
           FUZZY_SEARCH_THRESHOLD = 3 / 10,
           MAX_SEARCH_DEPTH = 8,
           MEMORY_PRESSURE_THRESHOLD = 8 / 10 \<rparr>)"

record cacheEntry =
  content :: string
  timestamp :: int
  entry_size :: int
  accessCount :: int

text \<open>
  The JavaScript \<open>Map\<close> keeps its keys in insertion order: an association list with
  \<open>AList.update\<close> for \<open>Map.set\<close> (an existing key keeps its place, a new key goes to the
  end) and \<open>AList.delete\<close> for \<open>Map.delete\<close>.
\<close>

record adaptiveFileCache =
  cache :: "(string \<times> cacheEntry) list"
  maxSize :: int
  ttl :: int
  totalMemoryUsage :: int

definition cache_delete :: "string \<Rightarrow> adaptiveFileCache \<Rightarrow> bool \<times> adaptiveFileCache" where
  "cache_delete filePath st =
     (case map_of (cache st) filePath of
        Some cached \<Rightarrow>
          (True, st\<lparr> totalMemoryUsage := totalMemoryUsage st - int (byteLength (content cached)),
                     cache := AList.delete filePath (cache st) \<rparr>)
      | None \<Rightarrow> (False, st\<lparr> cache := AList.delete filePath (cache st) \<rparr>))"

definition cache_clear :: "adaptiveFileCache \<Rightarrow> adaptiveFileCache" where
  "cache_clear st = st\<lparr> cache := [], totalMemoryUsage := 0 \<rparr>"

definition cleanupExpired :: "int \<Rightarrow> adaptiveFileCache \<Rightarrow> adaptiveFileCache" where
  "cleanupExpired now_ms st =
     (let toDelete = map fst (filter (\<lambda>(key, entry). now_ms - timestamp entry > ttl st) (cache st))
      in fold (\<lambda>key s. snd (cache_delete key s)) toDelete st)"

text \<open>
  The comparator of \<open>emergencyCleanup\<close> orders two entries by
  \<open>accessCount * 0.7 + (Date.now() - timestamp) * 0.3\<close>, ascending; \<open>Array.prototype.sort\<close>
  is stable, as \<open>sort_key\<close> is. One reading of the clock stands for the calls of
  \<open>Date.now()\<close> during the sort.
\<close>

definition cleanupScore :: "int \<Rightarrow> cacheEntry \<Rightarrow> rat" where
  "cleanupScore now_ms a =
     of_int (accessCount a) * (7 / 10) + of_int (now_ms - timestamp a) * (3 / 10)"

definition emergencyCleanup :: "int \<Rightarrow> adaptiveFileCache \<Rightarrow> adaptiveFileCache" where
  "emergencyCleanup now_ms st =
     (let targetSize = maxSize st div 2
      in if int (length (cache st)) \<le> targetSize then st
         else let entries = sort_key (\<lambda>(key, a). cleanupScore now_ms a) (cache st);
                  toRemove = take (nat (int (length (cache st)) - targetSize)) entries
              in fold (\<lambda>(key, a) s. snd (cache_delete key s)) toRemove st)"

definition cache_get ::
  "string \<Rightarrow> int \<Rightarrow> int \<Rightarrow> int \<Rightarrow> adaptiveFileCache \<Rightarrow> string option \<times> adaptiveFileCache" where
  "cache_get filePath fileSize lastModified now_ms st =
     (case map_of (cache st) filePath of
        None \<Rightarrow> (None, st)
      | Some cached \<Rightarrow>
          if now_ms - timestamp cached > ttl st \<or> entry_size cached \<noteq> fileSize
          then (None, snd (cache_delete filePath st))
          else let cached' = cached\<lparr> timestamp := now_ms,
                                       accessCount := accessCount cached + 1 \<rparr>
               in (Some (content cached'),
                   st\<lparr> cache := AList.update filePath cached'
                                   (AList.delete filePath (cache st)) \<rparr>))"

text \<open>
  The loop \<open>while (this.cache.size >= this.maxSize)\<close> of \<open>set\<close>: it deletes the first key
  of the map, and leaves the loop when the map is empty or the first key is the empty
  string (which is falsy).
\<close>

function evictWhileFull :: "adaptiveFileCache \<Rightarrow> adaptiveFileCache" where
  "evictWhileFull st =
     (if int (length (cache st)) \<ge> maxSize st
      then (case cache st of
              [] \<Rightarrow> st
            | (firstKey, e) # rest \<Rightarrow>
                if firstKey \<noteq> [] then evictWhileFull (snd (cache_delete firstKey st)) else st)
      else st)"
  by pat_completeness auto
termination
proof (relation "measure (\<lambda>st. length (cache st))")
  show "wf (measure (\<lambda>st. length (cache st)))" by simp
next
  fix st :: adaptiveFileCache and x21 rest firstKey e
  assume c: "cache st = x21 # rest" and x: "(firstKey, e) = x21"
  have d: "AList.delete firstKey (cache st) = AList.delete firstKey rest"
    using c x by (auto simp: AList.delete_eq)
  have l: "length (AList.delete firstKey rest) \<le> length rest"
    by (simp add: AList.delete_eq)
  have "cache (snd (cache_delete firstKey st)) = AList.delete firstKey (cache st)"
    by (simp add: cache_delete_def split: option.splits)
  then show "(snd (cache_delete firstKey st), st) \<in> measure (\<lambda>st. length (cache st))"
    using c d l by simp
qed

definition cache_set ::
  "adaptiveFileConfig \<Rightarrow> sysProbe \<Rightarrow> string \<Rightarrow> string \<Rightarrow> int \<Rightarrow> adaptiveFileCache
     \<Rightarrow> adaptiveFileCache" where
  "cache_set FILE_CONFIG probe filePath cont fileSize st =
     (let contentSize = byteLength cont;
          pressure = memoryPressure probe;
          st1 = (if pressure > MEMORY_PRESSURE_THRESHOLD FILE_CONFIG
                 then emergencyCleanup (now probe) st else st);
          st2 = evictWhileFull st1
      in if of_nat contentSize > MAX_FILE_SIZE FILE_CONFIG * (5 / 10) \<and> pressure > 6 / 10
         then st2
         else let entry = \<lparr> content = cont, timestamp = now probe,
                             entry_size = fileSize, accessCount = 1 \<rparr>
              in st2\<lparr> cache := AList.update filePath entry (cache st2),
                       totalMemoryUsage := totalMemoryUsage st2 + int contentSize \<rparr>)"

text \<open>The constructor: an empty cache with the given capacity and time to live.\<close>

definition newAdaptiveFileCache :: "int \<Rightarrow> int \<Rightarrow> adaptiveFileCache" where
  "newAdaptiveFileCache maxSize0 ttl0 =
     \<lparr> cache = [], maxSize = maxSize0, ttl = ttl0, totalMemoryUsage = 0 \<rparr>"

text \<open>
  A cache of capacity 2 that holds two entries, each read once: \<open>old\<close> was last used at
  time 0, \<open>new\<close> at time 1000.
\<close>

definition twoEntryCache :: adaptiveFileCache where
  "twoEntryCache =
     \<lparr> cache = [(''old'', \<lparr> content = ''x'', timestamp = 0, entry_size = 1, accessCount = 1 \<rparr>),
                (''new'', \<lparr> content = ''y'', timestamp = 1000, entry_size = 1, accessCount = 1 \<rparr>)],
       maxSize = 2, ttl = 300000, totalMemoryUsage = 2 \<rparr>"

text \<open>A host with 16 GiB of memory of which 12 GiB are free, at time 1000.\<close>

definition idleHost :: sysProbe where
  "idleHost = \<lparr> freemem = 12 * 1024 * 1024 * 1024, totalmem = 16 * 1024 * 1024 * 1024,
                now = 1000 \<rparr>"

section \<open>Errors (classes/errors.ts)\<close>

text \<open>
  What a JavaScript \<open>throw\<close> can carry: an \<open>Error\<close> with its message, a
  \<open>FileOperationError\<close> (message, file path, operation), a bare string, or anything
  else. A function that may throw returns \<open>thrown + 'a\<close>, \<open>Inl\<close> for the exception.
\<close>

datatype fileOperation = OpRead | OpWrite | OpList | OpStat

datatype thrown =
    JsError string
  | FileOperationError string string fileOperation
  | ThrownString string
  | ThrownOther

fun getErrorMessage :: "thrown \<Rightarrow> string" where
  "getErrorMessage (JsError message) = message"
| "getErrorMessage (FileOperationError message filePath operation) = message"
| "getErrorMessage (ThrownString s) = s"
| "getErrorMessage ThrownOther = ''Unknown error occurred''"

section \<open>The platform: node:path, node:fs/promises, Date\<close>

text \<open>
  The functions of the Node.js library that the file access layer calls are parameters
  of the model. \<open>pathModule\<close> collects the pure ones.
\<close>

record pathModule =
  path_resolve :: "string \<Rightarrow> string"
  path_join :: "string \<Rightarrow> string \<Rightarrow> string"
  path_relative :: "string \<Rightarrow> string \<Rightarrow> string"
  path_extname :: "string \<Rightarrow> string"
  path_basename :: "string \<Rightarrow> string"
  path_dirname :: "string \<Rightarrow> string"
  toISOString :: "int \<Rightarrow> string"

record stats =
  st_size :: nat
  st_mtime :: int
  st_birthtime :: int
  st_mode :: nat
  st_isFile :: bool
  st_isDirectory :: bool

record dirent =
  d_name :: string
  d_isFile :: bool
  d_isDirectory :: bool

text \<open>
  \<open>'fs fileSystem\<close> collects the calls into \<open>node:fs/promises\<close> over a file-system state
  of type \<open>'fs\<close>. A call that only reads returns its result or the exception; a call
  that writes returns the exception, if any, and the new state. \<open>fs_read fs fd n\<close> is
  \<open>fd.read(buffer, 0, n, 0)\<close> and returns the bytes it has read (at most \<open>n\<close>).
\<close>

record 'fs fileSystem =
  fs_stat :: "'fs \<Rightarrow> string \<Rightarrow> thrown + stats"
  fs_access :: "'fs \<Rightarrow> string \<Rightarrow> thrown option"
  fs_open :: "'fs \<Rightarrow> string \<Rightarrow> thrown + nat"
  fs_read :: "'fs \<Rightarrow> nat \<Rightarrow> nat \<Rightarrow> thrown + string"
  fs_close :: "'fs \<Rightarrow> nat \<Rightarrow> thrown option"
  fs_readFile :: "'fs \<Rightarrow> string \<Rightarrow> thrown + string"
  fs_readdir :: "'fs \<Rightarrow> string \<Rightarrow> thrown + dirent list"
  fs_copyFile :: "string \<Rightarrow> string \<Rightarrow> 'fs \<Rightarrow> thrown option \<times> 'fs"
  fs_mkdir :: "string \<Rightarrow> 'fs \<Rightarrow> thrown option \<times> 'fs"
  fs_writeFile :: "string \<Rightarrow> string \<Rightarrow> 'fs \<Rightarrow> thrown option \<times> 'fs"

section \<open>Binary detection (file-operations.ts)\<close>

definition binaryExtensions :: "string list" where
  "binaryExtensions =
     [''.exe'', ''.dll'', ''.so'', ''.dylib'', ''.bin'', ''.dat'',
      ''.jpg'', ''.jpeg'', ''.png'', ''.gif'', ''.webp'', ''.bmp'', ''.ico'',
      ''.mp3'', ''.mp4'', ''.avi'', ''.mov'', ''.wav'', ''.flac'',
      ''.zip'', ''.tar'', ''.gz'', ''.rar'', ''.7z'',
      ''.pdf'', ''.doc'', ''.docx'', ''.xls'', ''.xlsx'', ''.ppt'', ''.pptx'',
      ''.woff'', ''.woff2'', ''.ttf'', ''.otf'', ''.eot'']"

text \<open>The byte \<open>0\<close>.\<close>

definition nullByte :: char where
  "nullByte = CHR 0x00"

text \<open>
  \<open>Buffer.alloc(sampleSize)\<close> is filled with zeros and \<open>fd.read\<close> overwrites its
  beginning with the bytes read.
\<close>

definition sampleBuffer :: "nat \<Rightarrow> string \<Rightarrow> string" where
  "sampleBuffer sampleSize bytesRead = take sampleSize (bytesRead @ replicate sampleSize nullByte)"

text \<open>
  \<open>isLikelyBinary\<close>. Every exception inside the \<open>try\<close> (from \<open>stat\<close>, \<open>open\<close>,
  \<open>read\<close>, or from \<open>close\<close> in the \<open>finally\<close> block, which overrides a pending
  \<open>return true\<close>) ends in the \<open>catch\<close>, which returns \<open>false\<close>.
\<close>

definition isLikelyBinary :: "pathModule \<Rightarrow> 'fs fileSystem \<Rightarrow> 'fs \<Rightarrow> string \<Rightarrow> bool" where
  "isLikelyBinary lib ops fs filePath =
     (case fs_stat ops fs filePath of
        Inl e \<Rightarrow> False
      | Inr stats \<Rightarrow>
          if st_size stats > 100 * 1024 * 1024 then True
          else let ext = toLowerCase (path_extname lib filePath)
               in if ext \<in> set binaryExtensions then True
                  else if st_size stats > 0
                  then let sampleSize = min 1024 (st_size stats)
                       in (case fs_open ops fs filePath of
                             Inl e \<Rightarrow> False
                           | Inr fd \<Rightarrow>
                               (case fs_read ops fs fd sampleSize of
                                  Inl e \<Rightarrow> False
                                | Inr bytesRead \<Rightarrow>
                                    (case fs_close ops fs fd of
                                       Some e \<Rightarrow> False
                                     | None \<Rightarrow>
                                         nullByte \<in> set (sampleBuffer sampleSize bytesRead))))
                  else False)"

section \<open>Writing a file (file-operations.ts)\<close>

record writeFileResult =
  wr_success :: bool
  wr_file_path :: string
  wr_size :: "nat option"
  wr_created :: "string option"
  wr_last_modified :: "string option"
  wr_message :: "string option"
  wr_error :: "string option"

definition writeFailed :: "string \<Rightarrow> thrown \<Rightarrow> thrown" where
  "writeFailed resolvedPath e =
     FileOperationError (''Failed to write file: '' @ getErrorMessage e) resolvedPath OpWrite"

text \<open>
  \<open>writeFileOptimized(filePath, content, overwrite, createBackup)\<close> on the state made of
  the file system and the cache. \<open>stamp\<close> is the text of \<open>Date.now()\<close> that goes into
  the name of the backup.
\<close>

definition writeFileOptimized ::
  "pathModule \<Rightarrow> 'fs fileSystem \<Rightarrow> string \<Rightarrow> string \<Rightarrow> string \<Rightarrow> bool \<Rightarrow> bool
     \<Rightarrow> 'fs \<times> adaptiveFileCache \<Rightarrow> (thrown + writeFileResult) \<times> ('fs \<times> adaptiveFileCache)" where
  "writeFileOptimized lib ops stamp filePath cont overwrite createBackup w =
     (let resolvedPath = path_resolve lib filePath;
          fs = fst w;
          fileCache = snd w;
          fileExists = (fs_access ops fs resolvedPath = None)
      in if fileExists \<and> \<not> overwrite
         then (Inr \<lparr> wr_success = False, wr_file_path = resolvedPath, wr_size = None,
                      wr_created = None, wr_last_modified = None, wr_message = None,
                      wr_error = Some ''File already exists and overwrite is set to false'' \<rparr>,
               w)
         else
           let (e1, fs1) = (if fileExists \<and> createBackup
                            then fs_copyFile ops resolvedPath (resolvedPath @ ''.backup.'' @ stamp) fs
                            else (None, fs))
           in case e1 of
                Some e \<Rightarrow> (Inl (writeFailed resolvedPath e), (fs1, fileCache))
              | None \<Rightarrow>
                  let dir = path_dirname lib resolvedPath;
                      (e2, fs2) = fs_mkdir ops dir fs1
                  in case e2 of
                       Some e \<Rightarrow> (Inl (writeFailed resolvedPath e), (fs2, fileCache))
                     | None \<Rightarrow>
                         let (e3, fs3) = fs_writeFile ops resolvedPath cont fs2
                         in case e3 of
                              Some e \<Rightarrow> (Inl (writeFailed resolvedPath e), (fs3, fileCache))
                            | None \<Rightarrow>
                                let fileCache' = snd (cache_delete resolvedPath fileCache)
                                in case fs_stat ops fs3 resolvedPath of
                                     Inl e \<Rightarrow> (Inl (writeFailed resolvedPath e), (fs3, fileCache'))
                                   | Inr stats \<Rightarrow>
                                       (Inr \<lparr> wr_success = True, wr_file_path = resolvedPath,
                                               wr_size = Some (st_size stats),
                                               wr_created = Some (toISOString lib (st_birthtime stats)),
                                               wr_last_modified = Some (toISOString lib (st_mtime stats)),
                                               wr_message =
                                                 Some (if fileExists then ''File overwritten successfully''
                                                       else ''File created successfully''),
                                               wr_error = None \<rparr>,
                                        (fs3, fileCache')))"

section \<open>Directory traversal (file-operations.ts)\<close>

text \<open>
  The visitor of \<open>traverseDirectory\<close>. A callback works on a state of type \<open>'s\<close> (what
  its closure can reach); it returns \<open>Inr (Some b)\<close> for a boolean, \<open>Inr None\<close> for
  \<open>undefined\<close>, or \<open>Inl e\<close> when it throws. A field that is \<open>None\<close> is absent.
\<close>

record 's directoryVisitor =
  visitFile :: "(string \<Rightarrow> string \<Rightarrow> stats \<Rightarrow> 's \<Rightarrow> (thrown + bool option) \<times> 's) option"
  visitDirectory :: "(string \<Rightarrow> string \<Rightarrow> 's \<Rightarrow> (thrown + bool option) \<times> 's) option"
  shouldEnterDirectory :: "(string \<Rightarrow> string \<Rightarrow> thrown + bool) option"
  maxDepth :: "rat option"
  includeHidden :: "bool option"
  fileExtensions :: "string list option"

text \<open>
  What the inner function \<open>traverseRecursive\<close> captures from \<open>traverseDirectory\<close>: the
  path module, \<open>fs.readdir\<close> and \<open>fs.stat\<close> (reading the current state), the visitor,
  and the three constants \<open>resolvedPath\<close>, \<open>maxDepth\<close>, \<open>includeHidden\<close>.
\<close>

record 's traversal =
  x_lib :: pathModule
  x_readdir :: "'s \<Rightarrow> string \<Rightarrow> thrown + dirent list"
  x_stat :: "'s \<Rightarrow> string \<Rightarrow> thrown + stats"
  x_visitor :: "'s directoryVisitor"
  x_resolvedPath :: string
  x_maxDepth :: rat
  x_includeHidden :: bool

text \<open>
  \<open>visitor.fileExtensions && visitor.fileExtensions.length > 0\<close> and then
  \<open>!visitor.fileExtensions.includes(ext)\<close>: whether the extension filter skips a file.
\<close>

definition extensionSkipped :: "pathModule \<Rightarrow> string list option \<Rightarrow> string \<Rightarrow> bool" where
  "extensionSkipped lib exts name =
     (case exts of
        None \<Rightarrow> False
      | Some xs \<Rightarrow> xs \<noteq> [] \<and> path_extname lib name \<notin> set xs)"

text \<open>
  The body of the loop \<open>for (const item of items)\<close> in \<open>traverseRecursive\<close>, for one
  item. It ends in one of three ways: the loop goes on with the next item (\<open>Next\<close>, also
  after a \<open>continue\<close>), the function returns (\<open>Return\<close>), or the function first calls
  itself on the subdirectory (\<open>Descend\<close>) and then goes on with the next item.
  An exception of \<open>fs.stat\<close> or \<open>visitFile\<close> is caught by the inner \<open>try\<close>, which skips
  the file; an exception of \<open>visitDirectory\<close> or \<open>shouldEnterDirectory\<close> is caught by
  the outer \<open>try\<close>, which ends the function; a callback that returns \<open>false\<close> makes the
  function return.
\<close>

datatype 's itemOutcome = Next 's | Return 's | Descend string 's

definition visitItem :: "'s traversal \<Rightarrow> string \<Rightarrow> dirent \<Rightarrow> 's \<Rightarrow> 's itemOutcome" where
  "visitItem cx currentPath item s =
     (let itemPath = path_join (x_lib cx) currentPath (d_name item);
          relativePath = path_relative (x_lib cx) (x_resolvedPath cx) itemPath
      in if \<not> x_includeHidden cx \<and> startsWith (d_name item) ''.'' then Next s
         else if d_isFile item
         then (if extensionSkipped (x_lib cx) (fileExtensions (x_visitor cx)) (d_name item)
               then Next s
               else (case x_stat cx s itemPath of
                       Inl e \<Rightarrow> Next s
                     | Inr stats \<Rightarrow>
                         (case visitFile (x_visitor cx) of
                            None \<Rightarrow> Next s
                          | Some visit \<Rightarrow>
                              (case visit itemPath relativePath stats s of
                                 (Inl e, s') \<Rightarrow> Next s'
                               | (Inr shouldContinue, s') \<Rightarrow>
                                   if shouldContinue = Some False then Return s' else Next s'))))
         else if d_isDirectory item
         then (case (case visitDirectory (x_visitor cx) of
                       None \<Rightarrow> (Inr None, s)
                     | Some visit \<Rightarrow> visit itemPath relativePath s) of
                 (Inl e, s') \<Rightarrow> Return s'
               | (Inr shouldContinue, s') \<Rightarrow>
                   if shouldContinue = Some False then Return s'
                   else (case (case shouldEnterDirectory (x_visitor cx) of
                                 None \<Rightarrow> Inr True
                               | Some enter \<Rightarrow> enter itemPath relativePath) of
                           Inl e \<Rightarrow> Return s'
                         | Inr shouldEnter \<Rightarrow>
                             if shouldEnter then Descend itemPath s' else Next s'))
         else Next s)"

text \<open>
  \<open>traverseRecursive(currentPath, depth)\<close> and its loop over the items of the directory
  (\<open>traverseItems\<close>). A directory that \<open>fs.readdir\<close> cannot read is skipped.
\<close>

function traverseRecursive :: "'s traversal \<Rightarrow> string \<Rightarrow> nat \<Rightarrow> 's \<Rightarrow> 's"
  and traverseItems :: "'s traversal \<Rightarrow> string \<Rightarrow> nat \<Rightarrow> dirent list \<Rightarrow> 's \<Rightarrow> 's"
where
  "traverseRecursive cx currentPath depth s =
     (if of_nat depth > x_maxDepth cx then s
      else (case x_readdir cx s currentPath of
              Inl e \<Rightarrow> s
            | Inr items \<Rightarrow> traverseItems cx currentPath depth items s))"
| "traverseItems cx currentPath depth [] s = s"
| "traverseItems cx currentPath depth (item # items) s =
     (case visitItem cx currentPath item s of
        Next s' \<Rightarrow> traverseItems cx currentPath depth items s'
      | Return s' \<Rightarrow> s'
      | Descend itemPath s' \<Rightarrow>
          traverseItems cx currentPath depth items
            (traverseRecursive cx itemPath (Suc depth) s'))"
  by pat_completeness auto
termination
  by (relation "measures
        [\<lambda>x. case x of
                Inl (cx, currentPath, depth, s) \<Rightarrow>
                  2 * nat (\<lfloor>x_maxDepth cx\<rfloor> + 1 - int depth)
              | Inr (cx, currentPath, depth, items, s) \<Rightarrow>
                  2 * nat (\<lfloor>x_maxDepth cx\<rfloor> + 1 - int depth) - 1,
         \<lambda>x. case x of Inl a \<Rightarrow> 0 | Inr b \<Rightarrow> 1,
         \<lambda>x. case x of
                Inl a \<Rightarrow> 0
              | Inr (cx, currentPath, depth, items, s) \<Rightarrow> length items]")
     (auto simp: not_less le_floor_iff)

declare traverseRecursive.simps [simp del]

text \<open>
  \<open>traverseDirectory(rootPath, visitor)\<close>. The defaults are taken with \<open>||\<close>, for which
  an absent \<open>maxDepth\<close> and the number 0 are both falsy.
\<close>

definition traverseDirectory ::
  "pathModule \<Rightarrow> ('s \<Rightarrow> string \<Rightarrow> thrown + dirent list) \<Rightarrow> ('s \<Rightarrow> string \<Rightarrow> thrown + stats)
     \<Rightarrow> string \<Rightarrow> 's directoryVisitor \<Rightarrow> 's \<Rightarrow> 's" where
  "traverseDirectory lib readdir stat rootPath visitor s =
     (let resolvedPath = path_resolve lib rootPath;
          maxDepth0 = (case maxDepth visitor of
                         None \<Rightarrow> 10
                       | Some d \<Rightarrow> if d = 0 then 10 else d);
          includeHidden0 = (case includeHidden visitor of None \<Rightarrow> False | Some b \<Rightarrow> b)
      in traverseRecursive
           \<lparr> x_lib = lib, x_readdir = readdir, x_stat = stat, x_visitor = visitor,
             x_resolvedPath = resolvedPath, x_maxDepth = maxDepth0,
             x_includeHidden = includeHidden0 \<rparr>
           resolvedPath 0 s)"

section \<open>The file access layer as the tools see it\<close>

text \<open>
  The state the tools work on: the file system and the file cache.
\<close>

type_synonym 'fs world = "'fs \<times> adaptiveFileCache"

record fileContent =
  fc_success :: bool
  fc_file_path :: string
  fc_size :: "nat option"
  fc_content :: "string option"
  fc_last_modified :: "string option"
  fc_error :: "string option"

section \<open>Content search (tools/search-file-content)\<close>

text \<open>\<open>ValidSearchFileContentInput\<close>, what the validator hands to the tool.\<close>

record searchFileContentInput =
  sc_directory_path :: string
  sc_search_term :: string
  sc_file_extensions :: "string list option"
  sc_max_results :: rat
  sc_case_sensitive :: bool

record lineMatch =
  line_number :: nat
  line_content :: string
  match_position :: nat

record contentResult =
  cr_file_path :: string
  cr_relative_path :: string
  cr_matches :: "lineMatch list"
  cr_total_matches :: nat

text \<open>
  The search term is escaped before it goes into the regular expression, so
  \<open>searchRegex.exec(line)\<close> looks for the code units of the term themselves; with the
  flag \<open>i\<close> (unless caseSensitive) two code units match when \<open>js_canonicalize\<close> gives
  the same for both. \<open>lastIndex\<close> is reset after every line, so every search starts at
  position 0. \<open>regexExec\<close> gives \<open>match.index\<close>, the position of the first occurrence,
  counted in code units.
\<close>

fun searchFrom :: "'c list \<Rightarrow> 'c list \<Rightarrow> nat \<Rightarrow> nat option" where
  "searchFrom pat [] i = (if pat = [] then Some i else None)"
| "searchFrom pat (c # cs) i = (if prefix pat (c # cs) then Some i else searchFrom pat cs (Suc i))"

definition regexExec :: "'c jsText \<Rightarrow> 'c list \<Rightarrow> bool \<Rightarrow> 'c list \<Rightarrow> nat option" where
  "regexExec S term caseSensitive line =
     (if caseSensitive then searchFrom term line 0
      else searchFrom (map (js_canonicalize S) term) (map (js_canonicalize S) line) 0)"

text \<open>\<open>line.trim()\<close> strips white space and line terminators from both ends.\<close>

definition trim :: "'c jsText \<Rightarrow> 'c list \<Rightarrow> 'c list" where
  "trim S s = rev (dropWhile (isWhiteSpace S) (rev (dropWhile (isWhiteSpace S) s)))"

text \<open>\<open>content.split('\n')\<close>: the pieces between line feeds (code unit 10).\<close>

definition splitLines :: "'c jsText \<Rightarrow> 'c list \<Rightarrow> 'c list list" where
  "splitLines S cont = splitOn (\<lambda>c. c = js_unit S 10) cont"

text \<open>The \<open>forEach\<close> over the lines: one entry for every line on which the term is found.\<close>

definition lineMatches :: "'c jsText \<Rightarrow> 'c list \<Rightarrow> bool \<Rightarrow> 'c list list \<Rightarrow> lineMatch list" where
  "lineMatches S term caseSensitive lines =
     concat (map (\<lambda>(index, line).
                    case regexExec S term caseSensitive line of
                      Some pos \<Rightarrow> [\<lparr> line_number = index + 1,
                                      line_content = js_text S (trim S line),
                                      match_position = pos \<rparr>]
                    | None \<Rightarrow> [])
                 (List.enumerate 0 lines))"

text \<open>
  The \<open>visitFile\<close> callback of the tool. Its state is the \<open>results\<close> array of the closure
  and the world. \<open>readFileOptimized\<close> is a parameter; the content it returns and the
  search term are texts, whose code units the string functions work on. An exception
  inside the \<open>try\<close> is caught and the callback returns \<open>undefined\<close>.
\<close>

definition searchVisitFile ::
  "'c jsText \<Rightarrow> pathModule \<Rightarrow> 'fs fileSystem
     \<Rightarrow> (string \<Rightarrow> 'fs world \<Rightarrow> (thrown + fileContent) \<times> 'fs world)
     \<Rightarrow> searchFileContentInput \<Rightarrow> string \<Rightarrow> string \<Rightarrow> stats
     \<Rightarrow> contentResult list \<times> 'fs world \<Rightarrow> (thrown + bool option) \<times> (contentResult list \<times> 'fs world)" where
  "searchVisitFile S lib ops readFileOptimized args filePath relativePath stats s =
     (let results = fst s; w = snd s
      in if of_nat (length results) \<ge> sc_max_results args then (Inr (Some False), s)
         else if isLikelyBinary lib ops (fst w) filePath then (Inr None, s)
         else (case readFileOptimized filePath w of
                 (Inl e, w') \<Rightarrow> (Inr None, (results, w'))
               | (Inr fileResult, w') \<Rightarrow>
                   (case fc_content fileResult of
                      None \<Rightarrow> (Inr None, (results, w'))
                    | Some cont \<Rightarrow>
                        if \<not> fc_success fileResult \<or> cont = [] then (Inr None, (results, w'))
                        else let lines = splitLines S (js_units S cont);
                                 matches = lineMatches S (js_units S (sc_search_term args))
                                             (sc_case_sensitive args) lines
                             in if length matches > 0
                                then (Inr None,
                                      (results @ [\<lparr> cr_file_path = filePath,
                                                     cr_relative_path = relativePath,
                                                     cr_matches = take 5 matches,
                                                     cr_total_matches = length matches \<rparr>],
                                       w'))
                                else (Inr None, (results, w')))))"

text \<open>
  The traversal of the tool: \<open>traverseDirectory(args.directory_path, {maxDepth: 10,
  fileExtensions: args.file_extensions, visitFile})\<close>, started with no results. It gives
  the \<open>results\<close> array and the world after the search.
\<close>

definition searchFileContentRun ::
  "'c jsText \<Rightarrow> pathModule \<Rightarrow> 'fs fileSystem
     \<Rightarrow> (string \<Rightarrow> 'fs world \<Rightarrow> (thrown + fileContent) \<times> 'fs world)
     \<Rightarrow> searchFileContentInput \<Rightarrow> 'fs world \<Rightarrow> contentResult list \<times> 'fs world" where
  "searchFileContentRun S lib ops readFileOptimized args w =
     traverseDirectory lib
       (\<lambda>s. fs_readdir ops (fst (snd s))) (\<lambda>s. fs_stat ops (fst (snd s)))
       (sc_directory_path args)
       \<lparr> visitFile = Some (searchVisitFile S lib ops readFileOptimized args),
         visitDirectory = None, shouldEnterDirectory = None,
         maxDepth = Some 10, includeHidden = None,
         fileExtensions = sc_file_extensions args \<rparr>
       ([], w)"

section \<open>JSON values\<close>

text \<open>
  The values that \<open>JSON.parse\<close> produces and \<open>JSON.stringify\<close> writes. An object is the
  list of its properties in order. \<open>JSON.stringify\<close> and \<open>JSON.parse\<close> themselves are
  parameters of the model (\<open>stringify\<close>, \<open>parse\<close>).
\<close>

datatype json =
    JNull
  | JBool bool
  | JNum rat
  | JString string
  | JArray "json list"
  | JObject "(string \<times> json) list"

section \<open>Tool arguments (helpers/validation)\<close>

text \<open>
  Reading a property of a parsed value, \<open>parsed.key\<close>: of \<open>null\<close> it throws a
  \<open>TypeError\<close>; of an object it is the value under the key, if any; of a boolean, a
  number, a string or an array it is \<open>undefined\<close> for the keys the tools read. An object
  from \<open>JSON.parse\<close> carries every key once.
\<close>

definition getProp :: "json \<Rightarrow> string \<Rightarrow> thrown + json option" where
  "getProp parsed key =
     (case parsed of
        JNull \<Rightarrow> Inl (JsError (''Cannot read properties of null (reading '' @ key @ '')''))
      | JObject kvs \<Rightarrow> Inr (map_of kvs key)
      | _ \<Rightarrow> Inr None)"

text \<open>Truthiness of a value that may be \<open>undefined\<close> (\<open>None\<close>).\<close>

definition jsTruthy :: "json option \<Rightarrow> bool" where
  "jsTruthy v =
     (case v of
        None \<Rightarrow> False
      | Some JNull \<Rightarrow> False
      | Some (JBool b) \<Rightarrow> b
      | Some (JNum n) \<Rightarrow> n \<noteq> 0
      | Some (JString s) \<Rightarrow> s \<noteq> []
      | Some (JArray xs) \<Rightarrow> True
      | Some (JObject kvs) \<Rightarrow> True)"

text \<open>
  The schemas of the zod library, as far as the tool inputs use them: \<open>z.string().min(n)\<close>,
  \<open>z.boolean()\<close>, \<open>z.number()\<close> with optional \<open>int()\<close>, \<open>min\<close> and \<open>max\<close>,
  \<open>z.array(z.string())\<close> and \<open>.optional()\<close>. \<open>zodValid\<close> says whether a property value
  (\<open>None\<close>: absent) passes. This follows the documentation of zod, whose code is not part
  of the repository.
\<close>

datatype zodType =
    ZString nat
  | ZBoolean
  | ZNumber bool "rat option" "rat option"
  | ZArrayOfString
  | ZOptional zodType

fun zodValid :: "zodType \<Rightarrow> json option \<Rightarrow> bool" where
  "zodValid (ZString n) v = (case v of Some (JString s) \<Rightarrow> n \<le> length s | _ \<Rightarrow> False)"
| "zodValid ZBoolean v = (case v of Some (JBool b) \<Rightarrow> True | _ \<Rightarrow> False)"
| "zodValid (ZNumber isInt lo hi) v =
     (case v of
        Some (JNum x) \<Rightarrow>
          (isInt \<longrightarrow> x = of_int \<lfloor>x\<rfloor>) \<and>
          (case lo of None \<Rightarrow> True | Some l \<Rightarrow> l \<le> x) \<and>
          (case hi of None \<Rightarrow> True | Some h \<Rightarrow> x \<le> h)
      | _ \<Rightarrow> False)"
| "zodValid ZArrayOfString v =
     (case v of
        Some (JArray xs) \<Rightarrow> list_all (\<lambda>x. case x of JString s \<Rightarrow> True | _ \<Rightarrow> False) xs
      | _ \<Rightarrow> False)"
| "zodValid (ZOptional t) v = (case v of None \<Rightarrow> True | Some x \<Rightarrow> zodValid t v)"

text \<open>
  \<open>z.object(shape).parse(parsed)\<close>: the input must be an object and every declared
  property must pass; the result keeps the declared properties only (zod strips unknown
  keys from an object schema by default, and none of the schemas here is \<open>strict()\<close>).
  A failure is a \<open>ZodError\<close> with one issue (path and message) per failing property; the
  wording of the messages is zod's and is a parameter (\<open>message\<close>, \<open>rootMessage\<close>).
\<close>

definition zodObjectParse ::
  "(zodType \<Rightarrow> json option \<Rightarrow> string) \<Rightarrow> (json \<Rightarrow> string) \<Rightarrow> (string \<times> zodType) list \<Rightarrow> json
     \<Rightarrow> (string \<times> string) list + (string \<times> json) list" where
  "zodObjectParse message rootMessage shape parsed =
     (case parsed of
        JObject kvs \<Rightarrow>
          (let failing = filter (\<lambda>(key, t). \<not> zodValid t (map_of kvs key)) shape
           in if failing = []
              then Inr (filter (\<lambda>(key, v). key \<in> set (map fst shape)) kvs)
              else Inl (map (\<lambda>(key, t). (key, message t (map_of kvs key))) failing))
      | _ \<Rightarrow> Inl [([], rootMessage parsed)])"

definition ReadFileInputSchema :: "(string \<times> zodType) list" where
  "ReadFileInputSchema = [(''file_path'', ZString 1)]"

definition ListDirectoryInputSchema :: "(string \<times> zodType) list" where
  "ListDirectoryInputSchema = [(''directory_path'', ZString 1), (''include_hidden'', ZBoolean)]"

definition GetFileInfoInputSchema :: "(string \<times> zodType) list" where
  "GetFileInfoInputSchema = [(''file_path'', ZString 1)]"

definition WriteFileInputSchema :: "(string \<times> zodType) list" where
  "WriteFileInputSchema =
     [(''file_path'', ZString 1), (''content'', ZString 0), (''overwrite'', ZBoolean)]"

definition SearchFilesInputBaseSchema :: "(string \<times> zodType) list" where
  "SearchFilesInputBaseSchema =
     [(''directory_path'', ZString 1),
      (''pattern'', ZString 1),
      (''file_extensions'', ZOptional ZArrayOfString),
      (''max_results'', ZNumber True (Some 1) (Some 500)),
      (''case_sensitive'', ZBoolean),
      (''fuzzy_search'', ZBoolean),
      (''min_score'', ZNumber False (Some 0) (Some 1)),
      (''include_directories'', ZBoolean)]"

text \<open>
  The \<open>z.preprocess\<close> step of \<open>SearchFilesInputSchema\<close>: an object gets the defaults for
  the properties it lacks (\<open>{...defaults, ...input}\<close>). An array is an object for
  \<open>typeof\<close>; its elements become properties named by their indices, which the schema
  does not declare, so only the defaults matter.
\<close>

definition searchFilesDefaults :: "(string \<times> json) list" where
  "searchFilesDefaults =
     [(''max_results'', JNum 50), (''case_sensitive'', JBool False),
      (''fuzzy_search'', JBool False), (''min_score'', JNum (3 / 10)),
      (''include_directories'', JBool False)]"

definition searchFilesPreprocess :: "json \<Rightarrow> json" where
  "searchFilesPreprocess input =
     (case input of
        JObject kvs \<Rightarrow>
          JObject (kvs @ filter (\<lambda>(key, v). key \<notin> set (map fst kvs)) searchFilesDefaults)
      | JArray xs \<Rightarrow> JObject searchFilesDefaults
      | _ \<Rightarrow> input)"

text \<open>The text of the issues: \<open>path: message\<close>, joined by a comma and a space.\<close>

fun joinIssues :: "(string \<times> string) list \<Rightarrow> string" where
  "joinIssues [] = []"
| "joinIssues [(path, message)] = path @ '': '' @ message"
| "joinIssues ((path, message) # rest) = path @ '': '' @ message @ '', '' @ joinIssues rest"

text \<open>
  \<open>validateToolInput(schema, input, toolName)\<close>, with the preprocessing step of the
  schema (the identity for a plain object schema). \<open>parse\<close> is \<open>JSON.parse\<close>: it gives
  the value or the message of its \<open>SyntaxError\<close>.
\<close>

definition validateToolInput ::
  "(string \<Rightarrow> string + json) \<Rightarrow> (zodType \<Rightarrow> json option \<Rightarrow> string) \<Rightarrow> (json \<Rightarrow> string)
     \<Rightarrow> (json \<Rightarrow> json) \<Rightarrow> (string \<times> zodType) list \<Rightarrow> string \<Rightarrow> string
     \<Rightarrow> thrown + (string \<times> json) list" where
  "validateToolInput parse message rootMessage preprocess shape input toolName =
     (case parse input of
        Inl syntaxError \<Rightarrow>
          Inl (JsError (''Invalid JSON input for tool '' @ toolName @ '': '' @ syntaxError))
      | Inr parsed \<Rightarrow>
          (case zodObjectParse message rootMessage shape (preprocess parsed) of
             Inl issues \<Rightarrow>
               Inl (JsError (''Invalid input for tool '' @ toolName @ '': '' @ joinIssues issues))
           | Inr args \<Rightarrow> Inr args))"

text \<open>Reading the properties of validated arguments.\<close>

definition stringArg :: "(string \<times> json) list \<Rightarrow> string \<Rightarrow> string" where
  "stringArg args key = (case map_of args key of Some (JString s) \<Rightarrow> s | _ \<Rightarrow> [])"

definition boolArg :: "(string \<times> json) list \<Rightarrow> string \<Rightarrow> bool" where
  "boolArg args key = (case map_of args key of Some (JBool b) \<Rightarrow> b | _ \<Rightarrow> False)"

definition numberArg :: "(string \<times> json) list \<Rightarrow> string \<Rightarrow> rat" where
  "numberArg args key = (case map_of args key of Some (JNum n) \<Rightarrow> n | _ \<Rightarrow> 0)"

definition stringListArg :: "(string \<times> json) list \<Rightarrow> string \<Rightarrow> string list option" where
  "stringListArg args key =
     (case map_of args key of
        Some (JArray xs) \<Rightarrow> Some (concat (map (\<lambda>x. case x of JString s \<Rightarrow> [s] | _ \<Rightarrow> []) xs))
      | _ \<Rightarrow> None)"

text \<open>
  The two hand-written validators pass some properties on unchecked, though the types
  \<open>ValidAnalyzeProjectInput\<close> and \<open>ValidSearchFileContentInput\<close> declare them as a
  number, an array of strings and a boolean. A value of the declared type is taken as it
  is; for any other value, what JavaScript makes of it where the tool uses it (in
  \<open>depth > maxDepth\<close>, \<open>results.length >= max_results\<close>, \<open>fileExtensions.includes(ext)\<close>)
  is given by the parameters \<open>illTypedNumber\<close> and \<open>illTypedExtensions\<close>.
\<close>

definition asNumber :: "(json \<Rightarrow> rat) \<Rightarrow> json \<Rightarrow> rat" where
  "asNumber illTypedNumber v = (case v of JNum n \<Rightarrow> n | _ \<Rightarrow> illTypedNumber v)"

definition asExtensions :: "(json \<Rightarrow> string list option) \<Rightarrow> json \<Rightarrow> string list option" where
  "asExtensions illTypedExtensions v =
     (case v of
        JArray xs \<Rightarrow>
          if list_all (\<lambda>x. case x of JString s \<Rightarrow> True | _ \<Rightarrow> False) xs
          then Some (concat (map (\<lambda>x. case x of JString s \<Rightarrow> [s] | _ \<Rightarrow> []) xs))
          else illTypedExtensions v
      | _ \<Rightarrow> illTypedExtensions v)"

text \<open>
  \<open>validateSearchFileContentInput\<close>, after \<open>JSON.parse\<close>: the part inside the \<open>try\<close>
  (\<open>validateSearchFileContentParsed\<close>) and the \<open>catch\<close> that wraps every error.
\<close>

definition validateSearchFileContentParsed ::
  "(json \<Rightarrow> rat) \<Rightarrow> (json \<Rightarrow> string list option) \<Rightarrow> json \<Rightarrow> thrown + searchFileContentInput" where
  "validateSearchFileContentParsed illTypedNumber illTypedExtensions parsed =
     (case getProp parsed ''directory_path'' of
        Inl e \<Rightarrow> Inl e
      | Inr directory_path \<Rightarrow>
          (case directory_path of
             Some (JString dir) \<Rightarrow>
               if dir = [] then Inl (JsError ''directory_path is required and must be a string'')
               else (case getProp parsed ''search_term'' of
                       Inl e \<Rightarrow> Inl e
                     | Inr search_term \<Rightarrow>
                         (case search_term of
                            Some (JString term) \<Rightarrow>
                              if term = []
                              then Inl (JsError ''search_term is required and must be a string'')
                              else (case (getProp parsed ''file_extensions'',
                                          getProp parsed ''max_results'',
                                          getProp parsed ''case_sensitive'') of
                                      (Inr file_extensions, Inr max_results, Inr case_sensitive) \<Rightarrow>
                                        Inr \<lparr> sc_directory_path = dir,
                                              sc_search_term = term,
                                              sc_file_extensions =
                                                (if jsTruthy file_extensions
                                                 then asExtensions illTypedExtensions (the file_extensions)
                                                 else None),
                                              sc_max_results =
                                                (if jsTruthy max_results
                                                 then asNumber illTypedNumber (the max_results)
                                                 else 20),
                                              sc_case_sensitive = jsTruthy case_sensitive \<rparr>
                                    | _ \<Rightarrow> Inl (JsError ''Unknown error''))
                          | _ \<Rightarrow> Inl (JsError ''search_term is required and must be a string'')))
           | _ \<Rightarrow> Inl (JsError ''directory_path is required and must be a string'')))"

definition validateSearchFileContentInput ::
  "(string \<Rightarrow> string + json) \<Rightarrow> (json \<Rightarrow> rat) \<Rightarrow> (json \<Rightarrow> string list option) \<Rightarrow> string
     \<Rightarrow> thrown + searchFileContentInput" where
  "validateSearchFileContentInput parse illTypedNumber illTypedExtensions input =
     (case (case parse input of
              Inl syntaxError \<Rightarrow> Inl (JsError syntaxError)
            | Inr parsed \<Rightarrow> validateSearchFileContentParsed illTypedNumber illTypedExtensions parsed) of
        Inl e \<Rightarrow> Inl (JsError (''Invalid search_file_content input: '' @ getErrorMessage e))
      | Inr args \<Rightarrow> Inr args)"

record analyzeProjectInput =
  ap_project_path :: string
  ap_max_depth :: rat

definition validateAnalyzeProjectParsed :: "(json \<Rightarrow> rat) \<Rightarrow> json \<Rightarrow> thrown + analyzeProjectInput" where
  "validateAnalyzeProjectParsed illTypedNumber parsed =
     (case getProp parsed ''project_path'' of
        Inl e \<Rightarrow> Inl e
      | Inr project_path \<Rightarrow>
          (case project_path of
             Some (JString dir) \<Rightarrow>
               if dir = [] then Inl (JsError ''project_path is required and must be a string'')
               else (case getProp parsed ''max_depth'' of
                       Inl e \<Rightarrow> Inl e
                     | Inr max_depth \<Rightarrow>
                         Inr \<lparr> ap_project_path = dir,
                               ap_max_depth =
                                 (if jsTruthy max_depth
                                  then asNumber illTypedNumber (the max_depth) else 5) \<rparr>)
           | _ \<Rightarrow> Inl (JsError ''project_path is required and must be a string'')))"

definition validateAnalyzeProjectInput ::
  "(string \<Rightarrow> string + json) \<Rightarrow> (json \<Rightarrow> rat) \<Rightarrow> string \<Rightarrow> thrown + analyzeProjectInput" where
  "validateAnalyzeProjectInput parse illTypedNumber input =
     (case (case parse input of
              Inl syntaxError \<Rightarrow> Inl (JsError syntaxError)
            | Inr parsed \<Rightarrow> validateAnalyzeProjectParsed illTypedNumber parsed) of
        Inl e \<Rightarrow> Inl (JsError (''Invalid analyze_project input: '' @ getErrorMessage e))
      | Inr args \<Rightarrow> Inr args)"

section \<open>Agent runtime (classes/agent)\<close>

text \<open>
  A tool: its name, its description, its parameter schema (the names of the declared
  properties, the required ones, \<open>additionalProperties\<close>), \<open>strict\<close>, and its
  \<open>invoke\<close>, which takes the argument string, works on the world and returns a string
  or throws.
\<close>

record 'w tool =
  tool_name :: string
  tool_description :: string
  tool_properties :: "string list"
  tool_required :: "string list"
  tool_additionalProperties :: bool
  tool_strict :: "bool option"
  invoke :: "string \<Rightarrow> 'w \<Rightarrow> (thrown + string) \<times> 'w"

text \<open>\<open>ChatCompletionMessageToolCall\<close>: \<open>{id, type: 'function', function: {name, arguments}}\<close>.\<close>

record toolCall =
  tc_id :: string
  tc_name :: string
  tc_arguments :: string

record toolExecutionResult =
  toolCallId :: string
  success :: bool
  response :: string
  error :: "string option"

text \<open>The body of the loop of \<open>executeToolCalls\<close>, for one call.\<close>

definition executeToolCall ::
  "(json \<Rightarrow> string) \<Rightarrow> 'w tool list \<Rightarrow> toolCall \<Rightarrow> 'w \<Rightarrow> toolExecutionResult \<times> 'w" where
  "executeToolCall stringify tools toolCall w =
     (case find (\<lambda>t. tool_name t = tc_name toolCall) tools of
        Some tool \<Rightarrow>
          (case invoke tool (tc_arguments toolCall) w of
             (Inr toolResponse, w') \<Rightarrow>
               (\<lparr> toolCallId = tc_id toolCall, success = True, response = toolResponse,
                   error = None \<rparr>, w')
           | (Inl e, w') \<Rightarrow>
               (\<lparr> toolCallId = tc_id toolCall, success = False,
                   response = stringify (JObject
                     [(''success'', JBool False),
                      (''error'', JString (''Tool execution failed: '' @ getErrorMessage e))]),
                   error = Some (getErrorMessage e) \<rparr>, w'))
      | None \<Rightarrow>
          (\<lparr> toolCallId = tc_id toolCall, success = False,
              response = stringify (JObject
                [(''success'', JBool False),
                 (''error'', JString (''Unknown tool: '' @ tc_name toolCall))]),
              error = Some (''Unknown tool: '' @ tc_name toolCall) \<rparr>, w))"

text \<open>
  \<open>executeToolCalls(toolCalls)\<close>: the loop runs the calls in order, each on the world the
  previous one left, and pushes one result per call onto \<open>results\<close>.
\<close>

fun executeLoop ::
  "(json \<Rightarrow> string) \<Rightarrow> 'w tool list \<Rightarrow> toolCall list \<Rightarrow> toolExecutionResult list \<Rightarrow> 'w
     \<Rightarrow> toolExecutionResult list \<times> 'w" where
  "executeLoop stringify tools [] results w = (results, w)"
| "executeLoop stringify tools (toolCall # rest) results w =
     (case executeToolCall stringify tools toolCall w of
        (result, w') \<Rightarrow> executeLoop stringify tools rest (results @ [result]) w')"

definition executeToolCalls ::
  "(json \<Rightarrow> string) \<Rightarrow> 'w tool list \<Rightarrow> toolCall list \<Rightarrow> 'w \<Rightarrow> toolExecutionResult list \<times> 'w" where
  "executeToolCalls stringify tools calls w = executeLoop stringify tools calls [] w"

text \<open>
  A chunk of the model's stream: \<open>chunk.choices[0]\<close> (absent: \<open>None\<close>) with its \<open>delta\<close>
  and \<open>finish_reason\<close>. In a tool-call delta \<open>tcd_name\<close> and \<open>tcd_arguments\<close> are
  \<open>function?.name\<close> and \<open>function?.arguments\<close>.
\<close>

record toolCallDelta =
  tcd_index :: "nat option"
  tcd_id :: "string option"
  tcd_name :: "string option"
  tcd_arguments :: "string option"

record delta =
  dl_content :: "string option"
  dl_tool_calls :: "toolCallDelta list option"

record choice =
  ch_delta :: delta
  ch_finish_reason :: "string option"

type_synonym chunk = "choice option"

datatype streamEvent =
    OutputTextDelta string
  | ToolCallItem string
  | ToolCallOutputItem

datatype chatMessage =
    SystemMessage string
  | UserMessage string
  | AssistantMessage "string option" "toolCall option list option"
  | ToolMessage string string

text \<open>
  \<open>StreamProcessorState\<close>. \<open>toolCalls\<close> is a JavaScript array written by index, so it may
  have holes (\<open>None\<close>). \<open>currentToolCall\<close> refers to an element of \<open>toolCalls\<close>; the
  model keeps the index of that element.
\<close>

record streamProcessorState =
  accumulatedContent :: string
  toolCalls :: "toolCall option list"
  currentToolCall :: "nat option"
  contentSize :: nat
  currentMessages :: "chatMessage list"

definition MAX_ACCUMULATED_SIZE :: nat where
  "MAX_ACCUMULATED_SIZE = 50 * 1024"

definition truncationNotice :: string where
  "truncationNotice = [CHR 0x0A] @ ''[Content truncated due to size limit]'' @ [CHR 0x0A]"

text \<open>\<open>x || d\<close> for an optional string: the default when \<open>x\<close> is absent or empty.\<close>

definition orElse :: "string option \<Rightarrow> string \<Rightarrow> string" where
  "orElse x d = (case x of None \<Rightarrow> d | Some v \<Rightarrow> if v = [] then d else v)"

text \<open>
  The branch \<open>if (delta.content)\<close> of \<open>processStream\<close>, for a non-empty content: the new
  state and the events yielded.
\<close>

definition handleContent ::
  "streamProcessorState \<Rightarrow> string \<Rightarrow> streamProcessorState \<times> streamEvent list" where
  "handleContent state cont =
     (let deltaSize = byteLength cont
      in if contentSize state + deltaSize > MAX_ACCUMULATED_SIZE
         then (state, [OutputTextDelta truncationNotice])
         else (state\<lparr> accumulatedContent := accumulatedContent state @ cont,
                      contentSize := contentSize state + deltaSize \<rparr>,
               [OutputTextDelta cont]))"

text \<open>\<open>!state.toolCalls[index]\<close>: the index is out of range or a hole.\<close>

definition slotEmpty :: "toolCall option list \<Rightarrow> nat \<Rightarrow> bool" where
  "slotEmpty calls i = (i \<ge> length calls \<or> calls ! i = None)"

text \<open>\<open>state.toolCalls[index] = v\<close>: an assignment past the end leaves holes.\<close>

definition setSlot :: "nat \<Rightarrow> toolCall \<Rightarrow> toolCall option list \<Rightarrow> toolCall option list" where
  "setSlot i v calls =
     (if i < length calls then calls[i := Some v]
      else calls @ replicate (i - length calls) None @ [Some v])"

definition handleToolCallDelta :: "toolCallDelta \<Rightarrow> streamProcessorState \<Rightarrow> streamProcessorState" where
  "handleToolCallDelta toolCallDelta state =
     (case tcd_index toolCallDelta of
        None \<Rightarrow> state
      | Some i \<Rightarrow>
          if slotEmpty (toolCalls state) i
          then state\<lparr> toolCalls :=
                         setSlot i \<lparr> tc_id = orElse (tcd_id toolCallDelta) [],
                                     tc_name = orElse (tcd_name toolCallDelta) [],
                                     tc_arguments = orElse (tcd_arguments toolCallDelta) [] \<rparr>
                           (toolCalls state),
                       currentToolCall := Some i \<rparr>
          else (case (toolCalls state ! i, tcd_arguments toolCallDelta) of
                  (Some existingToolCall, Some a) \<Rightarrow>
                    if a = [] then state
                    else state\<lparr> toolCalls :=
                                   (toolCalls state)
                                     [i := Some (existingToolCall
                                                   \<lparr> tc_arguments := tc_arguments existingToolCall @ a \<rparr>)] \<rparr>
                | _ \<Rightarrow> state))"

definition handleToolCallDeltas ::
  "toolCallDelta list \<Rightarrow> streamProcessorState \<Rightarrow> streamProcessorState" where
  "handleToolCallDeltas toolCallDeltas state = fold handleToolCallDelta toolCallDeltas state"

text \<open>
  The events for new tool calls are yielded before \<open>handleToolCallDeltas\<close> runs, so all
  of them are decided on the state before the chunk's deltas are applied.
\<close>

definition newToolCallEvents :: "toolCallDelta list \<Rightarrow> streamProcessorState \<Rightarrow> streamEvent list" where
  "newToolCallEvents toolCallDeltas state =
     concat (map (\<lambda>toolCallDelta.
                    case tcd_index toolCallDelta of
                      None \<Rightarrow> []
                    | Some i \<Rightarrow>
                        if slotEmpty (toolCalls state) i
                        then [ToolCallItem (orElse (tcd_name toolCallDelta) ''unknown_tool'')]
                        else [])
                 toolCallDeltas)"

text \<open>
  One chunk with a choice: the content branch, then the tool-call branch. The result
  also says whether the chunk ends the stream with a request for tool calls
  (\<open>finish_reason === 'tool_calls' && state.toolCalls.length > 0\<close>).
\<close>

definition processChoice ::
  "choice \<Rightarrow> streamProcessorState \<Rightarrow> streamProcessorState \<times> streamEvent list \<times> bool" where
  "processChoice ch state =
     (let d = ch_delta ch;
          (state1, events1) =
             (case dl_content d of
                None \<Rightarrow> (state, [])
              | Some cont \<Rightarrow> if cont = [] then (state, []) else handleContent state cont);
          (state2, events2) =
             (case dl_tool_calls d of
                None \<Rightarrow> (state1, [])
              | Some toolCallDeltas \<Rightarrow>
                  (handleToolCallDeltas toolCallDeltas state1,
                   newToolCallEvents toolCallDeltas state1))
      in (state2, events1 @ events2,
          ch_finish_reason ch = Some ''tool_calls'' \<and> length (toolCalls state2) > 0))"

text \<open>
  The loop \<open>for await (const chunk of stream)\<close> up to the end of the stream or to the
  chunk that requests tool calls (the chunks after it are not read).
\<close>

fun consumeStream ::
  "streamProcessorState \<Rightarrow> chunk list \<Rightarrow> streamProcessorState \<times> streamEvent list \<times> bool" where
  "consumeStream state [] = (state, [], False)"
| "consumeStream state (None # rest) = consumeStream state rest"
| "consumeStream state (Some ch # rest) =
     (let (state', events, toolCallsRequested) = processChoice ch state
      in if toolCallsRequested then (state', events, True)
         else let (state'', events', requested) = consumeStream state' rest
              in (state'', events @ events', requested))"

text \<open>
  How a call of \<open>processStream\<close> ends: the generator completes, it throws, or (in the
  model only) the bound on the number of follow-up rounds is used up.
\<close>

datatype streamOutcome = Completed | Failed thrown | OutOfFuel

definition toolResultEvent :: "toolExecutionResult \<Rightarrow> streamEvent" where
  "toolResultEvent result =
     (if success result then ToolCallOutputItem
      else OutputTextDelta ([CHR 0x0A, CHR 0x0A] @ ''Error executing tool: ''
                             @ (case error result of None \<Rightarrow> ''undefined'' | Some e \<Rightarrow> e)))"

text \<open>
  \<open>processStream(stream, tools, initialMessages)\<close>. \<open>create\<close> is the provider's
  \<open>chat.completions.create\<close> for the follow-up request: it gives the chunks of the new
  stream or throws. The function calls itself for every round of tool calls; the first
  argument bounds the number of rounds. When the array of tool calls has a hole,
  \<open>executeToolCalls\<close> runs the calls before the hole and then throws a \<open>TypeError\<close> on
  reading \<open>toolCall.function\<close> (or \<open>toolCall.id\<close>, when there are no tools to compare
  names with).
\<close>

fun processStream ::
  "nat \<Rightarrow> (json \<Rightarrow> string) \<Rightarrow> 'w tool list \<Rightarrow> (chatMessage list \<Rightarrow> thrown + chunk list)
     \<Rightarrow> chunk list \<Rightarrow> chatMessage list \<Rightarrow> 'w \<Rightarrow> (streamEvent list \<times> streamOutcome) \<times> 'w" where
  "processStream 0 stringify tools create stream initialMessages w = (([], OutOfFuel), w)"
| "processStream (Suc fuel) stringify tools create stream initialMessages w =
     (let state0 = \<lparr> accumulatedContent = [], toolCalls = [], currentToolCall = None,
                      contentSize = 0, currentMessages = initialMessages \<rparr>;
          (state, events, toolCallsRequested) = consumeStream state0 stream
      in if \<not> toolCallsRequested then ((events, Completed), w)
         else if None \<in> set (toolCalls state)
         then let (partial, w') =
                    executeToolCalls stringify tools
                      (map the (takeWhile (\<lambda>c. c \<noteq> None) (toolCalls state))) w
              in ((events,
                   Failed (JsError (if tools = []
                                    then ''Cannot read properties of undefined (reading 'id')''
                                    else ''Cannot read properties of undefined (reading 'function')''))),
                  w')
         else let (toolResults, w') =
                    executeToolCalls stringify tools (map the (toolCalls state)) w;
                  events' = events @ map toolResultEvent toolResults;
                  followupMessages =
                    currentMessages state
                    @ [AssistantMessage
                         (if accumulatedContent state = [] then None
                          else Some (accumulatedContent state))
                         (Some (toolCalls state))]
                    @ map (\<lambda>result. ToolMessage (toolCallId result) (response result)) toolResults
              in (case create followupMessages of
                    Inl e \<Rightarrow> ((events', Failed e), w')
                  | Inr followupStream \<Rightarrow>
                      (let ((events'', outcome), w'') =
                             processStream fuel stringify tools create followupStream
                               followupMessages w'
                       in ((events' @ events'', outcome), w''))))"

section \<open>Tool registry (tools)\<close>

text \<open>
  The results of the file access layer that the tools serialise, and the JSON objects
  that \<open>JSON.stringify\<close> receives for them. A property whose value is \<open>undefined\<close>
  (\<open>None\<close>) is left out, as \<open>JSON.stringify\<close> leaves it out.
\<close>

definition optProp :: "string \<Rightarrow> ('a \<Rightarrow> json) \<Rightarrow> 'a option \<Rightarrow> (string \<times> json) list" where
  "optProp key f v = (case v of None \<Rightarrow> [] | Some x \<Rightarrow> [(key, f x)])"

definition jsonNat :: "nat \<Rightarrow> json" where
  "jsonNat n = JNum (of_nat n)"

definition fileContentJson :: "fileContent \<Rightarrow> json" where
  "fileContentJson r =
     JObject ([(''success'', JBool (fc_success r)), (''file_path'', JString (fc_file_path r))]
              @ optProp ''size'' jsonNat (fc_size r)
              @ optProp ''content'' JString (fc_content r)
              @ optProp ''last_modified'' JString (fc_last_modified r)
              @ optProp ''error'' JString (fc_error r))"

definition writeFileResultJson :: "writeFileResult \<Rightarrow> json" where
  "writeFileResultJson r =
     JObject ([(''success'', JBool (wr_success r)), (''file_path'', JString (wr_file_path r))]
              @ optProp ''size'' jsonNat (wr_size r)
              @ optProp ''created'' JString (wr_created r)
              @ optProp ''last_modified'' JString (wr_last_modified r)
              @ optProp ''message'' JString (wr_message r)
              @ optProp ''error'' JString (wr_error r))"

record directoryItem =
  di_name :: string
  di_type :: string
  di_size :: "nat option"
  di_last_modified :: "string option"

record directoryListing =
  ls_success :: bool
  ls_directory_path :: string
  ls_contents :: "directoryItem list option"
  ls_total_items :: "nat option"
  ls_error :: "string option"

definition directoryItemJson :: "directoryItem \<Rightarrow> json" where
  "directoryItemJson i =
     JObject [(''name'', JString (di_name i)), (''type'', JString (di_type i)),
              (''size'', case di_size i of None \<Rightarrow> JNull | Some n \<Rightarrow> jsonNat n),
              (''last_modified'', case di_last_modified i of None \<Rightarrow> JNull | Some t \<Rightarrow> JString t)]"

definition directoryListingJson :: "directoryListing \<Rightarrow> json" where
  "directoryListingJson r =
     JObject ([(''success'', JBool (ls_success r)),
               (''directory_path'', JString (ls_directory_path r))]
              @ optProp ''contents'' (\<lambda>items. JArray (map directoryItemJson items)) (ls_contents r)
              @ optProp ''total_items'' jsonNat (ls_total_items r)
              @ optProp ''error'' JString (ls_error r))"

record fileInfo =
  fi_success :: bool
  fi_file_path :: string
  fi_name :: "string option"
  fi_extension :: "string option"
  fi_type :: "string option"
  fi_size :: "nat option"
  fi_last_modified :: "string option"
  fi_created :: "string option"
  fi_permissions :: "string option"
  fi_is_readable :: "bool option"
  fi_is_binary :: "bool option"
  fi_is_large :: "bool option"
  fi_item_count :: "nat option"
  fi_error :: "string option"

definition fileInfoJson :: "fileInfo \<Rightarrow> json" where
  "fileInfoJson r =
     JObject ([(''success'', JBool (fi_success r)), (''file_path'', JString (fi_file_path r))]
              @ optProp ''name'' JString (fi_name r)
              @ optProp ''extension'' JString (fi_extension r)
              @ optProp ''type'' JString (fi_type r)
              @ optProp ''size'' jsonNat (fi_size r)
              @ optProp ''last_modified'' JString (fi_last_modified r)
              @ optProp ''created'' JString (fi_created r)
              @ optProp ''permissions'' JString (fi_permissions r)
              @ optProp ''is_readable'' JBool (fi_is_readable r)
              @ optProp ''item_count'' jsonNat (fi_item_count r)
              @ optProp ''is_binary'' JBool (fi_is_binary r)
              @ optProp ''is_large'' JBool (fi_is_large r)
              @ optProp ''error'' JString (fi_error r))"

record fuzzySearchResult =
  fr_file_path :: string
  fr_relative_path :: string
  fr_filename :: string
  fr_directory :: string
  fr_size :: nat
  fr_last_modified :: string
  fr_score :: rat
  fr_match_type :: string

definition fuzzySearchResultJson :: "fuzzySearchResult \<Rightarrow> json" where
  "fuzzySearchResultJson r =
     JObject [(''file_path'', JString (fr_file_path r)),
              (''relative_path'', JString (fr_relative_path r)),
              (''filename'', JString (fr_filename r)),
              (''directory'', JString (fr_directory r)),
              (''size'', jsonNat (fr_size r)),
              (''last_modified'', JString (fr_last_modified r)),
              (''score'', JNum (fr_score r)),
              (''match_type'', JString (fr_match_type r))]"

text \<open>
  The options of \<open>fuzzySearchFiles\<close>. \<open>fuzzy_find_files\<close> passes \<open>directory_path\<close> and
  \<open>max_results\<close> as they come out of \<open>JSON.parse\<close>, so these two are JSON values.
\<close>

record fuzzySearchOptions =
  fo_query :: string
  fo_directory_path :: json
  fo_file_extensions :: "string list option"
  fo_max_results :: json
  fo_case_sensitive :: bool
  fo_min_score :: rat
  fo_include_directories :: bool

record patternResult =
  pr_file_path :: string
  pr_relative_path :: string
  pr_size :: nat
  pr_last_modified :: string

definition patternResultJson :: "patternResult \<Rightarrow> json" where
  "patternResultJson r =
     JObject [(''file_path'', JString (pr_file_path r)),
              (''relative_path'', JString (pr_relative_path r)),
              (''size'', jsonNat (pr_size r)),
              (''last_modified'', JString (pr_last_modified r))]"

record patternOptions =
  po_fileExtensions :: "string list option"
  po_maxResults :: rat
  po_caseSensitive :: bool
  po_includeDirectories :: bool

definition lineMatchJson :: "lineMatch \<Rightarrow> json" where
  "lineMatchJson m =
     JObject [(''line_number'', jsonNat (line_number m)),
              (''line_content'', JString (line_content m)),
              (''match_position'', jsonNat (match_position m))]"

definition contentResultJson :: "contentResult \<Rightarrow> json" where
  "contentResultJson r =
     JObject [(''file_path'', JString (cr_file_path r)),
              (''relative_path'', JString (cr_relative_path r)),
              (''matches'', JArray (map lineMatchJson (cr_matches r))),
              (''total_matches'', jsonNat (cr_total_matches r))]"

text \<open>
  What the tools run on. The path module, the string functions of the engine, the file
  system, \<open>JSON.parse\<close>, \<open>JSON.stringify\<close>, the wording of zod's messages, \<open>process.cwd()\<close>, the text of
  \<open>Date.now()\<close> and JavaScript's reading of ill-typed arguments are the platform. The
  operations \<open>readFileOptimized\<close>, \<open>listDirectoryOptimized\<close>, \<open>getFileInfoOptimized\<close>,
  \<open>fuzzySearchFiles\<close> and \<open>searchFilesByPattern\<close> of the file access layer are
  parameters as well: each works on the world and returns its result or throws.
  \<open>isLikelyBinary\<close>, \<open>writeFileOptimized\<close> and \<open>traverseDirectory\<close> are the functions
  defined above.
\<close>

record ('fs, 'c) platform =
  pf_lib :: pathModule
  pf_text :: "'c jsText"
  pf_ops :: "'fs fileSystem"
  pf_parse :: "string \<Rightarrow> string + json"
  pf_stringify :: "json \<Rightarrow> string"
  pf_zodMessage :: "zodType \<Rightarrow> json option \<Rightarrow> string"
  pf_zodRootMessage :: "json \<Rightarrow> string"
  pf_cwd :: string
  pf_stamp :: string
  pf_illTypedNumber :: "json \<Rightarrow> rat"
  pf_illTypedExtensions :: "json \<Rightarrow> string list option"
  pf_readFileOptimized :: "string \<Rightarrow> 'fs world \<Rightarrow> (thrown + fileContent) \<times> 'fs world"
  pf_listDirectoryOptimized ::
    "string \<Rightarrow> bool \<Rightarrow> 'fs world \<Rightarrow> (thrown + directoryListing) \<times> 'fs world"
  pf_getFileInfoOptimized :: "string \<Rightarrow> 'fs world \<Rightarrow> (thrown + fileInfo) \<times> 'fs world"
  pf_fuzzySearchFiles ::
    "fuzzySearchOptions \<Rightarrow> 'fs world \<Rightarrow> (thrown + fuzzySearchResult list) \<times> 'fs world"
  pf_searchFilesByPattern ::
    "string \<Rightarrow> string \<Rightarrow> patternOptions \<Rightarrow> 'fs world \<Rightarrow> (thrown + patternResult list) \<times> 'fs world"

text \<open>
  The \<open>catch\<close> blocks of the tools. Four tools report the path of a
  \<open>FileOperationError\<close> (or \<open>unknown\<close>) under \<open>pathKey\<close>; the others report the message
  only.
\<close>

definition errorFilePath :: "thrown \<Rightarrow> string" where
  "errorFilePath e = (case e of FileOperationError message filePath operation \<Rightarrow> filePath
                               | _ \<Rightarrow> ''unknown'')"

definition failureWithPath :: "string \<Rightarrow> thrown \<Rightarrow> json" where
  "failureWithPath pathKey e =
     JObject [(''success'', JBool False), (pathKey, JString (errorFilePath e)),
              (''error'', JString (getErrorMessage e))]"

definition failure :: "thrown \<Rightarrow> json" where
  "failure e = JObject [(''success'', JBool False), (''error'', JString (getErrorMessage e))]"

definition validateWith ::
  "('fs, 'c) platform \<Rightarrow> (json \<Rightarrow> json) \<Rightarrow> (string \<times> zodType) list \<Rightarrow> string \<Rightarrow> string
     \<Rightarrow> thrown + (string \<times> json) list" where
  "validateWith pf preprocess shape input toolName =
     validateToolInput (pf_parse pf) (pf_zodMessage pf) (pf_zodRootMessage pf)
       preprocess shape input toolName"

definition readFileInvoke :: "('fs, 'c) platform \<Rightarrow> string \<Rightarrow> 'fs world \<Rightarrow> (thrown + string) \<times> 'fs world" where
  "readFileInvoke pf input w =
     (case validateWith pf (\<lambda>x. x) ReadFileInputSchema input ''read_file'' of
        Inl e \<Rightarrow> (Inr (pf_stringify pf (failureWithPath ''file_path'' e)), w)
      | Inr args \<Rightarrow>
          let file_path = stringArg args ''file_path''
          in if isLikelyBinary (pf_lib pf) (pf_ops pf) (fst w) file_path
             then (Inr (pf_stringify pf
                          (JObject [(''success'', JBool False),
                                    (''file_path'', JString (path_resolve (pf_lib pf) file_path)),
                                    (''error'', JString ''File appears to be binary and cannot be read as text'')])),
                   w)
             else (case pf_readFileOptimized pf file_path w of
                     (Inl e, w') \<Rightarrow> (Inr (pf_stringify pf (failureWithPath ''file_path'' e)), w')
                   | (Inr result, w') \<Rightarrow> (Inr (pf_stringify pf (fileContentJson result)), w')))"

definition listDirectoryInvoke ::
  "('fs, 'c) platform \<Rightarrow> string \<Rightarrow> 'fs world \<Rightarrow> (thrown + string) \<times> 'fs world" where
  "listDirectoryInvoke pf input w =
     (case validateWith pf (\<lambda>x. x) ListDirectoryInputSchema input ''list_directory'' of
        Inl e \<Rightarrow> (Inr (pf_stringify pf (failureWithPath ''directory_path'' e)), w)
      | Inr args \<Rightarrow>
          (case pf_listDirectoryOptimized pf (stringArg args ''directory_path'')
                  (boolArg args ''include_hidden'') w of
             (Inl e, w') \<Rightarrow> (Inr (pf_stringify pf (failureWithPath ''directory_path'' e)), w')
           | (Inr result, w') \<Rightarrow> (Inr (pf_stringify pf (directoryListingJson result)), w')))"

definition getFileInfoInvoke ::
  "('fs, 'c) platform \<Rightarrow> string \<Rightarrow> 'fs world \<Rightarrow> (thrown + string) \<times> 'fs world" where
  "getFileInfoInvoke pf input w =
     (case validateWith pf (\<lambda>x. x) GetFileInfoInputSchema input ''get_file_info'' of
        Inl e \<Rightarrow> (Inr (pf_stringify pf (failureWithPath ''file_path'' e)), w)
      | Inr args \<Rightarrow>
          (case pf_getFileInfoOptimized pf (stringArg args ''file_path'') w of
             (Inl e, w') \<Rightarrow> (Inr (pf_stringify pf (failureWithPath ''file_path'' e)), w')
           | (Inr result, w') \<Rightarrow> (Inr (pf_stringify pf (fileInfoJson result)), w')))"

definition writeFileInvoke ::
  "('fs, 'c) platform \<Rightarrow> string \<Rightarrow> 'fs world \<Rightarrow> (thrown + string) \<times> 'fs world" where
  "writeFileInvoke pf input w =
     (case validateWith pf (\<lambda>x. x) WriteFileInputSchema input ''write_file'' of
        Inl e \<Rightarrow> (Inr (pf_stringify pf (failureWithPath ''file_path'' e)), w)
      | Inr args \<Rightarrow>
          (case writeFileOptimized (pf_lib pf) (pf_ops pf) (pf_stamp pf)
                  (stringArg args ''file_path'') (stringArg args ''content'')
                  (boolArg args ''overwrite'') False w of
             (Inl e, w') \<Rightarrow> (Inr (pf_stringify pf (failureWithPath ''file_path'' e)), w')
           | (Inr result, w') \<Rightarrow> (Inr (pf_stringify pf (writeFileResultJson result)), w')))"

definition searchFilesInvoke ::
  "('fs, 'c) platform \<Rightarrow> string \<Rightarrow> 'fs world \<Rightarrow> (thrown + string) \<times> 'fs world" where
  "searchFilesInvoke pf input w =
     (case validateWith pf searchFilesPreprocess SearchFilesInputBaseSchema input ''search_files'' of
        Inl e \<Rightarrow> (Inr (pf_stringify pf (failure e)), w)
      | Inr args \<Rightarrow>
          let directory_path = stringArg args ''directory_path'';
              pattern = stringArg args ''pattern'';
              max_results = numberArg args ''max_results''
          in if boolArg args ''fuzzy_search''
             then (case pf_fuzzySearchFiles pf
                          \<lparr> fo_query = pattern,
                            fo_directory_path = JString directory_path,
                            fo_file_extensions =
                              Some (case stringListArg args ''file_extensions'' of
                                      None \<Rightarrow> [] | Some xs \<Rightarrow> xs),
                            fo_max_results = JNum max_results,
                            fo_case_sensitive = boolArg args ''case_sensitive'',
                            fo_min_score = (if numberArg args ''min_score'' = 0 then 3 / 10
                                            else numberArg args ''min_score''),
                            fo_include_directories = boolArg args ''include_directories'' \<rparr> w of
                     (Inl e, w') \<Rightarrow> (Inr (pf_stringify pf (failure e)), w')
                   | (Inr fuzzyResults, w') \<Rightarrow>
                       (Inr (pf_stringify pf
                               (JObject [(''success'', JBool True),
                                         (''directory_path'',
                                            JString (path_resolve (pf_lib pf) directory_path)),
                                         (''pattern'', JString pattern),
                                         (''fuzzy_search'', JBool True),
                                         (''results'', JArray (map fuzzySearchResultJson fuzzyResults)),
                                         (''total_found'', jsonNat (length fuzzyResults)),
                                         (''truncated'', JBool False)])),
                        w'))
             else let maxResults = (if max_results = 0 then 50 else max_results)
                  in (case pf_searchFilesByPattern pf directory_path pattern
                               \<lparr> po_fileExtensions = stringListArg args ''file_extensions'',
                                 po_maxResults = maxResults,
                                 po_caseSensitive = boolArg args ''case_sensitive'',
                                 po_includeDirectories = boolArg args ''include_directories'' \<rparr> w of
                        (Inl e, w') \<Rightarrow> (Inr (pf_stringify pf (failure e)), w')
                      | (Inr results, w') \<Rightarrow>
                          (Inr (pf_stringify pf
                                  (JObject [(''success'', JBool True),
                                            (''directory_path'',
                                               JString (path_resolve (pf_lib pf) directory_path)),
                                            (''pattern'', JString pattern),
                                            (''fuzzy_search'', JBool False),
                                            (''results'', JArray (map patternResultJson results)),
                                            (''total_found'', jsonNat (length results)),
                                            (''truncated'',
                                               JBool (of_nat (length results) \<ge> maxResults))])),
                           w')))"

text \<open>The \<open>analysis\<close> object of \<open>analyze_project\<close> and its two visitor callbacks.\<close>

record projectAnalysis =
  an_total_files :: nat
  an_total_size :: nat
  an_file_types :: "(string \<times> nat \<times> nat) list"
  an_directories :: "(string \<times> nat) list"
  an_large_files :: "(string \<times> nat) list"
  an_binary_files :: nat
  an_text_files :: nat

definition analyzeVisitFile ::
  "('fs, 'c) platform \<Rightarrow> string \<Rightarrow> string \<Rightarrow> stats \<Rightarrow> projectAnalysis \<times> 'fs world
     \<Rightarrow> (thrown + bool option) \<times> (projectAnalysis \<times> 'fs world)" where
  "analyzeVisitFile pf filePath relativePath stats s =
     (let analysis = fst s; w = snd s;
          ext0 = path_extname (pf_lib pf) (path_basename (pf_lib pf) filePath);
          ext = (if ext0 = [] then ''(no extension)'' else ext0);
          fileType = (case map_of (an_file_types analysis) ext of
                        None \<Rightarrow> (0, 0) | Some t \<Rightarrow> t);
          isBinary = isLikelyBinary (pf_lib pf) (pf_ops pf) (fst w) filePath
      in (Inr None,
          (analysis\<lparr> an_total_files := an_total_files analysis + 1,
                     an_total_size := an_total_size analysis + st_size stats,
                     an_file_types :=
                       AList.update ext (fst fileType + 1, snd fileType + st_size stats)
                         (an_file_types analysis),
                     an_large_files :=
                       (if st_size stats > 1024 * 1024
                        then an_large_files analysis @ [(relativePath, st_size stats)]
                        else an_large_files analysis),
                     an_binary_files :=
                       (if isBinary then an_binary_files analysis + 1 else an_binary_files analysis),
                     an_text_files :=
                       (if isBinary then an_text_files analysis else an_text_files analysis + 1) \<rparr>,
           w)))"

definition analyzeVisitDirectory ::
  "string \<Rightarrow> string \<Rightarrow> projectAnalysis \<times> 'fs world
     \<Rightarrow> (thrown + bool option) \<times> (projectAnalysis \<times> 'fs world)" where
  "analyzeVisitDirectory dirPath relativePath s =
     (let analysis = fst s;
          dirCount = (case map_of (an_directories analysis) relativePath of
                        None \<Rightarrow> 0 | Some n \<Rightarrow> n)
      in (Inr None,
          (analysis\<lparr> an_directories :=
                       AList.update relativePath (dirCount + 1) (an_directories analysis) \<rparr>,
           snd s)))"

text \<open>\<open>Math.round(x)\<close> for a non-negative \<open>x\<close>.\<close>

definition mathRound :: "rat \<Rightarrow> int" where
  "mathRound x = \<lfloor>x + 1 / 2\<rfloor>"

definition analysisJson :: "string \<Rightarrow> projectAnalysis \<Rightarrow> json" where
  "analysisJson resolvedProjectPath analysis =
     (let large_files = take 10 (sort_key (\<lambda>(path, size). - int size) (an_large_files analysis));
          fileTypes = take 20 (sort_key (\<lambda>(ext, count, size). - int count) (an_file_types analysis))
      in JObject
           [(''success'', JBool True),
            (''project_path'', JString resolvedProjectPath),
            (''summary'',
               JObject [(''total_files'', jsonNat (an_total_files analysis)),
                        (''total_size'', jsonNat (an_total_size analysis)),
                        (''total_size_mb'',
                           JNum (of_int (mathRound (of_nat (an_total_size analysis)
                                                     / (1024 * 1024) * 100)) / 100)),
                        (''binary_files'', jsonNat (an_binary_files analysis)),
                        (''text_files'', jsonNat (an_text_files analysis))]),
            (''file_types'',
               JObject (map (\<lambda>(ext, count, size).
                               (ext, JObject [(''count'', jsonNat count), (''size'', jsonNat size)]))
                          fileTypes)),
            (''large_files'',
               JArray (map (\<lambda>(path, size).
                              JObject [(''path'', JString path), (''size'', jsonNat size)])
                         large_files)),
            (''total_directories'', jsonNat (length (an_directories analysis)))])"

definition analyzeProjectInvoke ::
  "('fs, 'c) platform \<Rightarrow> string \<Rightarrow> 'fs world \<Rightarrow> (thrown + string) \<times> 'fs world" where
  "analyzeProjectInvoke pf input w =
     (case validateAnalyzeProjectInput (pf_parse pf) (pf_illTypedNumber pf) input of
        Inl e \<Rightarrow> (Inr (pf_stringify pf (failure e)), w)
      | Inr args \<Rightarrow>
          let (analysis, w') =
                traverseDirectory (pf_lib pf)
                  (\<lambda>s. fs_readdir (pf_ops pf) (fst (snd s)))
                  (\<lambda>s. fs_stat (pf_ops pf) (fst (snd s)))
                  (ap_project_path args)
                  \<lparr> visitFile = Some (analyzeVisitFile pf),
                    visitDirectory = Some analyzeVisitDirectory,
                    shouldEnterDirectory = None,
                    maxDepth = Some (ap_max_depth args), includeHidden = None,
                    fileExtensions = None \<rparr>
                  (\<lparr> an_total_files = 0, an_total_size = 0, an_file_types = [],
                     an_directories = [], an_large_files = [], an_binary_files = 0,
                     an_text_files = 0 \<rparr>, w)
          in (Inr (pf_stringify pf
                     (analysisJson (path_resolve (pf_lib pf) (ap_project_path args)) analysis)),
              w'))"

definition searchFileContentInvoke ::
  "('fs, 'c) platform \<Rightarrow> string \<Rightarrow> 'fs world \<Rightarrow> (thrown + string) \<times> 'fs world" where
  "searchFileContentInvoke pf input w =
     (case validateSearchFileContentInput (pf_parse pf) (pf_illTypedNumber pf)
             (pf_illTypedExtensions pf) input of
        Inl e \<Rightarrow> (Inr (pf_stringify pf (failure e)), w)
      | Inr args \<Rightarrow>
          let (results, w') =
                searchFileContentRun (pf_text pf) (pf_lib pf) (pf_ops pf)
                  (pf_readFileOptimized pf) args w
          in (Inr (pf_stringify pf
                     (JObject [(''success'', JBool True),
                               (''directory_path'',
                                  JString (path_resolve (pf_lib pf) (sc_directory_path args))),
                               (''search_term'', JString (sc_search_term args)),
                               (''results'', JArray (map contentResultJson results)),
                               (''total_files_with_matches'', jsonNat (length results)),
                               (''truncated'',
                                  JBool (of_nat (length results) \<ge> sc_max_results args))])),
              w'))"

text \<open>
  \<open>fuzzy_find_files\<close> reads the parsed value itself. \<open>path.resolve\<close> throws a
  \<open>TypeError\<close> when \<open>directoryPath\<close> is not a string.
\<close>

definition fuzzyFindFilesInvoke ::
  "('fs, 'c) platform \<Rightarrow> string \<Rightarrow> 'fs world \<Rightarrow> (thrown + string) \<times> 'fs world" where
  "fuzzyFindFilesInvoke pf input w =
     (case pf_parse pf input of
        Inl syntaxError \<Rightarrow> (Inr (pf_stringify pf (failure (JsError syntaxError))), w)
      | Inr parsed \<Rightarrow>
          (case getProp parsed ''query'' of
             Inl e \<Rightarrow> (Inr (pf_stringify pf (failure e)), w)
           | Inr query \<Rightarrow>
               (case (getProp parsed ''directory_path'', getProp parsed ''max_results'') of
                  (Inr directory_path, Inr max_results) \<Rightarrow>
                    let directoryPath = (if jsTruthy directory_path then the directory_path
                                         else JString (pf_cwd pf));
                        maxResults = (if jsTruthy max_results then the max_results else JNum 30)
                    in (case query of
                          Some (JString q) \<Rightarrow>
                            if q = []
                            then (Inr (pf_stringify pf
                                         (JObject [(''success'', JBool False),
                                                   (''error'', JString ''Query is required and must be a string'')])),
                                  w)
                            else (case pf_fuzzySearchFiles pf
                                         \<lparr> fo_query = q, fo_directory_path = directoryPath,
                                           fo_file_extensions = None, fo_max_results = maxResults,
                                           fo_case_sensitive = False, fo_min_score = 3 / 10,
                                           fo_include_directories = True \<rparr> w of
                                    (Inl e, w') \<Rightarrow> (Inr (pf_stringify pf (failure e)), w')
                                  | (Inr results, w') \<Rightarrow>
                                      (case directoryPath of
                                         JString dir \<Rightarrow>
                                           (Inr (pf_stringify pf
                                                   (JObject
                                                      [(''success'', JBool True),
                                                       (''query'', JString q),
                                                       (''directory_path'',
                                                          JString (path_resolve (pf_lib pf) dir)),
                                                       (''results'',
                                                          JArray (map fuzzySearchResultJson results)),
                                                       (''total_found'', jsonNat (length results)),
                                                       (''truncated'', JBool False)])),
                                            w')
                                       | _ \<Rightarrow>
                                           (Inr (pf_stringify pf
                                                   (failure (JsError ''The paths[0] argument must be of type string''))),
                                            w')))
                        | _ \<Rightarrow>
                            (Inr (pf_stringify pf
                                    (JObject [(''success'', JBool False),
                                              (''error'', JString ''Query is required and must be a string'')])),
                             w))
                | _ \<Rightarrow> (Inr (pf_stringify pf (failure (JsError ''Unknown error occurred''))), w))))"

text \<open>The tools with their parameter schemas, and the registry.\<close>

definition readFileTool :: "('fs, 'c) platform \<Rightarrow> 'fs world tool" where
  "readFileTool pf =
     \<lparr> tool_name = ''read_file'',
       tool_description = ''Read the contents of a file for analysis and documentation'',
       tool_properties = [''file_path''], tool_required = [''file_path''],
       tool_additionalProperties = False, tool_strict = Some True,
       invoke = readFileInvoke pf \<rparr>"

definition listDirectoryTool :: "('fs, 'c) platform \<Rightarrow> 'fs world tool" where
  "listDirectoryTool pf =
     \<lparr> tool_name = ''list_directory'',
       tool_description = ''List the contents of a directory to understand project structure'',
       tool_properties = [''directory_path'', ''include_hidden''],
       tool_required = [''directory_path'', ''include_hidden''],
       tool_additionalProperties = False, tool_strict = Some True,
       invoke = listDirectoryInvoke pf \<rparr>"

definition getFileInfoTool :: "('fs, 'c) platform \<Rightarrow> 'fs world tool" where
  "getFileInfoTool pf =
     \<lparr> tool_name = ''get_file_info'',
       tool_description = ''Get detailed information about a file or directory'',
       tool_properties = [''file_path''], tool_required = [''file_path''],
       tool_additionalProperties = False, tool_strict = Some True,
       invoke = getFileInfoInvoke pf \<rparr>"

definition writeFileTool :: "('fs, 'c) platform \<Rightarrow> 'fs world tool" where
  "writeFileTool pf =
     \<lparr> tool_name = ''write_file'',
       tool_description = ''Create or write content to a file'',
       tool_properties = [''file_path'', ''content'', ''overwrite''],
       tool_required = [''file_path'', ''content'', ''overwrite''],
       tool_additionalProperties = False, tool_strict = Some True,
       invoke = writeFileInvoke pf \<rparr>"

definition searchFilesTool :: "('fs, 'c) platform \<Rightarrow> 'fs world tool" where
  "searchFilesTool pf =
     \<lparr> tool_name = ''search_files'',
       tool_description =
         ''Search for files by name pattern in a directory tree with optional fuzzy matching'',
       tool_properties = [''directory_path'', ''pattern'', ''file_extensions'', ''max_results'',
                          ''case_sensitive'', ''fuzzy_search'', ''min_score'',
                          ''include_directories''],
       tool_required = [''directory_path'', ''pattern''],
       tool_additionalProperties = False, tool_strict = None,
       invoke = searchFilesInvoke pf \<rparr>"

definition analyzeProjectTool :: "('fs, 'c) platform \<Rightarrow> 'fs world tool" where
  "analyzeProjectTool pf =
     \<lparr> tool_name = ''analyze_project'',
       tool_description =
         ''Analyze project structure and provide insights about file types, sizes, and organization'',
       tool_properties = [''project_path'', ''max_depth''],
       tool_required = [''project_path''],
       tool_additionalProperties = False, tool_strict = None,
       invoke = analyzeProjectInvoke pf \<rparr>"

definition searchFileContentTool :: "('fs, 'c) platform \<Rightarrow> 'fs world tool" where
  "searchFileContentTool pf =
     \<lparr> tool_name = ''search_file_content'',
       tool_description = ''Search for text content within files in a directory tree'',
       tool_properties = [''directory_path'', ''search_term'', ''file_extensions'',
                          ''max_results'', ''case_sensitive''],
       tool_required = [''directory_path'', ''search_term''],
       tool_additionalProperties = False, tool_strict = None,
       invoke = searchFileContentInvoke pf \<rparr>"

definition fuzzyFindFilesTool :: "('fs, 'c) platform \<Rightarrow> 'fs world tool" where
  "fuzzyFindFilesTool pf =
     \<lparr> tool_name = ''fuzzy_find_files'',
       tool_description =
         ''Intelligently find files using fuzzy matching with multiple search strategies'',
       tool_properties = [''query'', ''directory_path'', ''max_results''],
       tool_required = [''query''],
       tool_additionalProperties = False, tool_strict = None,
       invoke = fuzzyFindFilesInvoke pf \<rparr>"

definition tools :: "('fs, 'c) platform \<Rightarrow> 'fs world tool list" where
  "tools pf =
     [readFileTool pf, listDirectoryTool pf, getFileInfoTool pf, writeFileTool pf,
      searchFilesTool pf, analyzeProjectTool pf, searchFileContentTool pf,
      fuzzyFindFilesTool pf]"

section \<open>An in-memory platform for the examples\<close>

text \<open>
  A small instance of the platform on which the examples run: POSIX-style paths that
  are already absolute, and a file system that is a table from paths to nodes. All its
  time stamps are 0, the one instant \<open>toISOString\<close> renders here.
\<close>

definition simpleBasename :: "string \<Rightarrow> string" where
  "simpleBasename p = rev (takeWhile (\<lambda>c. c \<noteq> CHR ''/'') (rev p))"

definition simpleDirname :: "string \<Rightarrow> string" where
  "simpleDirname p = rev (drop 1 (dropWhile (\<lambda>c. c \<noteq> CHR ''/'') (rev p)))"

definition simpleExtname :: "string \<Rightarrow> string" where
  "simpleExtname p =
     (let b = simpleBasename p;
          suffix = takeWhile (\<lambda>c. c \<noteq> CHR ''.'') (rev b)
      in if length b \<le> length suffix + 1 then [] else CHR ''.'' # rev suffix)"

definition posixPath :: pathModule where
  "posixPath =
     \<lparr> path_resolve = (\<lambda>p. p),
       path_join = (\<lambda>a b. a @ ''/'' @ b),
       path_relative = (\<lambda>root p. drop (Suc (length root)) p),
       path_extname = simpleExtname,
       path_basename = simpleBasename,
       path_dirname = simpleDirname,
       toISOString = (\<lambda>t. ''1970-01-01T00:00:00.000Z'') \<rparr>"

datatype memNode =
    MemFile string bool
  | MemDir "string list"

type_synonym memFs = "(string \<times> memNode) list"

definition memStat :: "memFs \<Rightarrow> string \<Rightarrow> thrown + stats" where
  "memStat fs p =
     (case map_of fs p of
        None \<Rightarrow> Inl (JsError ''ENOENT: no such file or directory'')
      | Some (MemFile bytes readable) \<Rightarrow>
          Inr \<lparr> st_size = length bytes, st_mtime = 0, st_birthtime = 0, st_mode = 420,
                 st_isFile = True, st_isDirectory = False \<rparr>
      | Some (MemDir names) \<Rightarrow>
          Inr \<lparr> st_size = 0, st_mtime = 0, st_birthtime = 0, st_mode = 493,
                 st_isFile = False, st_isDirectory = True \<rparr>)"

definition memReadFile :: "memFs \<Rightarrow> string \<Rightarrow> thrown + string" where
  "memReadFile fs p =
     (case map_of fs p of
        None \<Rightarrow> Inl (JsError ''ENOENT: no such file or directory'')
      | Some (MemFile bytes readable) \<Rightarrow>
          if readable then Inr bytes else Inl (JsError ''EACCES: permission denied'')
      | Some (MemDir names) \<Rightarrow> Inl (JsError ''EISDIR: illegal operation on a directory''))"

text \<open>A file descriptor of the instance is the position of the file in the table.\<close>

definition memOpen :: "memFs \<Rightarrow> string \<Rightarrow> thrown + nat" where
  "memOpen fs p =
     (case memReadFile fs p of
        Inl e \<Rightarrow> Inl e
      | Inr bytes \<Rightarrow> Inr (length (takeWhile (\<lambda>kv. fst kv \<noteq> p) fs)))"

definition memRead :: "memFs \<Rightarrow> nat \<Rightarrow> nat \<Rightarrow> thrown + string" where
  "memRead fs fd n =
     (if fd < length fs
      then (case snd (fs ! fd) of
              MemFile bytes readable \<Rightarrow> Inr (take n bytes)
            | MemDir names \<Rightarrow> Inl (JsError ''EISDIR: illegal operation on a directory''))
      else Inl (JsError ''EBADF: bad file descriptor''))"

definition memReaddir :: "memFs \<Rightarrow> string \<Rightarrow> thrown + dirent list" where
  "memReaddir fs p =
     (case map_of fs p of
        Some (MemDir names) \<Rightarrow>
          Inr (map (\<lambda>n. case map_of fs (p @ ''/'' @ n) of
                          Some (MemFile bytes readable) \<Rightarrow>
                            \<lparr> d_name = n, d_isFile = True, d_isDirectory = False \<rparr>
                        | Some (MemDir ns) \<Rightarrow>
                            \<lparr> d_name = n, d_isFile = False, d_isDirectory = True \<rparr>
                        | None \<Rightarrow>
                            \<lparr> d_name = n, d_isFile = False, d_isDirectory = False \<rparr>) names)
      | _ \<Rightarrow> Inl (JsError ''ENOTDIR: not a directory''))"

definition memWriteFile :: "string \<Rightarrow> string \<Rightarrow> memFs \<Rightarrow> thrown option \<times> memFs" where
  "memWriteFile p bytes fs =
     (case map_of fs p of
        Some (MemDir names) \<Rightarrow> (Some (JsError ''EISDIR: illegal operation on a directory''), fs)
      | _ \<Rightarrow> (None, AList.update p (MemFile bytes True) fs))"

definition memOps :: "memFs fileSystem" where
  "memOps =
     \<lparr> fs_stat = memStat,
       fs_access = (\<lambda>fs p. case map_of fs p of
                              None \<Rightarrow> Some (JsError ''ENOENT: no such file or directory'')
                            | Some n \<Rightarrow> None),
       fs_open = memOpen,
       fs_read = memRead,
       fs_close = (\<lambda>fs fd. None),
       fs_readFile = memReadFile,
       fs_readdir = memReaddir,
       fs_copyFile = (\<lambda>src dst fs. case memReadFile fs src of
                                       Inl e \<Rightarrow> (Some e, fs)
                                     | Inr bytes \<Rightarrow> memWriteFile dst bytes fs),
       fs_mkdir = (\<lambda>dir fs. case map_of fs dir of
                               None \<Rightarrow> (None, AList.update dir (MemDir []) fs)
                             | Some n \<Rightarrow> (None, fs)),
       fs_writeFile = memWriteFile \<rparr>"

text \<open>
  A directory \<open>/r\<close> with a text file, an image named in upper case, a readable file
  that holds a null byte, a file that holds a null byte and cannot be opened for
  reading, and a subdirectory with one file.
\<close>

definition exampleFs :: memFs where
  "exampleFs =
     [(''/r'', MemDir [''a.txt'', ''logo.PNG'', ''data'', ''locked'', ''sub'']),
      (''/r/a.txt'', MemFile ''hello'' True),
      (''/r/logo.PNG'', MemFile ''hi'' True),
      (''/r/data'', MemFile [CHR ''x'', nullByte] True),
      (''/r/locked'', MemFile [nullByte, CHR ''x''] False),
      (''/r/sub'', MemDir [''b.txt'']),
      (''/r/sub/b.txt'', MemFile ''needle in b'' True)]"

text \<open>
  A visitor that only records the relative path of every file it is shown, used to
  observe a traversal.
\<close>

definition fileRecorder :: "rat option \<Rightarrow> string list directoryVisitor" where
  "fileRecorder depthLimit =
     \<lparr> visitFile = Some (\<lambda>filePath relativePath stats visited.
                            (Inr None, visited @ [relativePath])),
       visitDirectory = None, shouldEnterDirectory = None,
       maxDepth = depthLimit, includeHidden = None, fileExtensions = None \<rparr>"

text \<open>
  Strings and numbers for the examples. The texts of the examples are ASCII, so a code
  unit is a character and a text is its own list of code units; lower case and upper
  case are those of the ASCII letters. The arithmetic is that of the rationals, without
  rounding.
\<close>

definition upperChar :: "char \<Rightarrow> char" where
  "upperChar c =
     (case map_of (zip ''abcdefghijklmnopqrstuvwxyz'' ''ABCDEFGHIJKLMNOPQRSTUVWXYZ'') c of
        Some d \<Rightarrow> d
      | None \<Rightarrow> c)"

definition asciiText :: "char jsText" where
  "asciiText = \<lparr> js_unit = char_of, js_toLowerCase = toLowerCase,
                  js_canonicalize = upperChar, js_units = (\<lambda>s. s), js_text = (\<lambda>s. s) \<rparr>"

definition exactNumbers :: "rat doubles" where
  "exactNumbers = \<lparr> d_num = (\<lambda>x. x), d_add = (\<lambda>x y. x + y), d_sub = (\<lambda>x y. x - y),
                     d_mul = (\<lambda>x y. x * y), d_div = (\<lambda>x y. x / y) \<rparr>"

text \<open>
  A \<open>readFileOptimized\<close> for the examples: it reads the file without consulting the
  cache.
\<close>

definition memReadFileOptimized ::
  "string \<Rightarrow> memFs world \<Rightarrow> (thrown + fileContent) \<times> memFs world" where
  "memReadFileOptimized filePath w =
     (case memReadFile (fst w) filePath of
        Inl e \<Rightarrow>
          (Inl (FileOperationError (''Failed to read file: '' @ getErrorMessage e) filePath OpRead),
           w)
      | Inr bytes \<Rightarrow>
          (Inr \<lparr> fc_success = True, fc_file_path = filePath, fc_size = Some (length bytes),
                  fc_content = Some bytes, fc_last_modified = Some ''1970-01-01T00:00:00.000Z'',
                  fc_error = None \<rparr>, w))"

definition needleSearch :: searchFileContentInput where
  "needleSearch = \<lparr> sc_directory_path = ''/r'', sc_search_term = ''Needle'',
                     sc_file_extensions = None, sc_max_results = 20, sc_case_sensitive = False \<rparr>"

text \<open>
  For the examples: a \<open>stringify\<close> that writes objects of strings and booleans (without
  escapes), two tools whose world is the log of their invocations, three tool calls, a
  chunk that carries only text, and two states of the stream processor.
\<close>

fun simpleStringify :: "json \<Rightarrow> string" where
  "simpleStringify JNull = ''null''"
| "simpleStringify (JBool b) = (if b then ''true'' else ''false'')"
| "simpleStringify (JNum n) = ''0''"
| "simpleStringify (JString s) = [CHR 0x22] @ s @ [CHR 0x22]"
| "simpleStringify (JArray xs) = ''['' @ concat (map (\<lambda>x. simpleStringify x @ '','') xs) @ '']''"
| "simpleStringify (JObject kvs) =
     ''{'' @ concat (map (\<lambda>(k, v). [CHR 0x22] @ k @ [CHR 0x22] @ '':'' @ simpleStringify v @ '','') kvs) @ ''}''"

definition echoTool :: "string list tool" where
  "echoTool = \<lparr> tool_name = ''echo'', tool_description = ''returns its arguments'',
                 tool_properties = [], tool_required = [], tool_additionalProperties = False,
                 tool_strict = None,
                 invoke = (\<lambda>input log. (Inr input, log @ [''echo''])) \<rparr>"

definition boomTool :: "string list tool" where
  "boomTool = \<lparr> tool_name = ''boom'', tool_description = ''always throws'',
                 tool_properties = [], tool_required = [], tool_additionalProperties = False,
                 tool_strict = None,
                 invoke = (\<lambda>input log. (Inl (JsError ''boom''), log @ [''boom''])) \<rparr>"

definition exampleCalls :: "toolCall list" where
  "exampleCalls =
     [\<lparr> tc_id = ''c1'', tc_name = ''echo'', tc_arguments = ''{}'' \<rparr>,
      \<lparr> tc_id = ''c2'', tc_name = ''nope'', tc_arguments = ''{}'' \<rparr>,
      \<lparr> tc_id = ''c3'', tc_name = ''boom'', tc_arguments = ''{}'' \<rparr>]"

definition textChunk :: "string \<Rightarrow> chunk" where
  "textChunk cont =
     Some \<lparr> ch_delta = \<lparr> dl_content = Some cont, dl_tool_calls = None \<rparr>,
            ch_finish_reason = None \<rparr>"

definition capState :: streamProcessorState where
  "capState = \<lparr> accumulatedContent = replicate 51200 (CHR ''a''), toolCalls = [],
                 currentToolCall = None, contentSize = 51200, currentMessages = [] \<rparr>"

definition freshState :: streamProcessorState where
  "freshState = \<lparr> accumulatedContent = [], toolCalls = [],
                 currentToolCall = None, contentSize = 0, currentMessages = [] \<rparr>"

text \<open>
  For the examples of the tools: an argument string for \<open>search_file_content\<close> with a
  property \<open>verbose\<close> that the tool does not declare, a \<open>JSON.parse\<close> that knows this
  one string, and a platform on \<open>exampleFs\<close> whose \<open>listDirectoryOptimized\<close>,
  \<open>getFileInfoOptimized\<close>, \<open>fuzzySearchFiles\<close> and \<open>searchFilesByPattern\<close> always fail.
\<close>

definition quoted :: "string \<Rightarrow> string" where
  "quoted s = CHR 0x22 # s @ [CHR 0x22]"

definition extraPropertyInput :: string where
  "extraPropertyInput =
     ''{'' @ quoted ''directory_path'' @ '':'' @ quoted ''/r'' @ '',''
         @ quoted ''search_term'' @ '':'' @ quoted ''Needle'' @ '',''
         @ quoted ''verbose'' @ '':true}''"

definition exampleParse :: "string \<Rightarrow> string + json" where
  "exampleParse input =
     (if input = extraPropertyInput
      then Inr (JObject [(''directory_path'', JString ''/r''),
                         (''search_term'', JString ''Needle''),
                         (''verbose'', JBool True)])
      else Inl ''Unexpected token'')"

definition memPlatform :: "(memFs, char) platform" where
  "memPlatform =
     \<lparr> pf_lib = posixPath, pf_text = asciiText, pf_ops = memOps, pf_parse = exampleParse,
       pf_stringify = simpleStringify,
       pf_zodMessage = (\<lambda>t v. ''Invalid input''),
       pf_zodRootMessage = (\<lambda>v. ''Expected object''),
       pf_cwd = ''/r'', pf_stamp = ''0'',
       pf_illTypedNumber = (\<lambda>v. 0),
       pf_illTypedExtensions = (\<lambda>v. None),
       pf_readFileOptimized = memReadFileOptimized,
       pf_listDirectoryOptimized =
         (\<lambda>p hidden w. (Inl (FileOperationError ''Failed to list directory'' p OpList), w)),
       pf_getFileInfoOptimized =
         (\<lambda>p w. (Inl (FileOperationError ''Failed to get file info'' p OpStat), w)),
       pf_fuzzySearchFiles = (\<lambda>options w. (Inl (JsError ''search failed''), w)),
       pf_searchFilesByPattern = (\<lambda>dir pattern options w. (Inl (JsError ''search failed''), w)) \<rparr>"

section \<open>Properties of the fuzzy score\<close>

lemma char_of_eq:
  "(c = char_of (n::nat)) = (of_char c = n mod 256)"
  "(char_of (n::nat) = c) = (of_char c = n mod 256)"
proof -
  have m: "take_bit 8 n = n mod 2 ^ 8" by (rule take_bit_eq_mod)
  have p: "(2::nat) ^ 8 = 256" by simp
  have "(char_of n = c) = (take_bit 8 n = of_char c)" by (rule char_of_eq_iff)
  also have "\<dots> = (n mod 256 = of_char c)" by (simp only: m p)
  also have "\<dots> = (of_char c = n mod 256)" by (rule eq_commute)
  finally show b: "(char_of n = c) = (of_char c = n mod 256)" .
  have "(c = char_of n) = (char_of n = c)" by (rule eq_commute)
  also note b
  finally show "(c = char_of n) = (of_char c = n mod 256)" .
qed

lemma sublist_abc: "sublist [a, b, c] [x, a, b, c, x]"
  by (simp add: sublist_Cons_right prefix_Cons)

text \<open>
  C9. For every non-empty query \<open>q\<close>, \<open>calculateFuzzyScore(q, q)\<close> is the number 1. When
  the (lower-cased, unless caseSensitive) target contains the (equally lower-cased)
  query as a run of code units without being equal to it, the score is
  \<open>0.9 * (q.length / t.length)\<close>: the quotient of the two lengths, counted in code units
  after lower-casing, and its product with the literal 0.9, both in the arithmetic of
  doubles. In particular, when lower-casing leaves "abc" (code units 97, 98, 99) and
  "xabcx" (120, 97, 98, 99, 120) as they are, the score of "abc" against "xabcx" is
  \<open>0.9 * (3 / 5)\<close> in that arithmetic, hence at least that number.
\<close>

theorem calculateFuzzyScore_exact_and_substring:
  fixes N :: "('n :: linorder) doubles"
  shows
  "(q \<noteq> [] \<longrightarrow> calculateFuzzyScore S N q q cs = d_num N 1) \<and>
   (let q' = (if cs then query else js_toLowerCase S query);
        t' = (if cs then target else js_toLowerCase S target)
    in strIncludes t' q' \<and> q' \<noteq> t' \<longrightarrow>
       calculateFuzzyScore S N query target cs
         = d_mul N (d_num N (9 / 10))
             (d_div N (d_num N (of_nat (length q'))) (d_num N (of_nat (length t'))))) \<and>
   (let abc = map (js_unit S) [97, 98, 99];
        xabcx = map (js_unit S) [120, 97, 98, 99, 120]
    in js_toLowerCase S abc = abc \<and> js_toLowerCase S xabcx = xabcx \<longrightarrow>
       calculateFuzzyScore S N abc xabcx False
         = d_mul N (d_num N (9 / 10)) (d_div N (d_num N 3) (d_num N 5)) \<and>
       d_mul N (d_num N (9 / 10)) (d_div N (d_num N 3) (d_num N 5))
         \<le> calculateFuzzyScore S N abc xabcx False)"
proof (intro conjI)
  show "q \<noteq> [] \<longrightarrow> calculateFuzzyScore S N q q cs = d_num N 1"
    by (simp add: calculateFuzzyScore_def)
next
  show "let q' = (if cs then query else js_toLowerCase S query);
            t' = (if cs then target else js_toLowerCase S target)
        in strIncludes t' q' \<and> q' \<noteq> t' \<longrightarrow>
           calculateFuzzyScore S N query target cs
             = d_mul N (d_num N (9 / 10))
                 (d_div N (d_num N (of_nat (length q'))) (d_num N (of_nat (length t'))))"
    by (simp add: calculateFuzzyScore_def Let_def)
next
  have inc: "strIncludes (map (js_unit S) [120, 97, 98, 99, 120]) (map (js_unit S) [97, 98, 99])"
    by (simp add: strIncludes_def sublist_abc)
  have ne: "map (js_unit S) [97, 98, 99] \<noteq> map (js_unit S) [120, 97, 98, 99, 120]"
    by simp
  have "js_toLowerCase S (map (js_unit S) [97, 98, 99]) = map (js_unit S) [97, 98, 99]
        \<Longrightarrow> js_toLowerCase S (map (js_unit S) [120, 97, 98, 99, 120])
              = map (js_unit S) [120, 97, 98, 99, 120]
        \<Longrightarrow> calculateFuzzyScore S N (map (js_unit S) [97, 98, 99])
              (map (js_unit S) [120, 97, 98, 99, 120]) False
            = d_mul N (d_num N (9 / 10)) (d_div N (d_num N 3) (d_num N 5))"
    using inc ne by (simp add: calculateFuzzyScore_def Let_def)
  then show "let abc = map (js_unit S) [97, 98, 99];
        xabcx = map (js_unit S) [120, 97, 98, 99, 120]
    in js_toLowerCase S abc = abc \<and> js_toLowerCase S xabcx = xabcx \<longrightarrow>
       calculateFuzzyScore S N abc xabcx False
         = d_mul N (d_num N (9 / 10)) (d_div N (d_num N 3) (d_num N 5)) \<and>
       d_mul N (d_num N (9 / 10)) (d_div N (d_num N 3) (d_num N 5))
         \<le> calculateFuzzyScore S N abc xabcx False"
    unfolding Let_def by (metis order_refl)
qed

lemmas example_text_defs =
  asciiText_def exactNumbers_def toLowerCase_def lowerChar_def upperChar_def

theorem calculateFuzzyScore_exact_and_substring_witness:
  "''Ab'' \<noteq> [] \<and>
   calculateFuzzyScore asciiText exactNumbers ''Ab'' ''Ab'' False = 1 \<and>
   strIncludes (js_toLowerCase asciiText ''xABx'') (js_toLowerCase asciiText ''Ab'') \<and>
   js_toLowerCase asciiText ''Ab'' \<noteq> js_toLowerCase asciiText ''xABx'' \<and>
   calculateFuzzyScore asciiText exactNumbers ''Ab'' ''xABx'' False = 9 / 20 \<and>
   map (js_unit asciiText) [97, 98, 99] = ''abc'' \<and>
   map (js_unit asciiText) [120, 97, 98, 99, 120] = ''xabcx'' \<and>
   js_toLowerCase asciiText ''abc'' = ''abc'' \<and>
   js_toLowerCase asciiText ''xabcx'' = ''xabcx'' \<and>
   calculateFuzzyScore asciiText exactNumbers ''abc'' ''xabcx'' False = 27 / 50"
proof -
  note t = calculateFuzzyScore_exact_and_substring
             [where S = asciiText and N = exactNumbers and q = "''Ab''" and cs = False
                and query = "''Ab''" and target = "''xABx''"]
  have ne: "''Ab'' \<noteq> []" by simp
  have low: "js_toLowerCase asciiText ''Ab'' = ''ab''"
    "js_toLowerCase asciiText ''xABx'' = ''xabx''"
    by (simp_all add: example_text_defs)
  have inc: "strIncludes (js_toLowerCase asciiText ''xABx'') (js_toLowerCase asciiText ''Ab'')"
    unfolding low by (simp add: strIncludes_def sublist_Cons_right prefix_Cons)
  have dif: "js_toLowerCase asciiText ''Ab'' \<noteq> js_toLowerCase asciiText ''xABx''"
    unfolding low by simp
  have u: "map (js_unit asciiText) [97, 98, 99] = ''abc''"
    "map (js_unit asciiText) [120, 97, 98, 99, 120] = ''xabcx''"
    by (simp_all add: asciiText_def char_of_eq)
  have fx: "js_toLowerCase asciiText ''abc'' = ''abc''"
    "js_toLowerCase asciiText ''xabcx'' = ''xabcx''"
    by (simp_all add: example_text_defs)
  from t ne have one: "calculateFuzzyScore asciiText exactNumbers ''Ab'' ''Ab'' False
                         = d_num exactNumbers 1"
    by blast
  from t have sub: "strIncludes (js_toLowerCase asciiText ''xABx'') (js_toLowerCase asciiText ''Ab'')
        \<and> js_toLowerCase asciiText ''Ab'' \<noteq> js_toLowerCase asciiText ''xABx'' \<longrightarrow>
       calculateFuzzyScore asciiText exactNumbers ''Ab'' ''xABx'' False
         = d_mul exactNumbers (d_num exactNumbers (9 / 10))
             (d_div exactNumbers
                (d_num exactNumbers (of_nat (length (js_toLowerCase asciiText ''Ab''))))
                (d_num exactNumbers (of_nat (length (js_toLowerCase asciiText ''xABx'')))))"
    by (simp add: Let_def)
  from t have abc: "js_toLowerCase asciiText (map (js_unit asciiText) [97, 98, 99])
          = map (js_unit asciiText) [97, 98, 99]
        \<and> js_toLowerCase asciiText (map (js_unit asciiText) [120, 97, 98, 99, 120])
          = map (js_unit asciiText) [120, 97, 98, 99, 120] \<longrightarrow>
       calculateFuzzyScore asciiText exactNumbers (map (js_unit asciiText) [97, 98, 99])
         (map (js_unit asciiText) [120, 97, 98, 99, 120]) False
         = d_mul exactNumbers (d_num exactNumbers (9 / 10))
             (d_div exactNumbers (d_num exactNumbers 3) (d_num exactNumbers 5))"
    unfolding Let_def by blast
  have one': "calculateFuzzyScore asciiText exactNumbers ''Ab'' ''Ab'' False = 1"
    using one by (simp add: exactNumbers_def)
  have sub': "calculateFuzzyScore asciiText exactNumbers ''Ab'' ''xABx'' False = 9 / 20"
    using sub inc dif unfolding low by (simp add: exactNumbers_def)
  have abc': "calculateFuzzyScore asciiText exactNumbers ''abc'' ''xabcx'' False = 27 / 50"
    using abc fx unfolding u by (simp add: exactNumbers_def)
  show ?thesis by (intro conjI ne one' inc dif sub' u fx abc')
qed

section \<open>Properties of the adaptive cache\<close>

lemma evictWhileFull_below:
  "int (length (cache st)) < maxSize st \<Longrightarrow> evictWhileFull st = st"
  by (subst evictWhileFull.simps) simp

lemma cache_set_accepts:
  assumes "int (length (cache st)) < maxSize st"
    and "memoryPressure probe \<le> MEMORY_PRESSURE_THRESHOLD FILE_CONFIG"
    and "memoryPressure probe \<le> 6 / 10"
  shows "cache_set FILE_CONFIG probe p c s st =
           st\<lparr> cache := AList.update p \<lparr> content = c, timestamp = now probe,
                                          entry_size = s, accessCount = 1 \<rparr> (cache st),
                totalMemoryUsage := totalMemoryUsage st + int (byteLength c) \<rparr>"
  using assms by (simp add: cache_set_def Let_def evictWhileFull_below)

text \<open>
  C6. For every path \<open>p\<close>, content \<open>c\<close> and size \<open>s\<close>: when the cache is below capacity
  and the memory pressure is at most the configured threshold and at most 0.6,
  \<open>set(p, c, s)\<close> followed by \<open>get(p, s, t)\<close> within the time to live returns \<open>c\<close>; and
  \<open>get(p, s', t)\<close> with \<open>s' \<noteq> s\<close> reports absent and leaves no entry for \<open>p\<close>.
\<close>

theorem cache_set_then_get:
  assumes "int (length (cache st)) < maxSize st"
    and "memoryPressure probe \<le> MEMORY_PRESSURE_THRESHOLD FILE_CONFIG"
    and "memoryPressure probe \<le> 6 / 10"
  shows "(now2 - now probe \<le> ttl st \<longrightarrow>
            fst (cache_get p s t now2 (cache_set FILE_CONFIG probe p c s st)) = Some c) \<and>
         (s' \<noteq> s \<longrightarrow>
            (let r = cache_get p s' t now2 (cache_set FILE_CONFIG probe p c s st)
             in fst r = None \<and> map_of (cache (snd r)) p = None))"
  unfolding cache_set_accepts [OF assms]
  by (simp add: cache_get_def cache_delete_def update_conv' delete_conv' Let_def)

theorem cache_set_then_get_witness:
  "int (length (cache (newAdaptiveFileCache 50 300000))) < maxSize (newAdaptiveFileCache 50 300000) \<and>
   memoryPressure idleHost \<le> MEMORY_PRESSURE_THRESHOLD (getAdaptiveConfig idleHost) \<and>
   memoryPressure idleHost \<le> 6 / 10 \<and>
   1000 - now idleHost \<le> ttl (newAdaptiveFileCache 50 300000) \<and>
   fst (cache_get ''/a.txt'' 3 0 1000
          (cache_set (getAdaptiveConfig idleHost) idleHost ''/a.txt'' ''abc'' 3
             (newAdaptiveFileCache 50 300000))) = Some ''abc'' \<and>
   (4::int) \<noteq> 3 \<and>
   fst (cache_get ''/a.txt'' 4 0 1000
          (cache_set (getAdaptiveConfig idleHost) idleHost ''/a.txt'' ''abc'' 3
             (newAdaptiveFileCache 50 300000))) = None"
proof -
  have h1: "int (length (cache (newAdaptiveFileCache 50 300000)))
              < maxSize (newAdaptiveFileCache 50 300000)"
    by (simp add: newAdaptiveFileCache_def)
  have h2: "memoryPressure idleHost \<le> MEMORY_PRESSURE_THRESHOLD (getAdaptiveConfig idleHost)"
    by (simp add: memoryPressure_def idleHost_def getAdaptiveConfig_def Let_def)
  have h3: "memoryPressure idleHost \<le> 6 / 10"
    by (simp add: memoryPressure_def idleHost_def)
  have h4: "1000 - now idleHost \<le> ttl (newAdaptiveFileCache 50 300000)"
    by (simp add: idleHost_def newAdaptiveFileCache_def)
  from cache_set_then_get [OF h1 h2 h3, where ?now2.0 = 1000 and p = "''/a.txt''"
         and s = 3 and s' = 4 and c = "''abc''" and t = 0]
  show ?thesis using h1 h2 h3 h4 by (simp add: Let_def)
qed

text \<open>
  C3. Emergency eviction on a cache that holds more than half its capacity. The claim
  ranks entries by \<open>0.7 * accessCount - 0.3 * age\<close>, so that of two entries read equally
  often the older one goes first. The code adds the age term: on \<open>twoEntryCache\<close> at time
  1000 it evicts the entry used last and keeps the older one.
\<close>

theorem emergencyCleanup_evicts_most_recent:
  "map fst (cache (emergencyCleanup 1000 twoEntryCache)) = [''old'']"
  by (simp add: emergencyCleanup_def twoEntryCache_def cleanupScore_def cache_delete_def
        byteLength_def Let_def AList.delete_eq)

section \<open>Properties of binary detection\<close>

lemmas example_platform_defs =
  posixPath_def memOps_def memStat_def exampleFs_def memOpen_def memReadFile_def memRead_def
  simpleExtname_def simpleBasename_def simpleDirname_def toLowerCase_def lowerChar_def
  binaryExtensions_def sampleBuffer_def nullByte_def

lemma sampleBuffer_null:
  assumes "i < n" "i < length bytes" "bytes ! i = nullByte"
  shows "nullByte \<in> set (sampleBuffer n bytes)"
proof -
  have "i < length (sampleBuffer n bytes)"
    using assms by (simp add: sampleBuffer_def)
  moreover have "sampleBuffer n bytes ! i = nullByte"
    using assms by (simp add: sampleBuffer_def nth_append)
  ultimately show ?thesis by (metis nth_mem)
qed

lemma sampleBuffer_full: "length bytes = n \<Longrightarrow> sampleBuffer n bytes = bytes"
  by (simp add: sampleBuffer_def)

text \<open>
  C8, as amended. For every file whose \<open>stat\<close> succeeds: if its (lower-cased) extension
  is in the denylist it is classified binary, whatever its content; if it can be opened,
  read and closed and one of its first \<open>min(1024, size)\<close> bytes is a null byte it is
  classified binary; and a file under 1024 bytes whose extension is not in the denylist
  and whose content, when it can be read, is pure ASCII text (bytes 1 to 127) is
  classified non-binary.
\<close>

theorem isLikelyBinary_classification:
  assumes stat: "fs_stat ops fs p = Inr st"
  shows "(toLowerCase (path_extname lib p) \<in> set binaryExtensions \<longrightarrow>
            isLikelyBinary lib ops fs p) \<and>
         (\<forall>fd bytes.
            fs_open ops fs p = Inr fd \<and>
            fs_read ops fs fd (min 1024 (st_size st)) = Inr bytes \<and>
            fs_close ops fs fd = None \<and>
            (\<exists>i < min 1024 (st_size st). i < length bytes \<and> bytes ! i = nullByte) \<longrightarrow>
            isLikelyBinary lib ops fs p) \<and>
         (st_size st < 1024 \<and>
          toLowerCase (path_extname lib p) \<notin> set binaryExtensions \<and>
          (\<forall>fd bytes.
             fs_open ops fs p = Inr fd \<and> fs_read ops fs fd (st_size st) = Inr bytes \<longrightarrow>
             length bytes = st_size st \<and>
             (\<forall>c \<in> set bytes. 0 < (of_char c :: nat) \<and> (of_char c :: nat) < 128)) \<longrightarrow>
          \<not> isLikelyBinary lib ops fs p)"
proof (intro conjI allI impI)
  assume "toLowerCase (path_extname lib p) \<in> set binaryExtensions"
  then show "isLikelyBinary lib ops fs p"
    using stat by (simp add: isLikelyBinary_def Let_def)
next
  fix fd bytes
  assume a: "fs_open ops fs p = Inr fd \<and>
            fs_read ops fs fd (min 1024 (st_size st)) = Inr bytes \<and>
            fs_close ops fs fd = None \<and>
            (\<exists>i < min 1024 (st_size st). i < length bytes \<and> bytes ! i = nullByte)"
  then obtain i where i: "i < min 1024 (st_size st)" "i < length bytes" "bytes ! i = nullByte"
    by blast
  have "nullByte \<in> set (sampleBuffer (min 1024 (st_size st)) bytes)"
    using i by (rule sampleBuffer_null)
  moreover have "0 < st_size st" using i by simp
  ultimately show "isLikelyBinary lib ops fs p"
    using stat a by (simp add: isLikelyBinary_def Let_def)
next
  assume a: "st_size st < 1024 \<and>
          toLowerCase (path_extname lib p) \<notin> set binaryExtensions \<and>
          (\<forall>fd bytes.
             fs_open ops fs p = Inr fd \<and> fs_read ops fs fd (st_size st) = Inr bytes \<longrightarrow>
             length bytes = st_size st \<and>
             (\<forall>c \<in> set bytes. 0 < (of_char c :: nat) \<and> (of_char c :: nat) < 128))"
  then have small: "min 1024 (st_size st) = st_size st" "\<not> st_size st > 100 * 1024 * 1024"
    and ext: "toLowerCase (path_extname lib p) \<notin> set binaryExtensions"
    by simp_all
  have nz: "of_char nullByte = (0::nat)" by (simp add: nullByte_def)
  show "\<not> isLikelyBinary lib ops fs p"
  proof (cases "fs_open ops fs p")
    case (Inl e)
    then show ?thesis using stat small ext by (simp add: isLikelyBinary_def Let_def)
  next
    case (Inr fd)
    show ?thesis
    proof (cases "fs_read ops fs fd (st_size st)")
      case (Inl e)
      then show ?thesis
        using stat \<open>fs_open ops fs p = Inr fd\<close> small ext
        by (simp add: isLikelyBinary_def Let_def)
    next
      case (Inr bytes)
      with \<open>fs_open ops fs p = Inr fd\<close> a
      have len: "length bytes = st_size st"
        and asc: "\<forall>c \<in> set bytes. 0 < (of_char c :: nat)" by blast+
      have "nullByte \<notin> set bytes" using asc nz by force
      then show ?thesis
        using stat \<open>fs_open ops fs p = Inr fd\<close> Inr small ext len
        by (simp add: isLikelyBinary_def Let_def sampleBuffer_full split: option.splits)
    qed
  qed
qed

theorem isLikelyBinary_classification_witness:
  "fs_stat memOps exampleFs ''/r/logo.PNG''
     = Inr \<lparr> st_size = 2, st_mtime = 0, st_birthtime = 0, st_mode = 420,
             st_isFile = True, st_isDirectory = False \<rparr> \<and>
   toLowerCase (path_extname posixPath ''/r/logo.PNG'') \<in> set binaryExtensions \<and>
   isLikelyBinary posixPath memOps exampleFs ''/r/logo.PNG'' \<and>
   fs_stat memOps exampleFs ''/r/data''
     = Inr \<lparr> st_size = 2, st_mtime = 0, st_birthtime = 0, st_mode = 420,
             st_isFile = True, st_isDirectory = False \<rparr> \<and>
   fs_open memOps exampleFs ''/r/data'' = Inr 3 \<and>
   fs_read memOps exampleFs 3 (min 1024 2) = Inr [CHR ''x'', nullByte] \<and>
   fs_close memOps exampleFs 3 = None \<and>
   [CHR ''x'', nullByte] ! 1 = nullByte \<and>
   isLikelyBinary posixPath memOps exampleFs ''/r/data'' \<and>
   fs_stat memOps exampleFs ''/r/a.txt''
     = Inr \<lparr> st_size = 5, st_mtime = 0, st_birthtime = 0, st_mode = 420,
             st_isFile = True, st_isDirectory = False \<rparr> \<and>
   toLowerCase (path_extname posixPath ''/r/a.txt'') \<notin> set binaryExtensions \<and>
   fs_open memOps exampleFs ''/r/a.txt'' = Inr 1 \<and>
   fs_read memOps exampleFs 1 5 = Inr ''hello'' \<and>
   \<not> isLikelyBinary posixPath memOps exampleFs ''/r/a.txt''"
proof -
  have s1: "fs_stat memOps exampleFs ''/r/logo.PNG''
     = Inr \<lparr> st_size = 2, st_mtime = 0, st_birthtime = 0, st_mode = 420,
             st_isFile = True, st_isDirectory = False \<rparr>"
    by (simp add: example_platform_defs)
  have e1: "toLowerCase (path_extname posixPath ''/r/logo.PNG'') \<in> set binaryExtensions"
    by (simp add: example_platform_defs Let_def)
  have s2: "fs_stat memOps exampleFs ''/r/data''
     = Inr \<lparr> st_size = 2, st_mtime = 0, st_birthtime = 0, st_mode = 420,
             st_isFile = True, st_isDirectory = False \<rparr>"
    by (simp add: example_platform_defs)
  have o2: "fs_open memOps exampleFs ''/r/data'' = Inr 3"
    "fs_read memOps exampleFs 3 (min 1024 2) = Inr [CHR ''x'', nullByte]"
    "fs_close memOps exampleFs 3 = None"
    by (simp_all add: example_platform_defs)
  have s3: "fs_stat memOps exampleFs ''/r/a.txt''
     = Inr \<lparr> st_size = 5, st_mtime = 0, st_birthtime = 0, st_mode = 420,
             st_isFile = True, st_isDirectory = False \<rparr>"
    by (simp add: example_platform_defs)
  have e3: "toLowerCase (path_extname posixPath ''/r/a.txt'') \<notin> set binaryExtensions"
    by (simp add: example_platform_defs Let_def)
  have o3: "fs_open memOps exampleFs ''/r/a.txt'' = Inr 1"
    "fs_read memOps exampleFs 1 5 = Inr ''hello''"
    by (simp_all add: example_platform_defs)
  have b1: "isLikelyBinary posixPath memOps exampleFs ''/r/logo.PNG''"
    using isLikelyBinary_classification [OF s1, of posixPath] e1 by blast
  have b2: "isLikelyBinary posixPath memOps exampleFs ''/r/data''"
    using isLikelyBinary_classification [OF s2, of posixPath] o2 by force
  have b3: "\<not> isLikelyBinary posixPath memOps exampleFs ''/r/a.txt''"
    using isLikelyBinary_classification [OF s3, of posixPath] e3 o3 by simp
  show ?thesis using s1 e1 s2 o2 s3 e3 o3 b1 b2 b3 by simp
qed

text \<open>
  C8 as stated fails on a file that \<open>stat\<close> finds but \<open>open\<close> refuses: its first byte is
  a null byte and it is classified non-binary.
\<close>

theorem isLikelyBinary_unreadable_counterexample:
  "fs_stat memOps exampleFs ''/r/locked''
     = Inr \<lparr> st_size = 2, st_mtime = 0, st_birthtime = 0, st_mode = 420,
             st_isFile = True, st_isDirectory = False \<rparr> \<and>
   map_of exampleFs ''/r/locked'' = Some (MemFile [nullByte, CHR ''x''] False) \<and>
   \<not> isLikelyBinary posixPath memOps exampleFs ''/r/locked''"
  by (simp add: isLikelyBinary_def example_platform_defs Let_def)

section \<open>Properties of writing\<close>

text \<open>
  C5. For every path at which a file exists (\<open>fs.access\<close> succeeds on the resolved
  path), \<open>writeFileOptimized\<close> with \<open>overwrite = false\<close> does not throw: it returns a
  result with \<open>success: false\<close> and the error text, and it leaves the file system and the
  cache as they were, so the content and the modification time of the file are unchanged.
\<close>

theorem writeFileOptimized_existing_no_overwrite:
  assumes "fs_access ops fs (path_resolve lib filePath) = None"
  shows "\<exists>r. writeFileOptimized lib ops stamp filePath cont False createBackup (fs, fileCache)
               = (Inr r, (fs, fileCache)) \<and>
             wr_success r = False \<and>
             wr_file_path r = path_resolve lib filePath \<and>
             wr_error r = Some ''File already exists and overwrite is set to false''"
  using assms by (simp add: writeFileOptimized_def Let_def)

theorem writeFileOptimized_existing_no_overwrite_witness:
  "fs_access memOps exampleFs (path_resolve posixPath ''/r/a.txt'') = None \<and>
   (\<exists>r. writeFileOptimized posixPath memOps ''1000'' ''/r/a.txt'' ''new text'' False False
           (exampleFs, newAdaptiveFileCache 50 300000)
           = (Inr r, (exampleFs, newAdaptiveFileCache 50 300000)) \<and>
         wr_success r = False) \<and>
   fs_readFile memOps
     (fst (snd (writeFileOptimized posixPath memOps ''1000'' ''/r/a.txt'' ''new text'' False False
                  (exampleFs, newAdaptiveFileCache 50 300000)))) ''/r/a.txt'' = Inr ''hello''"
proof -
  have h: "fs_access memOps exampleFs (path_resolve posixPath ''/r/a.txt'') = None"
    by (simp add: example_platform_defs)
  from writeFileOptimized_existing_no_overwrite [OF h, of "''1000''" "''new text''" False
         "newAdaptiveFileCache 50 300000"]
  obtain r where r:
    "writeFileOptimized posixPath memOps ''1000'' ''/r/a.txt'' ''new text'' False False
       (exampleFs, newAdaptiveFileCache 50 300000)
       = (Inr r, (exampleFs, newAdaptiveFileCache 50 300000))"
    "wr_success r = False"
    by blast
  have "fs_readFile memOps exampleFs ''/r/a.txt'' = Inr ''hello''"
    by (simp add: example_platform_defs)
  with h r show ?thesis by simp
qed

section \<open>Properties of the traversal\<close>

text \<open>
  C4. The claim: with \<open>maxDepth = 0\<close> the file visitor sees only the files directly in
  the root and no subdirectory is entered. The code takes the default with
  \<open>visitor.maxDepth || 10\<close>, which replaces 0 by 10: on \<open>exampleFs\<close> the traversal of
  \<open>/r\<close> with \<open>maxDepth = 0\<close> enters \<open>/r/sub\<close> and visits \<open>sub/b.txt\<close>.
\<close>

theorem traverseDirectory_maxDepth_zero_descends:
  "traverseDirectory posixPath (\<lambda>s. fs_readdir memOps exampleFs) (\<lambda>s. fs_stat memOps exampleFs)
     ''/r'' (fileRecorder (Some 0)) []
   = [''a.txt'', ''logo.PNG'', ''data'', ''locked'', ''sub/b.txt'']"
  by (simp add: traverseDirectory_def fileRecorder_def traverseRecursive.simps visitItem_def
        posixPath_def memOps_def memReaddir_def memStat_def exampleFs_def startsWith_def
        extensionSkipped_def Let_def)

lemma visitItem_preserves:
  fixes P :: "'s \<Rightarrow> bool"
  assumes vf: "\<And>f a b st s r s'. visitFile (x_visitor cx) = Some f \<Longrightarrow> P s \<Longrightarrow> f a b st s = (r, s') \<Longrightarrow> P s'"
    and vd: "\<And>g a b s r s'. visitDirectory (x_visitor cx) = Some g \<Longrightarrow> P s \<Longrightarrow> g a b s = (r, s') \<Longrightarrow> P s'"
    and s: "P s"
  shows "case visitItem cx p item s of Next s' \<Rightarrow> P s' | Return s' \<Rightarrow> P s' | Descend q s' \<Rightarrow> P s'"
proof -
  let ?ip = "path_join (x_lib cx) p (d_name item)"
  let ?rp = "path_relative (x_lib cx) (x_resolvedPath cx) ?ip"
  have f: "\<And>visit st. visitFile (x_visitor cx) = Some visit \<Longrightarrow> P (snd (visit ?ip ?rp st s))"
    using vf s by (metis prod.collapse)
  have d: "P (snd (case visitDirectory (x_visitor cx) of None \<Rightarrow> (Inr None, s)
                    | Some visit \<Rightarrow> visit ?ip ?rp s))"
    using vd s by (cases "visitDirectory (x_visitor cx)") (auto, metis prod.collapse)
  show ?thesis
    using s f d
    by (simp add: visitItem_def Let_def case_prod_beta split: sum.splits option.splits)
qed

lemma traverse_preserves_aux:
  fixes P :: "'s \<Rightarrow> bool"
  assumes vf: "\<And>f a b st s r s'. visitFile (x_visitor cx) = Some f \<Longrightarrow> P s \<Longrightarrow> f a b st s = (r, s') \<Longrightarrow> P s'"
    and vd: "\<And>g a b s r s'. visitDirectory (x_visitor cx) = Some g \<Longrightarrow> P s \<Longrightarrow> g a b s = (r, s') \<Longrightarrow> P s'"
  shows "cxa = cx \<Longrightarrow> P s \<Longrightarrow> P (traverseRecursive cxa p d s)"
    and "cxa = cx \<Longrightarrow> P s \<Longrightarrow> P (traverseItems cxa p d items s)"
proof (induction cxa p d s and cxa p d items s rule: traverseRecursive_traverseItems.induct)
  case (1 cx currentPath depth s)
  then show ?case
    by (subst traverseRecursive.simps) (auto split: sum.splits)
next
  case (2 cx currentPath depth s)
  then show ?case by simp
next
  case (3 cxa currentPath depth item items s)
  have step: "case visitItem cx currentPath item s of
                Next s' \<Rightarrow> P s' | Return s' \<Rightarrow> P s' | Descend q s' \<Rightarrow> P s'"
    using vf vd "3.prems"(2) by (rule visitItem_preserves)
  show ?case
  proof (cases "visitItem cxa currentPath item s")
    case (Next s')
    then show ?thesis using step "3.IH"(1) "3.prems" by simp
  next
    case (Return s')
    then show ?thesis using step "3.prems" by simp
  next
    case (Descend q s')
    then have "P (traverseRecursive cxa q (Suc depth) s')"
      using step "3.IH"(2) "3.prems" by simp
    then show ?thesis using Descend "3.IH"(3) "3.prems" by simp
  qed
qed

section \<open>Properties of the content search\<close>

lemma lineMatches_filter_aux:
  "concat (map (\<lambda>(index, line).
                  case regexExec S term cs line of
                    Some pos \<Rightarrow> [\<lparr> line_number = index + 1,
                                    line_content = js_text S (trim S line),
                                    match_position = pos \<rparr>]
                  | None \<Rightarrow> []) ps)
   = map (\<lambda>(index, line). \<lparr> line_number = index + 1, line_content = js_text S (trim S line),
                              match_position = the (regexExec S term cs line) \<rparr>)
       (filter (\<lambda>(index, line). regexExec S term cs line \<noteq> None) ps)"
  by (induction ps) (auto split: option.splits)

lemma lineMatches_filter:
  "lineMatches S term cs lines =
     map (\<lambda>(index, line). \<lparr> line_number = index + 1, line_content = js_text S (trim S line),
                              match_position = the (regexExec S term cs line) \<rparr>)
       (filter (\<lambda>(index, line). regexExec S term cs line \<noteq> None) (List.enumerate 0 lines))"
  unfolding lineMatches_def by (rule lineMatches_filter_aux)

lemma searchVisitFile_preserves:
  assumes Q: "\<And>r. Q r =
     (\<exists>w0 w1 fileResult cont.
        readFileOptimized (cr_file_path r) w0 = (Inr fileResult, w1) \<and>
        fc_content fileResult = Some cont \<and>
        (let matching = filter (\<lambda>(index, line).
                                  regexExec S (js_units S (sc_search_term args))
                                    (sc_case_sensitive args) line \<noteq> None)
                          (List.enumerate 0 (splitLines S (js_units S cont)))
         in matching \<noteq> [] \<and>
            cr_total_matches r = length matching \<and>
            length (cr_matches r) \<le> 5 \<and>
            cr_matches r =
              map (\<lambda>(index, line).
                     \<lparr> line_number = index + 1, line_content = js_text S (trim S line),
                       match_position =
                         the (regexExec S (js_units S (sc_search_term args))
                                (sc_case_sensitive args) line) \<rparr>)
                (take 5 matching)))"
    and inv: "\<forall>r \<in> set (fst s). Q r"
    and step: "searchVisitFile S lib ops readFileOptimized args filePath relativePath stats s = (res, s')"
  shows "\<forall>r \<in> set (fst s'). Q r"
proof -
  obtain results w where s: "s = (results, w)" by (cases s)
  obtain out w' where Pair: "readFileOptimized filePath w = (out, w')"
    by (metis surj_pair)
  show ?thesis
  proof (cases out)
    case (Inl e)
    then show ?thesis
      using inv step s Pair
      by (auto simp: searchVisitFile_def Let_def split: if_splits)
  next
    case (Inr fileResult)
    show ?thesis
    proof (cases "fc_content fileResult")
      case None
      then show ?thesis
        using inv step s Pair Inr
        by (auto simp: searchVisitFile_def Let_def split: if_splits)
    next
      case (Some cont)
      let ?m = "lineMatches S (js_units S (sc_search_term args)) (sc_case_sensitive args)
                  (splitLines S (js_units S cont))"
      have new: "?m \<noteq> [] \<Longrightarrow>
            Q \<lparr> cr_file_path = filePath, cr_relative_path = relativePath,
                cr_matches = take 5 ?m, cr_total_matches = length ?m \<rparr>"
        unfolding Q
        apply (rule exI [of _ w], rule exI [of _ w'], rule exI [of _ fileResult], rule exI [of _ cont])
        using Pair Inr Some
        by (simp add: Let_def lineMatches_filter take_map)
      show ?thesis
        using inv step s Pair Inr Some new
        by (auto simp: searchVisitFile_def Let_def split: if_splits)
    qed
  qed
qed

text \<open>
  Every entry of the results comes from a file that \<open>readFileOptimized\<close> returned, and
  is made of the lines on which \<open>regexExec\<close> finds the term.
\<close>

lemma searchFileContentRun_entries:
  fixes ops :: "'fs fileSystem"
  assumes "r \<in> set (fst (searchFileContentRun S lib ops readFileOptimized args w))"
  shows "\<exists>w0 w1 fileResult cont.
           readFileOptimized (cr_file_path r) w0 = (Inr fileResult, w1) \<and>
           fc_content fileResult = Some cont \<and>
           (let matching = filter (\<lambda>(index, line).
                                     regexExec S (js_units S (sc_search_term args))
                                       (sc_case_sensitive args) line \<noteq> None)
                             (List.enumerate 0 (splitLines S (js_units S cont)))
            in matching \<noteq> [] \<and>
               cr_total_matches r = length matching \<and>
               length (cr_matches r) \<le> 5 \<and>
               cr_matches r =
                 map (\<lambda>(index, line).
                        \<lparr> line_number = index + 1, line_content = js_text S (trim S line),
                          match_position =
                            the (regexExec S (js_units S (sc_search_term args))
                                   (sc_case_sensitive args) line) \<rparr>)
                   (take 5 matching))"
proof -
  define Q where "Q = (\<lambda>r :: contentResult. \<exists>w0 w1 fileResult cont.
           readFileOptimized (cr_file_path r) w0 = (Inr fileResult, w1) \<and>
           fc_content fileResult = Some cont \<and>
           (let matching = filter (\<lambda>(index, line).
                                     regexExec S (js_units S (sc_search_term args))
                                       (sc_case_sensitive args) line \<noteq> None)
                             (List.enumerate 0 (splitLines S (js_units S cont)))
            in matching \<noteq> [] \<and>
               cr_total_matches r = length matching \<and>
               length (cr_matches r) \<le> 5 \<and>
               cr_matches r =
                 map (\<lambda>(index, line).
                        \<lparr> line_number = index + 1, line_content = js_text S (trim S line),
                          match_position =
                            the (regexExec S (js_units S (sc_search_term args))
                                   (sc_case_sensitive args) line) \<rparr>)
                   (take 5 matching)))"
  define P where "P = (\<lambda>s :: contentResult list \<times> 'fs world. \<forall>r \<in> set (fst s). Q r)"
  define cx where "cx =
     \<lparr> x_lib = lib, x_readdir = (\<lambda>s. fs_readdir ops (fst (snd s))),
       x_stat = (\<lambda>s. fs_stat ops (fst (snd s))),
       x_visitor = \<lparr> visitFile = Some (searchVisitFile S lib ops readFileOptimized args),
                     visitDirectory = None, shouldEnterDirectory = None,
                     maxDepth = Some 10, includeHidden = None,
                     fileExtensions = sc_file_extensions args \<rparr>,
       x_resolvedPath = path_resolve lib (sc_directory_path args), x_maxDepth = 10,
       x_includeHidden = False \<rparr>"
  have run: "searchFileContentRun S lib ops readFileOptimized args w
               = traverseRecursive cx (path_resolve lib (sc_directory_path args)) 0 ([], w)"
    by (simp add: searchFileContentRun_def traverseDirectory_def cx_def Let_def)
  have vf: "\<And>f a b st s res s'. visitFile (x_visitor cx) = Some f \<Longrightarrow> P s
              \<Longrightarrow> f a b st s = (res, s') \<Longrightarrow> P s'"
    unfolding P_def
    by (rule searchVisitFile_preserves [where Q = Q and readFileOptimized = readFileOptimized
               and args = args and lib = lib and ops = ops and S = S])
       (auto simp: Q_def cx_def)
  have vd: "\<And>g a b s res s'. visitDirectory (x_visitor cx) = Some g \<Longrightarrow> P s
              \<Longrightarrow> g a b s = (res, s') \<Longrightarrow> P s'"
    by (simp add: cx_def)
  have "P (traverseRecursive cx (path_resolve lib (sc_directory_path args)) 0 ([], w))"
  proof (rule traverse_preserves_aux(1) [where P = P and cx = cx])
    fix f a b st s res s'
    assume "visitFile (x_visitor cx) = Some f" "P s" "f a b st s = (res, s')"
    then show "P s'" by (rule vf)
  next
    fix g a b s res s'
    assume "visitDirectory (x_visitor cx) = Some g" "P s" "g a b s = (res, s')"
    then show "P s'" by (rule vd)
  qed (simp_all add: P_def)
  then have "Q r" using assms run by (simp add: P_def)
  then show ?thesis by (simp add: Q_def)
qed

text \<open>
  What \<open>split\<close> and the regular expression compute. The pieces of \<open>splitOn\<close> are never
  none; joined by the separator they give the string back, and no piece holds a
  separator. The search finds the pattern exactly when it occurs in the line.
\<close>

lemma splitOn_not_Nil: "splitOn p xs \<noteq> []"
  by (induction xs) (auto split: list.splits)

lemma splitOn_join:
  "concat (map (\<lambda>l. l @ [nl]) (splitOn (\<lambda>c. c = nl) xs)) = xs @ [nl]"
  by (induction xs) (auto split: list.splits simp: splitOn_not_Nil)

lemma splitOn_no_separator:
  "\<forall>l \<in> set (splitOn p xs). \<forall>c \<in> set l. \<not> p c"
  by (induction xs) (auto split: if_splits list.splits)

lemma searchFrom_sublist: "(searchFrom pat xs i \<noteq> None) = sublist pat xs"
  by (induction xs arbitrary: i) (auto simp: sublist_Cons_right)

lemma regexExec_sublist:
  "(regexExec S term cs line \<noteq> None)
   = sublist (map (if cs then (\<lambda>c. c) else js_canonicalize S) term)
             (map (if cs then (\<lambda>c. c) else js_canonicalize S) line)"
  unfolding regexExec_def by (simp only: searchFrom_sublist list.map_ident split: if_splits) simp

text \<open>
  C10. Every entry of the results of a \<open>search_file_content\<close> run comes from a file
  that \<open>readFileOptimized\<close> returned with a content. Let \<open>lines\<close> be the lines of that
  content: the pieces without a line feed (code unit 10) that, each followed by a line
  feed, make up the content followed by a line feed. A line matches when the code
  units of the search term occur in it as a contiguous run, compared as they are if
  caseSensitive and through \<open>js_canonicalize\<close> otherwise. Then at least one line
  matches, \<open>total_matches\<close> is the number of all matching lines, and \<open>matches\<close> holds at
  most 5 entries, whose line numbers are those of the first 5 matching lines in line
  order (the first line has number 1).
\<close>

theorem searchFileContent_results_match:
  fixes ops :: "'fs fileSystem"
  assumes "r \<in> set (fst (searchFileContentRun S lib ops readFileOptimized args w))"
  shows "\<exists>w0 w1 fileResult cont lines.
           readFileOptimized (cr_file_path r) w0 = (Inr fileResult, w1) \<and>
           fc_content fileResult = Some cont \<and>
           concat (map (\<lambda>l. l @ [js_unit S 10]) lines) = js_units S cont @ [js_unit S 10] \<and>
           (\<forall>l \<in> set lines. js_unit S 10 \<notin> set l) \<and>
           (let fold = (if sc_case_sensitive args then (\<lambda>c. c) else js_canonicalize S);
                matching = filter (\<lambda>(index, line).
                                     sublist (map fold (js_units S (sc_search_term args)))
                                             (map fold line))
                             (List.enumerate 0 lines)
            in matching \<noteq> [] \<and>
               cr_total_matches r = length matching \<and>
               length (cr_matches r) \<le> 5 \<and>
               map line_number (cr_matches r) = map (\<lambda>(index, line). index + 1) (take 5 matching))"
proof -
  let ?nl = "js_unit S 10"
  let ?fold = "if sc_case_sensitive args then (\<lambda>c. c) else js_canonicalize S"
  let ?needle = "js_units S (sc_search_term args)"
  from searchFileContentRun_entries [OF assms]
  obtain w0 w1 fileResult cont where
    rd: "readFileOptimized (cr_file_path r) w0 = (Inr fileResult, w1)"
    and co: "fc_content fileResult = Some cont"
    and en: "let matching = filter (\<lambda>(index, line).
                                     regexExec S ?needle (sc_case_sensitive args) line \<noteq> None)
                             (List.enumerate 0 (splitLines S (js_units S cont)))
            in matching \<noteq> [] \<and>
               cr_total_matches r = length matching \<and>
               length (cr_matches r) \<le> 5 \<and>
               cr_matches r =
                 map (\<lambda>(index, line).
                        \<lparr> line_number = index + 1, line_content = js_text S (trim S line),
                          match_position =
                            the (regexExec S ?needle (sc_case_sensitive args) line) \<rparr>)
                   (take 5 matching)"
    by blast
  define lines where "lines = splitLines S (js_units S cont)"
  define matching where
    "matching = filter (\<lambda>(index, line). sublist (map ?fold ?needle) (map ?fold line))
                  (List.enumerate 0 lines)"
  have same: "filter (\<lambda>(index, line). regexExec S ?needle (sc_case_sensitive args) line \<noteq> None)
                (List.enumerate 0 (splitLines S (js_units S cont))) = matching"
    unfolding matching_def lines_def regexExec_sublist ..
  have join: "concat (map (\<lambda>l. l @ [?nl]) lines) = js_units S cont @ [?nl]"
    unfolding lines_def splitLines_def by (rule splitOn_join)
  have nosep: "\<forall>l \<in> set lines. ?nl \<notin> set l"
    unfolding lines_def splitLines_def
    using splitOn_no_separator [of "\<lambda>c. c = js_unit S 10" "js_units S cont"] by blast
  have m1: "matching \<noteq> []" and m2: "cr_total_matches r = length matching"
    and m3: "length (cr_matches r) \<le> 5"
    and m4: "cr_matches r =
                 map (\<lambda>(index, line).
                        \<lparr> line_number = index + 1, line_content = js_text S (trim S line),
                          match_position =
                            the (regexExec S ?needle (sc_case_sensitive args) line) \<rparr>)
                   (take 5 matching)"
    using en unfolding same Let_def by blast+
  have m5: "map line_number (cr_matches r) = map (\<lambda>(index, line). index + 1) (take 5 matching)"
    unfolding m4 by (simp add: case_prod_beta)
  have "readFileOptimized (cr_file_path r) w0 = (Inr fileResult, w1) \<and>
           fc_content fileResult = Some cont \<and>
           concat (map (\<lambda>l. l @ [?nl]) lines) = js_units S cont @ [?nl] \<and>
           (\<forall>l \<in> set lines. ?nl \<notin> set l) \<and>
           (let fold = ?fold;
                matching = filter (\<lambda>(index, line). sublist (map fold ?needle) (map fold line))
                             (List.enumerate 0 lines)
            in matching \<noteq> [] \<and>
               cr_total_matches r = length matching \<and>
               length (cr_matches r) \<le> 5 \<and>
               map line_number (cr_matches r) = map (\<lambda>(index, line). index + 1) (take 5 matching))"
    unfolding Let_def matching_def [symmetric]
    by (intro conjI rd co join nosep m1 m2 m3 m5)
  then show ?thesis by blast
qed

lemma needleSearch_results:
  "fst (searchFileContentRun asciiText posixPath memOps memReadFileOptimized needleSearch
          (exampleFs, newAdaptiveFileCache 50 300000))
  = [\<lparr> cr_file_path = ''/r/sub/b.txt'', cr_relative_path = ''sub/b.txt'',
       cr_matches = [\<lparr> line_number = 1, line_content = ''needle in b'', match_position = 0 \<rparr>],
       cr_total_matches = 1 \<rparr>]"
  by (simp add: searchFileContentRun_def traverseDirectory_def traverseRecursive.simps visitItem_def
        searchVisitFile_def isLikelyBinary_def memReadFileOptimized_def needleSearch_def
        example_platform_defs memReaddir_def startsWith_def extensionSkipped_def Let_def
        splitLines_def lineMatches_def regexExec_def trim_def isWhiteSpace_def whiteSpaceCodes_def
        asciiText_def upperChar_def char_of_eq List.enumerate_eq_zip)

theorem searchFileContent_results_match_witness:
  "\<lparr> cr_file_path = ''/r/sub/b.txt'', cr_relative_path = ''sub/b.txt'',
     cr_matches = [\<lparr> line_number = 1, line_content = ''needle in b'', match_position = 0 \<rparr>],
     cr_total_matches = 1 \<rparr>
     \<in> set (fst (searchFileContentRun asciiText posixPath memOps memReadFileOptimized needleSearch
                    (exampleFs, newAdaptiveFileCache 50 300000))) \<and>
   (\<exists>w0 w1 fileResult cont lines.
      memReadFileOptimized ''/r/sub/b.txt'' w0 = (Inr fileResult, w1) \<and>
      fc_content fileResult = Some cont \<and>
      concat (map (\<lambda>l. l @ [CHR 0x0A]) lines) = cont @ [CHR 0x0A] \<and>
      (\<forall>l \<in> set lines. CHR 0x0A \<notin> set l) \<and>
      (1::nat) = length (filter (\<lambda>(index, line). sublist (map upperChar ''Needle'') (map upperChar line))
                           (List.enumerate 0 lines)) \<and>
      [1::nat] = map (\<lambda>(index, line). index + 1)
                   (take 5 (filter (\<lambda>(index, line).
                                      sublist (map upperChar ''Needle'') (map upperChar line))
                              (List.enumerate 0 lines))))"
proof -
  let ?r = "\<lparr> cr_file_path = ''/r/sub/b.txt'', cr_relative_path = ''sub/b.txt'',
     cr_matches = [\<lparr> line_number = 1, line_content = ''needle in b'', match_position = 0 \<rparr>],
     cr_total_matches = 1 \<rparr>"
  let ?match = "\<lambda>(index :: nat, line). sublist (map upperChar ''Needle'') (map upperChar line)"
  have mem: "?r \<in> set (fst (searchFileContentRun asciiText posixPath memOps memReadFileOptimized
                                needleSearch (exampleFs, newAdaptiveFileCache 50 300000)))"
    by (simp add: needleSearch_results)
  have t: "sc_search_term needleSearch = ''Needle''" "sc_case_sensitive needleSearch = False"
    by (simp_all add: needleSearch_def)
  have a: "js_unit asciiText 10 = CHR 0x0A" "js_canonicalize asciiText = upperChar"
    "js_units asciiText = (\<lambda>s. s)"
    by (simp_all add: asciiText_def char_of_eq)
  from searchFileContent_results_match [OF mem]
  obtain w0 w1 fileResult cont lines where
    rd: "memReadFileOptimized (cr_file_path ?r) w0 = (Inr fileResult, w1)"
    and co: "fc_content fileResult = Some cont"
    and jn: "concat (map (\<lambda>l. l @ [js_unit asciiText 10]) lines)
               = js_units asciiText cont @ [js_unit asciiText 10]"
    and ns: "\<forall>l \<in> set lines. js_unit asciiText 10 \<notin> set l"
    and m: "cr_total_matches ?r
              = length (filter (\<lambda>(index, line).
                   sublist (map (if sc_case_sensitive needleSearch then (\<lambda>c. c)
                                 else js_canonicalize asciiText)
                              (js_units asciiText (sc_search_term needleSearch)))
                           (map (if sc_case_sensitive needleSearch then (\<lambda>c. c)
                                 else js_canonicalize asciiText) line))
                           (List.enumerate 0 lines))"
    and n: "map line_number (cr_matches ?r)
              = map (\<lambda>(index, line). index + 1)
                  (take 5 (filter (\<lambda>(index, line).
                   sublist (map (if sc_case_sensitive needleSearch then (\<lambda>c. c)
                                 else js_canonicalize asciiText)
                              (js_units asciiText (sc_search_term needleSearch)))
                           (map (if sc_case_sensitive needleSearch then (\<lambda>c. c)
                                 else js_canonicalize asciiText) line))
                           (List.enumerate 0 lines)))"
    unfolding Let_def by blast
  have rd': "memReadFileOptimized ''/r/sub/b.txt'' w0 = (Inr fileResult, w1)"
    using rd by simp
  have jn': "concat (map (\<lambda>l. l @ [CHR 0x0A]) lines) = cont @ [CHR 0x0A]"
    using jn unfolding a .
  have ns': "\<forall>l \<in> set lines. CHR 0x0A \<notin> set l"
    using ns unfolding a .
  have m': "(1::nat) = length (filter ?match (List.enumerate 0 lines))"
    using m unfolding t a by simp
  have n': "[1::nat] = map (\<lambda>(index, line). index + 1) (take 5 (filter ?match (List.enumerate 0 lines)))"
    using n unfolding t a by simp
  have "\<exists>w0 w1 fileResult cont lines.
      memReadFileOptimized ''/r/sub/b.txt'' w0 = (Inr fileResult, w1) \<and>
      fc_content fileResult = Some cont \<and>
      concat (map (\<lambda>l. l @ [CHR 0x0A]) lines) = cont @ [CHR 0x0A] \<and>
      (\<forall>l \<in> set lines. CHR 0x0A \<notin> set l) \<and>
      (1::nat) = length (filter ?match (List.enumerate 0 lines)) \<and>
      [1::nat] = map (\<lambda>(index, line). index + 1) (take 5 (filter ?match (List.enumerate 0 lines)))"
    apply (rule exI [of _ w0], rule exI [of _ w1], rule exI [of _ fileResult],
           rule exI [of _ cont], rule exI [of _ lines])
    by (intro conjI rd' co jn' ns' m' n')
  with mem show ?thesis by (rule conjI)
qed

section \<open>Properties of tool execution\<close>

lemma executeLoop_acc:
  "executeLoop stringify ts calls acc w
   = (acc @ fst (executeLoop stringify ts calls [] w),
      snd (executeLoop stringify ts calls [] w))"
proof (induction calls arbitrary: acc w)
  case Nil
  then show ?case by simp
next
  case (Cons c cs)
  obtain r w' where step: "executeToolCall stringify ts c w = (r, w')"
    by (cases "executeToolCall stringify ts c w")
  show ?case
    using Cons.IH [of "acc @ [r]" w'] Cons.IH [of "[r]" w'] step by simp
qed

lemma executeToolCalls_Nil [simp]: "executeToolCalls stringify ts [] w = ([], w)"
  by (simp add: executeToolCalls_def)

lemma executeToolCalls_Cons:
  "executeToolCalls stringify ts (c # cs) w =
     (let (r, w1) = executeToolCall stringify ts c w;
          (rs, w2) = executeToolCalls stringify ts cs w1
      in (r # rs, w2))"
proof -
  obtain r w' where step: "executeToolCall stringify ts c w = (r, w')"
    by (cases "executeToolCall stringify ts c w")
  show ?thesis
    using executeLoop_acc [of stringify ts cs "[r]" w'] step
    by (simp add: executeToolCalls_def case_prod_beta)
qed

lemma executeToolCalls_append:
  "executeToolCalls stringify ts (xs @ ys) w =
     (let (rs1, w1) = executeToolCalls stringify ts xs w;
          (rs2, w2) = executeToolCalls stringify ts ys w1
      in (rs1 @ rs2, w2))"
  by (induction xs arbitrary: w) (simp_all add: executeToolCalls_Cons case_prod_beta Let_def)

lemma executeToolCalls_ids:
  "map toolCallId (fst (executeToolCalls stringify ts calls w)) = map tc_id calls"
proof (induction calls arbitrary: w)
  case Nil
  then show ?case by simp
next
  case (Cons c cs)
  have "toolCallId (fst (executeToolCall stringify ts c w)) = tc_id c"
    by (simp add: executeToolCall_def split: option.splits sum.splits prod.splits)
  then show ?case
    by (simp add: executeToolCalls_Cons case_prod_beta Let_def Cons.IH)
qed

lemma executeToolCalls_length:
  "length (fst (executeToolCalls stringify ts calls w)) = length calls"
  using executeToolCalls_ids [of stringify ts calls w] by (metis length_map)

lemma executeToolCalls_nth:
  assumes "i < length calls"
  shows "fst (executeToolCalls stringify ts calls w) ! i
           = fst (executeToolCall stringify ts (calls ! i)
                    (snd (executeToolCalls stringify ts (take i calls) w)))"
proof -
  have split: "calls = take i calls @ (calls ! i) # drop (Suc i) calls"
    using assms by (simp add: id_take_nth_drop)
  have len: "length (fst (executeToolCalls stringify ts (take i calls) w)) = i"
    using assms by (simp add: executeToolCalls_length)
  have "fst (executeToolCalls stringify ts calls w)
          = fst (executeToolCalls stringify ts (take i calls) w)
            @ fst (executeToolCall stringify ts (calls ! i)
                    (snd (executeToolCalls stringify ts (take i calls) w)))
            # fst (executeToolCalls stringify ts (drop (Suc i) calls)
                    (snd (executeToolCall stringify ts (calls ! i)
                       (snd (executeToolCalls stringify ts (take i calls) w)))))"
    by (subst split) (simp add: executeToolCalls_append executeToolCalls_Cons case_prod_beta Let_def)
  then show ?thesis using len by (simp add: nth_append)
qed

text \<open>
  C2. For every list of tool calls, \<open>executeToolCalls\<close> gives exactly one result per
  call, in the order of the calls, with \<open>toolCallId\<close> equal to the id of the call. The
  calls run one at a time in that order: no call gives no result and leaves the world as
  it was; running \<open>c # cs\<close> is running \<open>c\<close> on the given world, then \<open>cs\<close> on the
  world that \<open>c\<close> left, and the world of the whole run is the one the last call left;
  the world a call leaves is the one its tool's \<open>invoke\<close> left when started on the
  call's arguments, and the unchanged world when no tool has the name; hence running
  \<open>xs @ ys\<close> is running \<open>xs\<close> and then \<open>ys\<close> on the world \<open>xs\<close> left, and the result
  at position \<open>i\<close> is that of call \<open>i\<close> on the world the calls before it left. A call
  that names no tool of the registry, or whose tool throws, yields \<open>success = false\<close>
  and as response the JSON object \<open>{success: false, error}\<close>. No exception leaves the
  function: it returns a value.
\<close>

theorem executeToolCalls_sequential_correlated:
  "map toolCallId (fst (executeToolCalls stringify ts calls w)) = map tc_id calls \<and>
   executeToolCalls stringify ts [] w = ([], w) \<and>
   executeToolCalls stringify ts (c # cs) w =
     (let (r, w1) = executeToolCall stringify ts c w;
          (rs, w2) = executeToolCalls stringify ts cs w1
      in (r # rs, w2)) \<and>
   snd (executeToolCall stringify ts c w) =
     (case find (\<lambda>t. tool_name t = tc_name c) ts of
        Some tool \<Rightarrow> snd (invoke tool (tc_arguments c) w)
      | None \<Rightarrow> w) \<and>
   executeToolCalls stringify ts (xs @ ys) w =
     (let (rs1, w1) = executeToolCalls stringify ts xs w;
          (rs2, w2) = executeToolCalls stringify ts ys w1
      in (rs1 @ rs2, w2)) \<and>
   (\<forall>i < length calls.
      let c = calls ! i;
          r = fst (executeToolCalls stringify ts calls w) ! i;
          wi = snd (executeToolCalls stringify ts (take i calls) w)
      in r = fst (executeToolCall stringify ts c wi) \<and>
         (find (\<lambda>t. tool_name t = tc_name c) ts = None \<longrightarrow>
            success r = False \<and>
            response r = stringify (JObject
              [(''success'', JBool False),
               (''error'', JString (''Unknown tool: '' @ tc_name c))])) \<and>
         (\<forall>tool e w'.
            find (\<lambda>t. tool_name t = tc_name c) ts = Some tool \<and>
            invoke tool (tc_arguments c) wi = (Inl e, w') \<longrightarrow>
            success r = False \<and>
            response r = stringify (JObject
              [(''success'', JBool False),
               (''error'', JString (''Tool execution failed: '' @ getErrorMessage e))])))"
proof (intro conjI allI impI)
  show "map toolCallId (fst (executeToolCalls stringify ts calls w)) = map tc_id calls"
    by (rule executeToolCalls_ids)
next
  show "executeToolCalls stringify ts [] w = ([], w)"
    by (rule executeToolCalls_Nil)
next
  show "executeToolCalls stringify ts (c # cs) w =
     (let (r, w1) = executeToolCall stringify ts c w;
          (rs, w2) = executeToolCalls stringify ts cs w1
      in (r # rs, w2))"
    by (rule executeToolCalls_Cons)
next
  show "snd (executeToolCall stringify ts c w) =
     (case find (\<lambda>t. tool_name t = tc_name c) ts of
        Some tool \<Rightarrow> snd (invoke tool (tc_arguments c) w)
      | None \<Rightarrow> w)"
    by (simp add: executeToolCall_def split: option.splits sum.splits prod.splits)
next
  show "executeToolCalls stringify ts (xs @ ys) w =
     (let (rs1, w1) = executeToolCalls stringify ts xs w;
          (rs2, w2) = executeToolCalls stringify ts ys w1
      in (rs1 @ rs2, w2))"
    by (rule executeToolCalls_append)
next
  fix i assume "i < length calls"
  then show "let c = calls ! i;
          r = fst (executeToolCalls stringify ts calls w) ! i;
          wi = snd (executeToolCalls stringify ts (take i calls) w)
      in r = fst (executeToolCall stringify ts c wi) \<and>
         (find (\<lambda>t. tool_name t = tc_name c) ts = None \<longrightarrow>
            success r = False \<and>
            response r = stringify (JObject
              [(''success'', JBool False),
               (''error'', JString (''Unknown tool: '' @ tc_name c))])) \<and>
         (\<forall>tool e w'.
            find (\<lambda>t. tool_name t = tc_name c) ts = Some tool \<and>
            invoke tool (tc_arguments c) wi = (Inl e, w') \<longrightarrow>
            success r = False \<and>
            response r = stringify (JObject
              [(''success'', JBool False),
               (''error'', JString (''Tool execution failed: '' @ getErrorMessage e))]))"
    by (auto simp add: Let_def executeToolCalls_nth executeToolCall_def)
qed

lemmas example_agent_defs =
  executeToolCalls_def executeToolCall_def echoTool_def boomTool_def exampleCalls_def

theorem executeToolCalls_sequential_correlated_witness:
  "(1::nat) < length exampleCalls \<and>
   find (\<lambda>t. tool_name t = tc_name (exampleCalls ! 1)) [echoTool, boomTool] = None \<and>
   (2::nat) < length exampleCalls \<and>
   find (\<lambda>t. tool_name t = tc_name (exampleCalls ! 2)) [echoTool, boomTool] = Some boomTool \<and>
   invoke boomTool (tc_arguments (exampleCalls ! 2))
     (snd (executeToolCalls simpleStringify [echoTool, boomTool] (take 2 exampleCalls) []))
     = (Inl (JsError ''boom''), [''echo'', ''boom'']) \<and>
   map toolCallId (fst (executeToolCalls simpleStringify [echoTool, boomTool] exampleCalls []))
     = [''c1'', ''c2'', ''c3''] \<and>
   executeToolCalls simpleStringify [echoTool, boomTool] exampleCalls [] =
     (let (r, w1) = executeToolCall simpleStringify [echoTool, boomTool] (hd exampleCalls) [];
          (rs, w2) = executeToolCalls simpleStringify [echoTool, boomTool] (tl exampleCalls) w1
      in (r # rs, w2)) \<and>
   snd (executeToolCall simpleStringify [echoTool, boomTool] (hd exampleCalls) []) = [''echo''] \<and>
   snd (executeToolCalls simpleStringify [echoTool, boomTool] exampleCalls []) = [''echo'', ''boom''] \<and>
   response (fst (executeToolCalls simpleStringify [echoTool, boomTool] exampleCalls []) ! 1)
     = simpleStringify (JObject [(''success'', JBool False),
                                 (''error'', JString ''Unknown tool: nope'')]) \<and>
   response (fst (executeToolCalls simpleStringify [echoTool, boomTool] exampleCalls []) ! 2)
     = simpleStringify (JObject [(''success'', JBool False),
                                 (''error'', JString ''Tool execution failed: boom'')])"
proof -
  have l: "(1::nat) < length exampleCalls" "(2::nat) < length exampleCalls"
    by (simp_all add: exampleCalls_def)
  have f1: "find (\<lambda>t. tool_name t = tc_name (exampleCalls ! 1)) [echoTool, boomTool] = None"
    by (simp add: example_agent_defs)
  have f2: "find (\<lambda>t. tool_name t = tc_name (exampleCalls ! 2)) [echoTool, boomTool] = Some boomTool"
    by (simp add: example_agent_defs)
  have i2: "invoke boomTool (tc_arguments (exampleCalls ! 2))
     (snd (executeToolCalls simpleStringify [echoTool, boomTool] (take 2 exampleCalls) []))
     = (Inl (JsError ''boom''), [''echo'', ''boom''])"
    by (simp add: example_agent_defs)
  note t = executeToolCalls_sequential_correlated
             [where stringify = simpleStringify and ts = "[echoTool, boomTool]"
                and calls = exampleCalls and w = "[]" and c = "hd exampleCalls"
                and cs = "tl exampleCalls" and xs = "[]" and ys = "[]"]
  have hdtl: "hd exampleCalls # tl exampleCalls = exampleCalls"
    by (simp add: exampleCalls_def)
  from t have cons: "executeToolCalls simpleStringify [echoTool, boomTool]
       (hd exampleCalls # tl exampleCalls) [] =
     (let (r, w1) = executeToolCall simpleStringify [echoTool, boomTool] (hd exampleCalls) [];
          (rs, w2) = executeToolCalls simpleStringify [echoTool, boomTool] (tl exampleCalls) w1
      in (r # rs, w2))"
    by blast
  have cons': "executeToolCalls simpleStringify [echoTool, boomTool] exampleCalls [] =
     (let (r, w1) = executeToolCall simpleStringify [echoTool, boomTool] (hd exampleCalls) [];
          (rs, w2) = executeToolCalls simpleStringify [echoTool, boomTool] (tl exampleCalls) w1
      in (r # rs, w2))"
    using cons unfolding hdtl .
  from t have one: "snd (executeToolCall simpleStringify [echoTool, boomTool] (hd exampleCalls) []) =
     (case find (\<lambda>t. tool_name t = tc_name (hd exampleCalls)) [echoTool, boomTool] of
        Some tool \<Rightarrow> snd (invoke tool (tc_arguments (hd exampleCalls)) [])
      | None \<Rightarrow> [])"
    by blast
  have one': "snd (executeToolCall simpleStringify [echoTool, boomTool] (hd exampleCalls) []) = [''echo'']"
    unfolding one by (simp add: echoTool_def boomTool_def exampleCalls_def)
  have fin: "snd (executeToolCalls simpleStringify [echoTool, boomTool] exampleCalls []) = [''echo'', ''boom'']"
    by (simp add: example_agent_defs)
  from t have ids0: "map toolCallId (fst (executeToolCalls simpleStringify [echoTool, boomTool] exampleCalls []))
     = map tc_id exampleCalls"
    by blast
  have idm: "map tc_id exampleCalls = [''c1'', ''c2'', ''c3'']"
    by (simp add: exampleCalls_def)
  have ids: "map toolCallId (fst (executeToolCalls simpleStringify [echoTool, boomTool] exampleCalls []))
     = [''c1'', ''c2'', ''c3'']"
    using ids0 idm by (rule trans)
  from t have all: "\<forall>i < length exampleCalls.
      let c = exampleCalls ! i;
          r = fst (executeToolCalls simpleStringify [echoTool, boomTool] exampleCalls []) ! i;
          wi = snd (executeToolCalls simpleStringify [echoTool, boomTool] (take i exampleCalls) [])
      in r = fst (executeToolCall simpleStringify [echoTool, boomTool] c wi) \<and>
         (find (\<lambda>t. tool_name t = tc_name c) [echoTool, boomTool] = None \<longrightarrow>
            success r = False \<and>
            response r = simpleStringify (JObject
              [(''success'', JBool False),
               (''error'', JString (''Unknown tool: '' @ tc_name c))])) \<and>
         (\<forall>tool e w'.
            find (\<lambda>t. tool_name t = tc_name c) [echoTool, boomTool] = Some tool \<and>
            invoke tool (tc_arguments c) wi = (Inl e, w') \<longrightarrow>
            success r = False \<and>
            response r = simpleStringify (JObject
              [(''success'', JBool False),
               (''error'', JString (''Tool execution failed: '' @ getErrorMessage e))]))"
    by blast
  have r1: "response (fst (executeToolCalls simpleStringify [echoTool, boomTool] exampleCalls []) ! 1)
     = simpleStringify (JObject [(''success'', JBool False),
          (''error'', JString (''Unknown tool: '' @ tc_name (exampleCalls ! 1)))])"
    using all [rule_format, OF l(1)] f1 unfolding Let_def by blast
  have r2: "response (fst (executeToolCalls simpleStringify [echoTool, boomTool] exampleCalls []) ! 2)
     = simpleStringify (JObject [(''success'', JBool False),
          (''error'', JString (''Tool execution failed: '' @ getErrorMessage (JsError ''boom'')))])"
    using all [rule_format, OF l(2)] f2 i2 unfolding Let_def by blast
  have n: "tc_name (exampleCalls ! 1) = ''nope''" by (simp add: exampleCalls_def)
  have r1': "response (fst (executeToolCalls simpleStringify [echoTool, boomTool] exampleCalls []) ! 1)
     = simpleStringify (JObject [(''success'', JBool False),
                                 (''error'', JString ''Unknown tool: nope'')])"
    using r1 n by simp
  have r2': "response (fst (executeToolCalls simpleStringify [echoTool, boomTool] exampleCalls []) ! 2)
     = simpleStringify (JObject [(''success'', JBool False),
                                 (''error'', JString ''Tool execution failed: boom'')])"
    using r2 by simp
  show ?thesis by (intro conjI l f1 f2 i2 ids cons' one' fin r1' r2')
qed

section \<open>Properties of the stream processor\<close>

lemma handleToolCallDelta_content:
  "accumulatedContent (handleToolCallDelta d st) = accumulatedContent st \<and>
   contentSize (handleToolCallDelta d st) = contentSize st"
  by (simp add: handleToolCallDelta_def split: option.splits)

lemma handleToolCallDeltas_content:
  "accumulatedContent (handleToolCallDeltas ds st) = accumulatedContent st \<and>
   contentSize (handleToolCallDeltas ds st) = contentSize st"
  unfolding handleToolCallDeltas_def
  by (induction ds arbitrary: st) (simp_all add: handleToolCallDelta_content)

lemma processChoice_content_size:
  "contentSize st \<le> MAX_ACCUMULATED_SIZE \<Longrightarrow>
   contentSize (fst (processChoice ch st)) \<le> MAX_ACCUMULATED_SIZE"
  by (auto simp: processChoice_def handleContent_def Let_def handleToolCallDeltas_content
        split: option.splits)

lemma consumeStream_content_size:
  "contentSize st \<le> MAX_ACCUMULATED_SIZE \<Longrightarrow>
   contentSize (fst (consumeStream st chunks)) \<le> MAX_ACCUMULATED_SIZE"
proof (induction st chunks rule: consumeStream.induct)
  case (1 state)
  then show ?case by simp
next
  case (2 state rest)
  then show ?case by simp
next
  case (3 state ch rest)
  obtain st' ev req where p: "processChoice ch state = (st', ev, req)"
    by (cases "processChoice ch state")
  have "contentSize st' \<le> MAX_ACCUMULATED_SIZE"
    using processChoice_content_size [OF "3.prems", of ch] p by simp
  then show ?case
    using "3.IH" [OF p [symmetric] refl] p by (simp add: case_prod_beta)
qed

text \<open>
  C1, as amended. For a chunk with a non-empty text delta: when the delta would take
  the accumulated size beyond 50 KB, the accumulated text and size stay as they are and
  a truncation notice is among the events of the chunk (one notice for every such delta,
  not one per stream); when it fits, it is appended to the accumulated text, the size
  grows by its byte length, and the delta is among the events unchanged. Over a whole
  stream the accumulated size never exceeds 50 KB.
\<close>

theorem processStream_content_cap:
  assumes "dl_content (ch_delta ch) = Some cont" and "cont \<noteq> []"
  shows "(let (st', events, requested) = processChoice ch st
          in (contentSize st + byteLength cont > MAX_ACCUMULATED_SIZE \<longrightarrow>
                accumulatedContent st' = accumulatedContent st \<and>
                contentSize st' = contentSize st \<and>
                OutputTextDelta truncationNotice \<in> set events) \<and>
             (contentSize st + byteLength cont \<le> MAX_ACCUMULATED_SIZE \<longrightarrow>
                accumulatedContent st' = accumulatedContent st @ cont \<and>
                contentSize st' = contentSize st + byteLength cont \<and>
                OutputTextDelta cont \<in> set events)) \<and>
         (contentSize st \<le> MAX_ACCUMULATED_SIZE \<longrightarrow>
            contentSize (fst (consumeStream st chunks)) \<le> MAX_ACCUMULATED_SIZE)"
  using assms
  by (auto simp: processChoice_def handleContent_def Let_def handleToolCallDeltas_content
        consumeStream_content_size split: option.splits)

theorem processStream_content_cap_witness:
  "dl_content (ch_delta (the (textChunk ''b''))) = Some ''b'' \<and> ''b'' \<noteq> [] \<and>
   contentSize capState + byteLength ''b'' > MAX_ACCUMULATED_SIZE \<and>
   accumulatedContent (fst (processChoice (the (textChunk ''b'')) capState))
     = accumulatedContent capState \<and>
   OutputTextDelta truncationNotice
     \<in> set (fst (snd (processChoice (the (textChunk ''b'')) capState))) \<and>
   contentSize freshState + byteLength ''b'' \<le> MAX_ACCUMULATED_SIZE \<and>
   accumulatedContent (fst (processChoice (the (textChunk ''b'')) freshState)) = ''b'' \<and>
   OutputTextDelta ''b'' \<in> set (fst (snd (processChoice (the (textChunk ''b'')) freshState))) \<and>
   contentSize freshState \<le> MAX_ACCUMULATED_SIZE \<and>
   contentSize (fst (consumeStream freshState [textChunk ''b''])) \<le> MAX_ACCUMULATED_SIZE"
proof -
  have h: "dl_content (ch_delta (the (textChunk ''b''))) = Some ''b''" "''b'' \<noteq> []"
    by (simp_all add: textChunk_def)
  have over: "contentSize capState + byteLength ''b'' > MAX_ACCUMULATED_SIZE"
    by (simp add: capState_def byteLength_def MAX_ACCUMULATED_SIZE_def)
  have fits: "contentSize freshState + byteLength ''b'' \<le> MAX_ACCUMULATED_SIZE"
    "contentSize freshState \<le> MAX_ACCUMULATED_SIZE"
    by (simp_all add: freshState_def byteLength_def MAX_ACCUMULATED_SIZE_def)
  have a: "accumulatedContent freshState = []" by (simp add: freshState_def)
  from processStream_content_cap [OF h, where st = capState and chunks = "[]"] over
  have c1: "accumulatedContent (fst (processChoice (the (textChunk ''b'')) capState))
     = accumulatedContent capState"
    "OutputTextDelta truncationNotice
     \<in> set (fst (snd (processChoice (the (textChunk ''b'')) capState)))"
    by (simp_all add: case_prod_beta Let_def)
  from processStream_content_cap [OF h, where st = freshState and chunks = "[textChunk ''b'']"] fits a
  have c2: "accumulatedContent (fst (processChoice (the (textChunk ''b'')) freshState)) = ''b''"
    "OutputTextDelta ''b'' \<in> set (fst (snd (processChoice (the (textChunk ''b'')) freshState)))"
    "contentSize (fst (consumeStream freshState [textChunk ''b''])) \<le> MAX_ACCUMULATED_SIZE"
    by (simp_all add: case_prod_beta Let_def)
  show ?thesis by (intro conjI h over fits c1 c2)
qed

text \<open>
  C1 as stated fails. After a first delta of exactly 50 KB, the deltas \<open>b\<close> and \<open>c\<close> are
  not forwarded, and the truncation notice is emitted twice.
\<close>

theorem processStream_over_cap_counterexample:
  "fst (processStream 1 simpleStringify ([] :: unit tool list) (\<lambda>messages. Inr [])
          [textChunk (replicate 51200 (CHR ''a'')), textChunk ''b'', textChunk ''c''] [] ())
   = ([OutputTextDelta (replicate 51200 (CHR ''a'')),
       OutputTextDelta truncationNotice, OutputTextDelta truncationNotice], Completed)"
  by (simp add: textChunk_def processChoice_def handleContent_def MAX_ACCUMULATED_SIZE_def
        byteLength_def Let_def)

section \<open>Properties of the tools\<close>

lemma structuredI:
  assumes "case map_of obj ''success'' of Some (JBool b) \<Rightarrow> True | _ \<Rightarrow> False"
  shows "\<exists>obj' b' w''. ((Inr (stringify (JObject obj)), w') :: (thrown + string) \<times> 'w)
                            = (Inr (stringify (JObject obj')), w'') \<and>
                          map_of obj' ''success'' = Some (JBool b')"
  using assms by (auto split: option.splits json.splits)

lemma readFileInvoke_structured:
  "\<exists>obj b w'. readFileInvoke pf input w = (Inr (pf_stringify pf (JObject obj)), w') \<and>
               map_of obj ''success'' = Some (JBool b)"
proof -
  define P where "P = (\<lambda>out :: (thrown + string) \<times> 'a world.
     \<exists>obj b w'. out = (Inr (pf_stringify pf (JObject obj)), w') \<and>
                map_of obj ''success'' = Some (JBool b))"
  have I: "\<And>obj w'. (case map_of obj ''success'' of Some (JBool b) \<Rightarrow> True | _ \<Rightarrow> False)
             \<Longrightarrow> P (Inr (pf_stringify pf (JObject obj)), w')"
    unfolding P_def by (rule structuredI)
  have "P (readFileInvoke pf input w)"
    unfolding readFileInvoke_def
    by (simp add: I failureWithPath_def fileContentJson_def Let_def split: sum.splits prod.splits)
  then show ?thesis unfolding P_def .
qed

lemma listDirectoryInvoke_structured:
  "\<exists>obj b w'. listDirectoryInvoke pf input w = (Inr (pf_stringify pf (JObject obj)), w') \<and>
               map_of obj ''success'' = Some (JBool b)"
proof -
  define P where "P = (\<lambda>out :: (thrown + string) \<times> 'a world.
     \<exists>obj b w'. out = (Inr (pf_stringify pf (JObject obj)), w') \<and>
                map_of obj ''success'' = Some (JBool b))"
  have I: "\<And>obj w'. (case map_of obj ''success'' of Some (JBool b) \<Rightarrow> True | _ \<Rightarrow> False)
             \<Longrightarrow> P (Inr (pf_stringify pf (JObject obj)), w')"
    unfolding P_def by (rule structuredI)
  have "P (listDirectoryInvoke pf input w)"
    unfolding listDirectoryInvoke_def
    by (simp add: I failureWithPath_def directoryListingJson_def Let_def split: sum.splits prod.splits)
  then show ?thesis unfolding P_def .
qed

lemma getFileInfoInvoke_structured:
  "\<exists>obj b w'. getFileInfoInvoke pf input w = (Inr (pf_stringify pf (JObject obj)), w') \<and>
               map_of obj ''success'' = Some (JBool b)"
proof -
  define P where "P = (\<lambda>out :: (thrown + string) \<times> 'a world.
     \<exists>obj b w'. out = (Inr (pf_stringify pf (JObject obj)), w') \<and>
                map_of obj ''success'' = Some (JBool b))"
  have I: "\<And>obj w'. (case map_of obj ''success'' of Some (JBool b) \<Rightarrow> True | _ \<Rightarrow> False)
             \<Longrightarrow> P (Inr (pf_stringify pf (JObject obj)), w')"
    unfolding P_def by (rule structuredI)
  have "P (getFileInfoInvoke pf input w)"
    unfolding getFileInfoInvoke_def
    by (simp add: I failureWithPath_def fileInfoJson_def Let_def split: sum.splits prod.splits)
  then show ?thesis unfolding P_def .
qed

lemma writeFileInvoke_structured:
  "\<exists>obj b w'. writeFileInvoke pf input w = (Inr (pf_stringify pf (JObject obj)), w') \<and>
               map_of obj ''success'' = Some (JBool b)"
proof -
  define P where "P = (\<lambda>out :: (thrown + string) \<times> 'a world.
     \<exists>obj b w'. out = (Inr (pf_stringify pf (JObject obj)), w') \<and>
                map_of obj ''success'' = Some (JBool b))"
  have I: "\<And>obj w'. (case map_of obj ''success'' of Some (JBool b) \<Rightarrow> True | _ \<Rightarrow> False)
             \<Longrightarrow> P (Inr (pf_stringify pf (JObject obj)), w')"
    unfolding P_def by (rule structuredI)
  have "P (writeFileInvoke pf input w)"
    unfolding writeFileInvoke_def
    by (simp add: I failureWithPath_def writeFileResultJson_def Let_def split: sum.splits prod.splits)
  then show ?thesis unfolding P_def .
qed

lemma searchFilesInvoke_structured:
  "\<exists>obj b w'. searchFilesInvoke pf input w = (Inr (pf_stringify pf (JObject obj)), w') \<and>
               map_of obj ''success'' = Some (JBool b)"
proof -
  define P where "P = (\<lambda>out :: (thrown + string) \<times> 'a world.
     \<exists>obj b w'. out = (Inr (pf_stringify pf (JObject obj)), w') \<and>
                map_of obj ''success'' = Some (JBool b))"
  have I: "\<And>obj w'. (case map_of obj ''success'' of Some (JBool b) \<Rightarrow> True | _ \<Rightarrow> False)
             \<Longrightarrow> P (Inr (pf_stringify pf (JObject obj)), w')"
    unfolding P_def by (rule structuredI)
  have "P (searchFilesInvoke pf input w)"
    unfolding searchFilesInvoke_def
    by (simp add: I failure_def Let_def split: sum.splits prod.splits)
  then show ?thesis unfolding P_def .
qed

lemma analyzeProjectInvoke_structured:
  "\<exists>obj b w'. analyzeProjectInvoke pf input w = (Inr (pf_stringify pf (JObject obj)), w') \<and>
               map_of obj ''success'' = Some (JBool b)"
proof -
  define P where "P = (\<lambda>out :: (thrown + string) \<times> 'a world.
     \<exists>obj b w'. out = (Inr (pf_stringify pf (JObject obj)), w') \<and>
                map_of obj ''success'' = Some (JBool b))"
  have I: "\<And>obj w'. (case map_of obj ''success'' of Some (JBool b) \<Rightarrow> True | _ \<Rightarrow> False)
             \<Longrightarrow> P (Inr (pf_stringify pf (JObject obj)), w')"
    unfolding P_def by (rule structuredI)
  have "P (analyzeProjectInvoke pf input w)"
    unfolding analyzeProjectInvoke_def
    by (simp add: I failure_def analysisJson_def case_prod_beta Let_def split: sum.splits prod.splits)
  then show ?thesis unfolding P_def .
qed

lemma searchFileContentInvoke_structured:
  "\<exists>obj b w'. searchFileContentInvoke pf input w = (Inr (pf_stringify pf (JObject obj)), w') \<and>
               map_of obj ''success'' = Some (JBool b)"
proof -
  define P where "P = (\<lambda>out :: (thrown + string) \<times> 'a world.
     \<exists>obj b w'. out = (Inr (pf_stringify pf (JObject obj)), w') \<and>
                map_of obj ''success'' = Some (JBool b))"
  have I: "\<And>obj w'. (case map_of obj ''success'' of Some (JBool b) \<Rightarrow> True | _ \<Rightarrow> False)
             \<Longrightarrow> P (Inr (pf_stringify pf (JObject obj)), w')"
    unfolding P_def by (rule structuredI)
  have "P (searchFileContentInvoke pf input w)"
    unfolding searchFileContentInvoke_def
    by (simp add: I failure_def case_prod_beta Let_def split: sum.splits prod.splits)
  then show ?thesis unfolding P_def .
qed

lemma fuzzyFindFilesInvoke_structured:
  "\<exists>obj b w'. fuzzyFindFilesInvoke pf input w = (Inr (pf_stringify pf (JObject obj)), w') \<and>
               map_of obj ''success'' = Some (JBool b)"
proof -
  define P where "P = (\<lambda>out :: (thrown + string) \<times> 'a world.
     \<exists>obj b w'. out = (Inr (pf_stringify pf (JObject obj)), w') \<and>
                map_of obj ''success'' = Some (JBool b))"
  have I: "\<And>obj w'. (case map_of obj ''success'' of Some (JBool b) \<Rightarrow> True | _ \<Rightarrow> False)
             \<Longrightarrow> P (Inr (pf_stringify pf (JObject obj)), w')"
    unfolding P_def by (rule structuredI)
  have "P (fuzzyFindFilesInvoke pf input w)"
    unfolding fuzzyFindFilesInvoke_def
    by (simp add: I failure_def Let_def split: sum.splits prod.splits option.splits json.splits)
  then show ?thesis unfolding P_def .
qed

lemma readFileInvoke_malformed:
  assumes "pf_parse pf input = Inl msg"
  shows "\<exists>obj w'. readFileInvoke pf input w = (Inr (pf_stringify pf (JObject obj)), w') \<and>
                 map_of obj ''success'' = Some (JBool False) \<and> map_of obj ''error'' \<noteq> None"
proof -
  define P where "P = (\<lambda>out :: (thrown + string) \<times> 'a world.
     \<exists>obj w'. out = (Inr (pf_stringify pf (JObject obj)), w') \<and>
              map_of obj ''success'' = Some (JBool False) \<and> map_of obj ''error'' \<noteq> None)"
  have I: "\<And>obj w'. map_of obj ''success'' = Some (JBool False) \<and> map_of obj ''error'' \<noteq> None
             \<Longrightarrow> P (Inr (pf_stringify pf (JObject obj)), w')"
    unfolding P_def by blast
  have "P (readFileInvoke pf input w)"
    using assms by (simp add: readFileInvoke_def validateWith_def validateToolInput_def failureWithPath_def I)
  then show ?thesis unfolding P_def .
qed

lemma listDirectoryInvoke_malformed:
  assumes "pf_parse pf input = Inl msg"
  shows "\<exists>obj w'. listDirectoryInvoke pf input w = (Inr (pf_stringify pf (JObject obj)), w') \<and>
                 map_of obj ''success'' = Some (JBool False) \<and> map_of obj ''error'' \<noteq> None"
proof -
  define P where "P = (\<lambda>out :: (thrown + string) \<times> 'a world.
     \<exists>obj w'. out = (Inr (pf_stringify pf (JObject obj)), w') \<and>
              map_of obj ''success'' = Some (JBool False) \<and> map_of obj ''error'' \<noteq> None)"
  have I: "\<And>obj w'. map_of obj ''success'' = Some (JBool False) \<and> map_of obj ''error'' \<noteq> None
             \<Longrightarrow> P (Inr (pf_stringify pf (JObject obj)), w')"
    unfolding P_def by blast
  have "P (listDirectoryInvoke pf input w)"
    using assms by (simp add: listDirectoryInvoke_def validateWith_def validateToolInput_def failureWithPath_def I)
  then show ?thesis unfolding P_def .
qed

lemma getFileInfoInvoke_malformed:
  assumes "pf_parse pf input = Inl msg"
  shows "\<exists>obj w'. getFileInfoInvoke pf input w = (Inr (pf_stringify pf (JObject obj)), w') \<and>
                 map_of obj ''success'' = Some (JBool False) \<and> map_of obj ''error'' \<noteq> None"
proof -
  define P where "P = (\<lambda>out :: (thrown + string) \<times> 'a world.
     \<exists>obj w'. out = (Inr (pf_stringify pf (JObject obj)), w') \<and>
              map_of obj ''success'' = Some (JBool False) \<and> map_of obj ''error'' \<noteq> None)"
  have I: "\<And>obj w'. map_of obj ''success'' = Some (JBool False) \<and> map_of obj ''error'' \<noteq> None
             \<Longrightarrow> P (Inr (pf_stringify pf (JObject obj)), w')"
    unfolding P_def by blast
  have "P (getFileInfoInvoke pf input w)"
    using assms by (simp add: getFileInfoInvoke_def validateWith_def validateToolInput_def failureWithPath_def I)
  then show ?thesis unfolding P_def .
qed

lemma writeFileInvoke_malformed:
  assumes "pf_parse pf input = Inl msg"
  shows "\<exists>obj w'. writeFileInvoke pf input w = (Inr (pf_stringify pf (JObject obj)), w') \<and>
                 map_of obj ''success'' = Some (JBool False) \<and> map_of obj ''error'' \<noteq> None"
proof -
  define P where "P = (\<lambda>out :: (thrown + string) \<times> 'a world.
     \<exists>obj w'. out = (Inr (pf_stringify pf (JObject obj)), w') \<and>
              map_of obj ''success'' = Some (JBool False) \<and> map_of obj ''error'' \<noteq> None)"
  have I: "\<And>obj w'. map_of obj ''success'' = Some (JBool False) \<and> map_of obj ''error'' \<noteq> None
             \<Longrightarrow> P (Inr (pf_stringify pf (JObject obj)), w')"
    unfolding P_def by blast
  have "P (writeFileInvoke pf input w)"
    using assms by (simp add: writeFileInvoke_def validateWith_def validateToolInput_def failureWithPath_def I)
  then show ?thesis unfolding P_def .
qed

lemma searchFilesInvoke_malformed:
  assumes "pf_parse pf input = Inl msg"
  shows "\<exists>obj w'. searchFilesInvoke pf input w = (Inr (pf_stringify pf (JObject obj)), w') \<and>
                 map_of obj ''success'' = Some (JBool False) \<and> map_of obj ''error'' \<noteq> None"
proof -
  define P where "P = (\<lambda>out :: (thrown + string) \<times> 'a world.
     \<exists>obj w'. out = (Inr (pf_stringify pf (JObject obj)), w') \<and>
              map_of obj ''success'' = Some (JBool False) \<and> map_of obj ''error'' \<noteq> None)"
  have I: "\<And>obj w'. map_of obj ''success'' = Some (JBool False) \<and> map_of obj ''error'' \<noteq> None
             \<Longrightarrow> P (Inr (pf_stringify pf (JObject obj)), w')"
    unfolding P_def by blast
  have "P (searchFilesInvoke pf input w)"
    using assms by (simp add: searchFilesInvoke_def validateWith_def validateToolInput_def failure_def I)
  then show ?thesis unfolding P_def .
qed

lemma analyzeProjectInvoke_malformed:
  assumes "pf_parse pf input = Inl msg"
  shows "\<exists>obj w'. analyzeProjectInvoke pf input w = (Inr (pf_stringify pf (JObject obj)), w') \<and>
                 map_of obj ''success'' = Some (JBool False) \<and> map_of obj ''error'' \<noteq> None"
proof -
  define P where "P = (\<lambda>out :: (thrown + string) \<times> 'a world.
     \<exists>obj w'. out = (Inr (pf_stringify pf (JObject obj)), w') \<and>
              map_of obj ''success'' = Some (JBool False) \<and> map_of obj ''error'' \<noteq> None)"
  have I: "\<And>obj w'. map_of obj ''success'' = Some (JBool False) \<and> map_of obj ''error'' \<noteq> None
             \<Longrightarrow> P (Inr (pf_stringify pf (JObject obj)), w')"
    unfolding P_def by blast
  have "P (analyzeProjectInvoke pf input w)"
    using assms by (simp add: analyzeProjectInvoke_def validateAnalyzeProjectInput_def failure_def I)
  then show ?thesis unfolding P_def .
qed

lemma searchFileContentInvoke_malformed:
  assumes "pf_parse pf input = Inl msg"
  shows "\<exists>obj w'. searchFileContentInvoke pf input w = (Inr (pf_stringify pf (JObject obj)), w') \<and>
                 map_of obj ''success'' = Some (JBool False) \<and> map_of obj ''error'' \<noteq> None"
proof -
  define P where "P = (\<lambda>out :: (thrown + string) \<times> 'a world.
     \<exists>obj w'. out = (Inr (pf_stringify pf (JObject obj)), w') \<and>
              map_of obj ''success'' = Some (JBool False) \<and> map_of obj ''error'' \<noteq> None)"
  have I: "\<And>obj w'. map_of obj ''success'' = Some (JBool False) \<and> map_of obj ''error'' \<noteq> None
             \<Longrightarrow> P (Inr (pf_stringify pf (JObject obj)), w')"
    unfolding P_def by blast
  have "P (searchFileContentInvoke pf input w)"
    using assms by (simp add: searchFileContentInvoke_def validateSearchFileContentInput_def failure_def I)
  then show ?thesis unfolding P_def .
qed

lemma fuzzyFindFilesInvoke_malformed:
  assumes "pf_parse pf input = Inl msg"
  shows "\<exists>obj w'. fuzzyFindFilesInvoke pf input w = (Inr (pf_stringify pf (JObject obj)), w') \<and>
                 map_of obj ''success'' = Some (JBool False) \<and> map_of obj ''error'' \<noteq> None"
proof -
  define P where "P = (\<lambda>out :: (thrown + string) \<times> 'a world.
     \<exists>obj w'. out = (Inr (pf_stringify pf (JObject obj)), w') \<and>
              map_of obj ''success'' = Some (JBool False) \<and> map_of obj ''error'' \<noteq> None)"
  have I: "\<And>obj w'. map_of obj ''success'' = Some (JBool False) \<and> map_of obj ''error'' \<noteq> None
             \<Longrightarrow> P (Inr (pf_stringify pf (JObject obj)), w')"
    unfolding P_def by blast
  have "P (fuzzyFindFilesInvoke pf input w)"
    using assms by (simp add: fuzzyFindFilesInvoke_def failure_def I)
  then show ?thesis unfolding P_def .
qed


lemma getProp_other:
  "key \<noteq> k \<Longrightarrow> getProp (JObject ((key, v) # kvs)) k = getProp (JObject kvs) k"
  by (simp add: getProp_def)

lemma validateSearchFileContentParsed_ignores:
  assumes "key \<notin> set [''directory_path'', ''search_term'', ''file_extensions'',
                        ''max_results'', ''case_sensitive'']"
  shows "validateSearchFileContentParsed n e (JObject ((key, v) # kvs))
           = validateSearchFileContentParsed n e (JObject kvs)"
proof -
  have "getProp (JObject ((key, v) # kvs)) ''directory_path'' = getProp (JObject kvs) ''directory_path''"
    "getProp (JObject ((key, v) # kvs)) ''search_term'' = getProp (JObject kvs) ''search_term''"
    "getProp (JObject ((key, v) # kvs)) ''file_extensions'' = getProp (JObject kvs) ''file_extensions''"
    "getProp (JObject ((key, v) # kvs)) ''max_results'' = getProp (JObject kvs) ''max_results''"
    "getProp (JObject ((key, v) # kvs)) ''case_sensitive'' = getProp (JObject kvs) ''case_sensitive''"
    using assms by (simp_all add: getProp_other)
  then show ?thesis
    unfolding validateSearchFileContentParsed_def by (simp only:)
qed

lemmas invoke_structured =
  readFileInvoke_structured listDirectoryInvoke_structured getFileInfoInvoke_structured
  writeFileInvoke_structured searchFilesInvoke_structured analyzeProjectInvoke_structured
  searchFileContentInvoke_structured fuzzyFindFilesInvoke_structured

lemmas invoke_malformed =
  readFileInvoke_malformed listDirectoryInvoke_malformed getFileInfoInvoke_malformed
  writeFileInvoke_malformed searchFilesInvoke_malformed analyzeProjectInvoke_malformed
  searchFileContentInvoke_malformed fuzzyFindFilesInvoke_malformed

lemmas tool_defs =
  readFileTool_def listDirectoryTool_def getFileInfoTool_def writeFileTool_def
  searchFilesTool_def analyzeProjectTool_def searchFileContentTool_def fuzzyFindFilesTool_def

text \<open>
  C7, as amended. For every tool of the registry and every argument string, \<open>invoke\<close>
  does not throw: it returns the \<open>JSON.stringify\<close> of an object with a boolean
  \<open>success\<close>. An argument string that \<open>JSON.parse\<close> rejects gives
  \<open>{success: false, error}\<close>. A property that the parameter schema does not declare is
  not a reason for rejection: the validator of \<open>search_file_content\<close> gives the same
  result with and without it.
\<close>

theorem tools_invoke_structured:
  assumes "t \<in> set (tools pf)"
  shows "(\<exists>obj b w'. invoke t input w = (Inr (pf_stringify pf (JObject obj)), w') \<and>
                     map_of obj ''success'' = Some (JBool b)) \<and>
         (\<forall>msg. pf_parse pf input = Inl msg \<longrightarrow>
            (\<exists>obj w'. invoke t input w = (Inr (pf_stringify pf (JObject obj)), w') \<and>
                      map_of obj ''success'' = Some (JBool False) \<and>
                      map_of obj ''error'' \<noteq> None)) \<and>
         (\<forall>key v kvs.
            key \<notin> set (tool_properties (searchFileContentTool pf)) \<longrightarrow>
            validateSearchFileContentParsed (pf_illTypedNumber pf) (pf_illTypedExtensions pf)
              (JObject ((key, v) # kvs))
            = validateSearchFileContentParsed (pf_illTypedNumber pf) (pf_illTypedExtensions pf)
                (JObject kvs))"
proof (intro conjI allI impI)
  show "\<exists>obj b w'. invoke t input w = (Inr (pf_stringify pf (JObject obj)), w') \<and>
                     map_of obj ''success'' = Some (JBool b)"
    using assms invoke_structured [of pf input w]
    by (auto simp: tools_def tool_defs)
next
  fix msg assume "pf_parse pf input = Inl msg"
  then show "\<exists>obj w'. invoke t input w = (Inr (pf_stringify pf (JObject obj)), w') \<and>
                      map_of obj ''success'' = Some (JBool False) \<and>
                      map_of obj ''error'' \<noteq> None"
    using assms invoke_malformed [of pf input msg w]
    by (auto simp: tools_def tool_defs)
next
  fix key v kvs
  assume "key \<notin> set (tool_properties (searchFileContentTool pf))"
  then show "validateSearchFileContentParsed (pf_illTypedNumber pf) (pf_illTypedExtensions pf)
              (JObject ((key, v) # kvs))
            = validateSearchFileContentParsed (pf_illTypedNumber pf) (pf_illTypedExtensions pf)
                (JObject kvs)"
    by (intro validateSearchFileContentParsed_ignores) (simp add: searchFileContentTool_def)
qed

theorem tools_invoke_structured_witness:
  "searchFileContentTool memPlatform \<in> set (tools memPlatform) \<and>
   (\<exists>obj b w'. invoke (searchFileContentTool memPlatform) extraPropertyInput
                  (exampleFs, newAdaptiveFileCache 50 300000)
                = (Inr (pf_stringify memPlatform (JObject obj)), w') \<and>
               map_of obj ''success'' = Some (JBool b)) \<and>
   pf_parse memPlatform ''{'' = Inl ''Unexpected token'' \<and>
   (\<exists>obj w'. invoke (searchFileContentTool memPlatform) ''{''
                (exampleFs, newAdaptiveFileCache 50 300000)
              = (Inr (pf_stringify memPlatform (JObject obj)), w') \<and>
             map_of obj ''success'' = Some (JBool False) \<and> map_of obj ''error'' \<noteq> None) \<and>
   ''verbose'' \<notin> set (tool_properties (searchFileContentTool memPlatform)) \<and>
   validateSearchFileContentParsed (pf_illTypedNumber memPlatform) (pf_illTypedExtensions memPlatform)
     (JObject [(''verbose'', JBool True), (''directory_path'', JString ''/r''),
               (''search_term'', JString ''Needle'')])
   = validateSearchFileContentParsed (pf_illTypedNumber memPlatform)
       (pf_illTypedExtensions memPlatform)
       (JObject [(''directory_path'', JString ''/r''), (''search_term'', JString ''Needle'')])"
proof -
  have m: "searchFileContentTool memPlatform \<in> set (tools memPlatform)"
    by (simp add: tools_def)
  have p: "pf_parse memPlatform ''{'' = Inl ''Unexpected token''"
    by (simp add: memPlatform_def exampleParse_def extraPropertyInput_def)
  have v: "''verbose'' \<notin> set (tool_properties (searchFileContentTool memPlatform))"
    by (simp add: searchFileContentTool_def)
  note t1 = tools_invoke_structured [OF m, of extraPropertyInput
              "(exampleFs, newAdaptiveFileCache 50 300000)"]
  note t2 = tools_invoke_structured [OF m, of "''{''"
              "(exampleFs, newAdaptiveFileCache 50 300000)"]
  have a: "\<exists>obj b w'. invoke (searchFileContentTool memPlatform) extraPropertyInput
                  (exampleFs, newAdaptiveFileCache 50 300000)
                = (Inr (pf_stringify memPlatform (JObject obj)), w') \<and>
               map_of obj ''success'' = Some (JBool b)"
    using t1 by blast
  have b: "\<exists>obj w'. invoke (searchFileContentTool memPlatform) ''{''
                (exampleFs, newAdaptiveFileCache 50 300000)
              = (Inr (pf_stringify memPlatform (JObject obj)), w') \<and>
             map_of obj ''success'' = Some (JBool False) \<and> map_of obj ''error'' \<noteq> None"
    using t2 p by blast
  have c: "validateSearchFileContentParsed (pf_illTypedNumber memPlatform) (pf_illTypedExtensions memPlatform)
     (JObject [(''verbose'', JBool True), (''directory_path'', JString ''/r''),
               (''search_term'', JString ''Needle'')])
   = validateSearchFileContentParsed (pf_illTypedNumber memPlatform)
       (pf_illTypedExtensions memPlatform)
       (JObject [(''directory_path'', JString ''/r''), (''search_term'', JString ''Needle'')])"
    using t1 v by blast
  show ?thesis by (intro conjI m a p b v c)
qed

lemma extraPropertyInput_validated:
  "validateSearchFileContentInput (pf_parse memPlatform) (pf_illTypedNumber memPlatform)
     (pf_illTypedExtensions memPlatform) extraPropertyInput = Inr needleSearch"
  by (simp add: validateSearchFileContentInput_def validateSearchFileContentParsed_def
        memPlatform_def exampleParse_def getProp_def jsTruthy_def needleSearch_def)

text \<open>
  C7 as stated fails. \<open>search_file_content\<close> declares five properties and
  \<open>additionalProperties: false\<close>; called with an object that also carries \<open>verbose\<close>, it
  does not reject the arguments but runs the search and returns \<open>success: true\<close>.
\<close>

theorem search_file_content_extra_property_counterexample:
  "''verbose'' \<notin> set (tool_properties (searchFileContentTool memPlatform)) \<and>
   tool_additionalProperties (searchFileContentTool memPlatform) = False \<and>
   pf_parse memPlatform extraPropertyInput
     = Inr (JObject [(''directory_path'', JString ''/r''), (''search_term'', JString ''Needle''),
                     (''verbose'', JBool True)]) \<and>
   fst (invoke (searchFileContentTool memPlatform) extraPropertyInput
          (exampleFs, newAdaptiveFileCache 50 300000))
     = Inr (pf_stringify memPlatform
              (JObject [(''success'', JBool True),
                        (''directory_path'', JString ''/r''),
                        (''search_term'', JString ''Needle''),
                        (''results'',
                           JArray [JObject [(''file_path'', JString ''/r/sub/b.txt''),
                                            (''relative_path'', JString ''sub/b.txt''),
                                            (''matches'',
                                               JArray [JObject [(''line_number'', JNum 1),
                                                                (''line_content'', JString ''needle in b''),
                                                                (''match_position'', JNum 0)]]),
                                            (''total_matches'', JNum 1)]]),
                        (''total_files_with_matches'', JNum 1),
                        (''truncated'', JBool False)]))"
proof -
  have run: "fst (searchFileContentRun (pf_text memPlatform) (pf_lib memPlatform)
                    (pf_ops memPlatform) (pf_readFileOptimized memPlatform) needleSearch
                    (exampleFs, newAdaptiveFileCache 50 300000))
     = [\<lparr> cr_file_path = ''/r/sub/b.txt'', cr_relative_path = ''sub/b.txt'',
          cr_matches = [\<lparr> line_number = 1, line_content = ''needle in b'', match_position = 0 \<rparr>],
          cr_total_matches = 1 \<rparr>]"
    using needleSearch_results by (simp add: memPlatform_def)
  have p: "pf_parse memPlatform extraPropertyInput
     = Inr (JObject [(''directory_path'', JString ''/r''), (''search_term'', JString ''Needle''),
                     (''verbose'', JBool True)])"
    by (simp add: memPlatform_def exampleParse_def)
  have t: "''verbose'' \<notin> set (tool_properties (searchFileContentTool memPlatform))"
    "tool_additionalProperties (searchFileContentTool memPlatform) = False"
    by (simp_all add: searchFileContentTool_def)
  have r: "path_resolve (pf_lib memPlatform) ''/r'' = ''/r''"
    by (simp add: memPlatform_def posixPath_def)
  have n: "sc_directory_path needleSearch = ''/r''" "sc_search_term needleSearch = ''Needle''"
    "sc_max_results needleSearch = 20"
    by (simp_all add: needleSearch_def)
  have i: "fst (invoke (searchFileContentTool memPlatform) extraPropertyInput
          (exampleFs, newAdaptiveFileCache 50 300000))
     = Inr (pf_stringify memPlatform
              (JObject [(''success'', JBool True),
                        (''directory_path'', JString ''/r''),
                        (''search_term'', JString ''Needle''),
                        (''results'',
                           JArray [JObject [(''file_path'', JString ''/r/sub/b.txt''),
                                            (''relative_path'', JString ''sub/b.txt''),
                                            (''matches'',
                                               JArray [JObject [(''line_number'', JNum 1),
                                                                (''line_content'', JString ''needle in b''),
                                                                (''match_position'', JNum 0)]]),
                                            (''total_matches'', JNum 1)]]),
                        (''total_files_with_matches'', JNum 1),
                        (''truncated'', JBool False)]))"
    by (simp add: searchFileContentTool_def searchFileContentInvoke_def
          extraPropertyInput_validated case_prod_beta run r n
          contentResultJson_def lineMatchJson_def jsonNat_def)
  show ?thesis by (intro conjI t p i)
qed

end
